theory Spec2Isabelle
  imports Complex_Main
begin

section \<open>Conventions of the embedding\<close>

text \<open>
  The repository holds two variants of one thermal engine:
  \<^item> \<^verbatim>\<open>cpp-weld-2/WeldingSimulation.{h,cpp}\<close> with its driver \<^verbatim>\<open>cpp-weld-2/main.cpp\<close>
    (class \<^verbatim>\<open>WeldingSimulation\<close>), and
  \<^item> \<^verbatim>\<open>cpp-weld/main.cpp\<close> (class \<^verbatim>\<open>TIGSimulator\<close>).

  Both are embedded. A C++ \<^verbatim>\<open>double\<close> is idealised as a \<^typ>\<open>real\<close>: every parameter is a
  finite number, and rounding, overflow and underflow are outside the model. A quotient of
  the program with a zero divisor is an infinity or a NaN, whereas \<open>x / 0 = 0\<close> in HOL: the
  real model says what the program computes only where no divisor is zero. The statements
  on the values that a step leaves in the interior cells (C1, C2, C5, C7) therefore assume
  the divisors to be non-zero (the predicates of the subsection on divisors), and the time
  step of \<^verbatim>\<open>WeldingSimulation\<close> is
  embedded a second time with the special values of \<^verbatim>\<open>double\<close>, to state what a zero divisor
  does. A \<^verbatim>\<open>std::vector<double>\<close> is a \<^typ>\<open>real list\<close>. The \<^verbatim>\<open>int\<close> fields of the
  configuration structs stay \<^typ>\<open>int\<close>; once a constructor has sized its vectors the grid
  dimensions are natural numbers. Console output, CSV export and directory creation only read
  the fields and are left out.

  Field names follow the source. Single letters that would capture variables are lengthened:
  \<^verbatim>\<open>V, I, a, b\<close> of the configuration become \<open>cfg_V, cfg_I, cfg_a, cfg_b\<close>, the fields of
  \<^verbatim>\<open>Material\<close> carry the prefix \<open>mat_\<close>, a member \<^verbatim>\<open>name_\<close> of \<^verbatim>\<open>WeldingSimulation\<close> is
  written \<open>ws_name\<close> (an identifier cannot end in an underscore), and everything of the
  \<^verbatim>\<open>TIGSimulator\<close> variant carries the prefix \<open>tig_\<close>.
\<close>

section \<open>Loop nests over a row-major grid\<close>

text \<open>
  Both variants fill a flattened array with
  \<^verbatim>\<open>for (j ...) for (i ...) { arr[j * nx + i] = f(i, j); }\<close>.
  \<open>row_sweep\<close> is the inner loop, \<open>grid_sweep\<close> the nest; the rows \<open>js\<close> and columns \<open>is\<close>
  visited are parameters because the two variants sweep different ranges.
\<close>

definition row_sweep :: "nat list \<Rightarrow> nat \<Rightarrow> nat \<Rightarrow> (nat \<Rightarrow> nat \<Rightarrow> 'a) \<Rightarrow> 'a list \<Rightarrow> 'a list" where
  "row_sweep cols w j f arr = fold (\<lambda>i acc. acc[j * w + i := f i j]) cols arr"

definition grid_sweep :: "nat list \<Rightarrow> nat list \<Rightarrow> nat \<Rightarrow> (nat \<Rightarrow> nat \<Rightarrow> 'a) \<Rightarrow> 'a list \<Rightarrow> 'a list" where
  "grid_sweep rows cols w f arr = fold (\<lambda>j acc. row_sweep cols w j f acc) rows arr"

section \<open>Variant 1: WeldingSimulation\<close>

subsection \<open>Material\<close>

record Material =
  mat_name :: string
  mat_rho :: real
  mat_cp :: real
  mat_k :: real
  mat_alpha :: real
  mat_T_melt :: real
  mat_T_crit :: real

definition Material_ctor :: "string \<Rightarrow> real \<Rightarrow> real \<Rightarrow> real \<Rightarrow> real \<Rightarrow> real \<Rightarrow> Material" where
  "Material_ctor nm rho0 cp0 k0 Tm Tc =
     \<lparr>mat_name = nm, mat_rho = rho0, mat_cp = cp0, mat_k = k0,
      mat_alpha = k0 / (rho0 * cp0), mat_T_melt = Tm, mat_T_crit = Tc\<rparr>"

definition Material_get_k :: "Material \<Rightarrow> real \<Rightarrow> real" where
  "Material_get_k m T =
     (if T < mat_T_crit m then mat_k m
      else if T < mat_T_melt m
        then mat_k m * (1 + (T - mat_T_crit m) / (mat_T_melt m - mat_T_crit m) * (1/10))
      else mat_k m * (11/10))"

definition Material_get_cp :: "Material \<Rightarrow> real \<Rightarrow> real" where
  "Material_get_cp m T =
     (if T < mat_T_crit m then mat_cp m
      else if T < mat_T_melt m
        then mat_cp m * (1 + (T - mat_T_crit m) / (mat_T_melt m - mat_T_crit m) * (2/10))
      else mat_cp m * (12/10))"

definition Material_get_rho :: "Material \<Rightarrow> real \<Rightarrow> real" where
  "Material_get_rho m T =
     (if T < mat_T_crit m then mat_rho m
      else if T < mat_T_melt m
        then mat_rho m * (1 - (T - mat_T_crit m) / (mat_T_melt m - mat_T_crit m) * (5/100))
      else mat_rho m * (95/100))"

subsection \<open>Configuration and simulation object\<close>

record SimulationConfig =
  Lx :: real
  Ly :: real
  thickness :: real
  nx :: int
  ny :: int
  mat_1_name :: string
  mat_1_rho :: real
  mat_1_cp :: real
  mat_1_k :: real
  mat_1_T_melt :: real
  mat_1_T_crit :: real
  mat_2_name :: string
  mat_2_rho :: real
  mat_2_cp :: real
  mat_2_k :: real
  mat_2_T_melt :: real
  mat_2_T_crit :: real
  cfg_V :: real
  cfg_I :: real
  eta :: real
  v_weld :: real
  x_start :: real
  y_arc :: real
  cfg_a :: real
  cfg_b :: real
  cf :: real
  cr :: real
  ff :: real
  fr :: real
  T0 :: real
  h_conv :: real
  dt :: real
  theta :: real
  weld_process :: string
  use_gas :: bool
  snapshot_time :: real
  save_video_frames :: bool
  video_frames_per_second :: int

text \<open>The default member initialisers of \<^verbatim>\<open>struct SimulationConfig\<close>.\<close>

definition default_config :: SimulationConfig where
  "default_config =
     \<lparr>Lx = 15/100, Ly = 10/100, thickness = 6/1000, nx = 151, ny = 101,
      mat_1_name = ''Mild Steel'', mat_1_rho = 7850, mat_1_cp = 500, mat_1_k = 45,
      mat_1_T_melt = 1811, mat_1_T_crit = 1273,
      mat_2_name = ''Stainless Steel 304'', mat_2_rho = 7900, mat_2_cp = 500, mat_2_k = 163/10,
      mat_2_T_melt = 1723, mat_2_T_crit = 1273,
      cfg_V = 25, cfg_I = 150, eta = 85/100, v_weld = 6/1000, x_start = 2/100, y_arc = 0,
      cfg_a = 5/1000, cfg_b = 4/1000, cf = 3/1000, cr = 10/1000, ff = 6/10, fr = 14/10,
      T0 = 293, h_conv = 20, dt = 2/100, theta = 5/10,
      weld_process = ''TIG'', use_gas = True, snapshot_time = -1,
      save_video_frames = False, video_frames_per_second = 10\<rparr>"

record WeldingSimulation =
  ws_config :: SimulationConfig
  ws_mat_1 :: Material
  ws_mat_2 :: Material
  ws_nx :: nat
  ws_ny :: nat
  ws_N :: nat
  ws_dx :: real
  ws_dy :: real
  ws_midpoint :: real
  ws_x :: "real list"
  ws_y :: "real list"
  ws_X :: "real list"
  ws_Y :: "real list"
  ws_T :: "real list"
  ws_T_max :: "real list"
  ws_t_end :: real
  ws_nt :: int
  ws_Q_total :: real
  ws_T_melt :: real
  ws_T_crit :: real
  ws_monitor_pts :: "(nat \<times> nat) list"
  ws_T_history :: "real list list"
  ws_time_history :: "real list"

definition idx :: "WeldingSimulation \<Rightarrow> nat \<Rightarrow> nat \<Rightarrow> nat" where
  "idx s i j = j * ws_nx s + i"

definition isBoundary :: "WeldingSimulation \<Rightarrow> nat \<Rightarrow> nat \<Rightarrow> bool" where
  "isBoundary s i j \<longleftrightarrow> (i = 0 \<or> int i = int (ws_nx s) - 1 \<or> j = 0 \<or> int j = int (ws_ny s) - 1)"

subsection \<open>Construction\<close>

text \<open>
  The constructor has no explicit check. It can still fail: \<^verbatim>\<open>vector::resize\<close> with a
  negative \<^verbatim>\<open>int\<close> (converted to a huge \<^verbatim>\<open>size_t\<close>) throws \<^verbatim>\<open>std::length_error\<close>, which
  \<^verbatim>\<open>main\<close> catches; reading \<^verbatim>\<open>x_[1]\<close> or \<^verbatim>\<open>y_[1]\<close> of a vector shorter than two, signed
  overflow of \<^verbatim>\<open>nx_ * ny_\<close>, and converting a non-finite or too large \<^verbatim>\<open>double\<close> to \<^verbatim>\<open>int\<close>
  are undefined behaviour. Exhaustion of memory is not modelled.
\<close>

datatype sim_error = LengthError | UndefinedBehaviour

definition INT_MAX :: int where "INT_MAX = 2147483647"
definition INT_MIN :: int where "INT_MIN = - 2147483648"

text \<open>The efficiency branch at the head of the constructor.\<close>

definition adjust_eta :: "SimulationConfig \<Rightarrow> SimulationConfig" where
  "adjust_eta c =
     (if weld_process c = ''TIG'' then
        (if use_gas c then c\<lparr>eta := 75/100\<rparr> else c\<lparr>eta := 65/100\<rparr>)
      else if weld_process c = ''Electrode'' then c\<lparr>eta := 85/100\<rparr>
      else c)"

definition grid_x :: "SimulationConfig \<Rightarrow> nat \<Rightarrow> real list" where
  "grid_x c n = map (\<lambda>i. real i * Lx c / (real n - 1)) [0..<n]"

definition grid_y :: "SimulationConfig \<Rightarrow> nat \<Rightarrow> real list" where
  "grid_y c n = map (\<lambda>j. - Ly c / 2 + real j * Ly c / (real n - 1)) [0..<n]"

text \<open>
  \<open>build\<close> is the body of the constructor (with \<^verbatim>\<open>initializeGrid\<close>,
  \<^verbatim>\<open>initializeMaterials\<close> and \<^verbatim>\<open>setupMonitoringPoints\<close> inlined) on dimensions that let it
  run to its end; \<open>WeldingSimulation_ctor\<close> puts the failing paths in front of it, in the
  order in which the code meets them.
\<close>

definition build :: "SimulationConfig \<Rightarrow> WeldingSimulation" where
  "build cfg =
     (let c = adjust_eta cfg;
          w = nat (nx cfg); h = nat (ny cfg); n = w * h;
          xs = grid_x c w; ys = grid_y c h;
          m1 = Material_ctor (mat_1_name c) (mat_1_rho c) (mat_1_cp c) (mat_1_k c)
                 (mat_1_T_melt c) (mat_1_T_crit c);
          m2 = Material_ctor (mat_2_name c) (mat_2_rho c) (mat_2_cp c) (mat_2_k c)
                 (mat_2_T_melt c) (mat_2_T_crit c);
          te = (Lx c - x_start c) / v_weld c + 10
      in \<lparr>ws_config = c, ws_mat_1 = m1, ws_mat_2 = m2,
          ws_nx = w, ws_ny = h, ws_N = n,
          ws_dx = xs ! 1 - xs ! 0, ws_dy = ys ! 1 - ys ! 0,
          ws_midpoint = Lx c / 2,
          ws_x = xs, ws_y = ys,
          ws_X = grid_sweep [0..<h] [0..<w] w (\<lambda>i j. xs ! i) (replicate n 0),
          ws_Y = grid_sweep [0..<h] [0..<w] w (\<lambda>i j. ys ! j) (replicate n 0),
          ws_T = replicate n (T0 c), ws_T_max = replicate n (T0 c),
          ws_t_end = te, ws_nt = \<lceil>te / dt c\<rceil>,
          ws_Q_total = eta c * cfg_V c * cfg_I c,
          ws_T_melt = (mat_T_melt m1 + mat_T_melt m2) / 2,
          ws_T_crit = (mat_T_crit m1 + mat_T_crit m2) / 2,
          ws_monitor_pts = [(nat \<lfloor>real w * (35/100)\<rfloor>, h div 2), (w div 2, h div 2),
                          (nat \<lfloor>real w * (65/100)\<rfloor>, h div 2)],
          ws_T_history = replicate 3 [], ws_time_history = []\<rparr>)"

definition WeldingSimulation_ctor :: "SimulationConfig \<Rightarrow> sim_error + WeldingSimulation" where
  "WeldingSimulation_ctor cfg =
     (if nx cfg * ny cfg < INT_MIN \<or> INT_MAX < nx cfg * ny cfg then Inl UndefinedBehaviour
      else if nx cfg < 0 then Inl LengthError
      else if ny cfg < 0 then Inl LengthError
      else if nx cfg < 2 then Inl UndefinedBehaviour
      else if ny cfg < 2 then Inl UndefinedBehaviour
      else if v_weld cfg = 0 \<or> dt cfg = 0 then Inl UndefinedBehaviour
      else if \<lceil>((Lx cfg - x_start cfg) / v_weld cfg + 10) / dt cfg\<rceil> < INT_MIN
              \<or> INT_MAX < \<lceil>((Lx cfg - x_start cfg) / v_weld cfg + 10) / dt cfg\<rceil>
        then Inl UndefinedBehaviour
      else Inr (build cfg))"

subsection \<open>Heat source and material sweep\<close>

definition goldak_cell :: "WeldingSimulation \<Rightarrow> real \<Rightarrow> nat \<Rightarrow> nat \<Rightarrow> real" where
  "goldak_cell s x_arc i j =
     (let c = ws_config s;
          a_sq = cfg_a c * cfg_a c;
          b_sq = cfg_b c * cfg_b c;
          coeff_f = (ff c * ws_Q_total s) / (cfg_a c * cfg_b c * pi);
          coeff_r = (fr c * ws_Q_total s) / (cfg_a c * cfg_b c * pi);
          index = idx s i j;
          xi = ws_X s ! index - x_arc;
          eta' = ws_Y s ! index - y_arc c;
          exp_arg = - xi * xi / a_sq - eta' * eta' / b_sq
      in if xi \<ge> 0 then coeff_f * exp exp_arg else coeff_r * exp exp_arg)"

definition computeGoldakHeatFlux :: "WeldingSimulation \<Rightarrow> real \<Rightarrow> real list" where
  "computeGoldakHeatFlux s x_arc =
     grid_sweep [0..<ws_ny s] [0..<ws_nx s] (ws_nx s) (goldak_cell s x_arc) (replicate (ws_N s) 0)"

definition computeMaterialProperties ::
  "WeldingSimulation \<Rightarrow> real list \<Rightarrow> real list \<times> real list \<times> real list" where
  "computeMaterialProperties s T_vec =
     (let mat = (\<lambda>n. if ws_X s ! n < ws_midpoint s then ws_mat_1 s else ws_mat_2 s)
      in (map (\<lambda>n. Material_get_k (mat n) (T_vec ! n)) [0..<ws_N s],
          map (\<lambda>n. Material_get_cp (mat n) (T_vec ! n)) [0..<ws_N s],
          map (\<lambda>n. Material_get_rho (mat n) (T_vec ! n)) [0..<ws_N s]))"

subsection \<open>One time step\<close>

definition T_MAX_REASONABLE :: real where "T_MAX_REASONABLE = 5000"

text \<open>
  The body of the loop nest of \<^verbatim>\<open>solveTimeStep\<close>: the value stored in \<^verbatim>\<open>T_new[idx(i,j)]\<close>.
  Its divisors are \<open>rho cp\<close>, \<open>dx\<^sup>2\<close>, \<open>dy\<^sup>2\<close> and \<open>alpha (1/dx\<^sup>2 + 1/dy\<^sup>2)\<close>; where one of them
  is zero the program's value is that of \<open>solve_cell_ieee\<close> below, not the one given here.
\<close>

definition solve_cell ::
  "WeldingSimulation \<Rightarrow> real list \<Rightarrow> real list \<Rightarrow> real list \<Rightarrow> real list \<Rightarrow> nat \<Rightarrow> nat \<Rightarrow> real" where
  "solve_cell s Qvol k_arr cp_arr rho_arr i j =
     (let index = idx s i j in
      if isBoundary s i j then T0 (ws_config s)
      else
        let alpha = k_arr ! index / (rho_arr ! index * cp_arr ! index);
            idx_xm = idx s (i - 1) j;
            idx_xp = idx s (i + 1) j;
            idx_ym = idx s i (j - 1);
            idx_yp = idx s i (j + 1);
            d2T_dx2 = (ws_T s ! idx_xp - 2 * ws_T s ! index + ws_T s ! idx_xm) / (ws_dx s * ws_dx s);
            d2T_dy2 = (ws_T s ! idx_yp - 2 * ws_T s ! index + ws_T s ! idx_ym) / (ws_dy s * ws_dy s);
            heat_source = Qvol ! index / (rho_arr ! index * cp_arr ! index);
            dx_sq = ws_dx s * ws_dx s;
            dy_sq = ws_dy s * ws_dy s;
            max_dt_stable = (4/10) / (alpha * (1 / dx_sq + 1 / dy_sq));
            dt_effective = min (dt (ws_config s)) max_dt_stable;
            v = ws_T s ! index + dt_effective * (alpha * (d2T_dx2 + d2T_dy2) + heat_source)
        in if v > T_MAX_REASONABLE then T_MAX_REASONABLE
           else if v < T0 (ws_config s) then T0 (ws_config s)
           else v)"

definition solveTimeStep :: "WeldingSimulation \<Rightarrow> real \<Rightarrow> real list \<Rightarrow> WeldingSimulation" where
  "solveTimeStep s t Qvol =
     (case computeMaterialProperties s (ws_T s) of (k_arr, cp_arr, rho_arr) \<Rightarrow>
        let T_new = grid_sweep [0..<ws_ny s] [0..<ws_nx s] (ws_nx s)
                      (solve_cell s Qvol k_arr cp_arr rho_arr) (replicate (ws_N s) 0)
        in s\<lparr>ws_T := T_new,
             ws_T_max := map (\<lambda>n. max (ws_T_max s ! n) (T_new ! n)) [0..<ws_N s]\<rparr>)"

subsection \<open>The driver loop of \<^verbatim>\<open>WeldingSimulation::run\<close>\<close>

text \<open>
  \<open>heat_source_locals s t\<close> is the pair of locals \<^verbatim>\<open>(q_surf, Qvol)\<close> of one iteration after
  the \<^verbatim>\<open>if (x_arc <= config_.Lx)\<close>: \<^verbatim>\<open>q_surf\<close> is declared empty and only
  \<^verbatim>\<open>computeGoldakHeatFlux\<close> resizes and fills it; \<^verbatim>\<open>Qvol\<close> is declared as \<open>N\<close> zeros.
\<close>

definition heat_source_locals :: "WeldingSimulation \<Rightarrow> real \<Rightarrow> real list \<times> real list" where
  "heat_source_locals s t =
     (let c = ws_config s;
          x_arc = x_start c + v_weld c * t;
          q_surf = [];
          Qvol = replicate (ws_N s) 0
      in if x_arc \<le> Lx c then
           (let q_surf = computeGoldakHeatFlux s x_arc
            in (q_surf, map (\<lambda>n. q_surf ! n / thickness c) [0..<ws_N s]))
         else (q_surf, Qvol))"

definition updateMonitoring :: "WeldingSimulation \<Rightarrow> real \<Rightarrow> WeldingSimulation" where
  "updateMonitoring s t =
     s\<lparr>ws_time_history := ws_time_history s @ [t],
       ws_T_history := map (\<lambda>(h, (i, j)). h @ [ws_T s ! idx s i j])
                         (zip (ws_T_history s) (ws_monitor_pts s))\<rparr>"

record run_state =
  rs_sim :: WeldingSimulation
  rs_t :: real
  rs_step :: int

definition run_init :: "WeldingSimulation \<Rightarrow> run_state" where
  "run_init s = \<lparr>rs_sim = s, rs_t = 0, rs_step = 1\<rparr>"

text \<open>
  The part of one iteration that changes the simulation object and the clock. The video-frame
  and snapshot branches only export the fields.
\<close>

definition run_body :: "run_state \<Rightarrow> run_state" where
  "run_body rs =
     (let s = rs_sim rs;
          t = rs_t rs + dt (ws_config s);
          Qvol = snd (heat_source_locals s t);
          s1 = solveTimeStep s t Qvol;
          s2 = updateMonitoring s1 t
      in \<lparr>rs_sim = s2, rs_t = t, rs_step = rs_step rs + 1\<rparr>)"

text \<open>
  The iteration ends with the progress indicator
  \<^verbatim>\<open>if (step % (nt_ / 10) == 0 || step == nt_) cout << (100 * step / nt_)\<close>:
  with fewer than ten steps the modulus is zero, and \<^verbatim>\<open>100 * step\<close> can overflow; both are
  undefined behaviour.
\<close>

definition run_step :: "run_state \<Rightarrow> sim_error + run_state" where
  "run_step rs =
     (let r = run_body rs; nt = ws_nt (rs_sim rs); st = rs_step rs
      in if nt div 10 = 0 then Inl UndefinedBehaviour
         else if (st mod (nt div 10) = 0 \<or> st = nt) \<and> INT_MAX < 100 * st
           then Inl UndefinedBehaviour
         else Inr r)"

primrec run_steps :: "nat \<Rightarrow> run_state \<Rightarrow> sim_error + run_state" where
  "run_steps 0 rs = Inr rs"
| "run_steps (Suc n) rs =
     (case run_step rs of Inl e \<Rightarrow> Inl e | Inr rs' \<Rightarrow> run_steps n rs')"


subsection \<open>Argument parsing of \<^verbatim>\<open>cpp-weld-2/main.cpp\<close>\<close>

text \<open>
  \<^verbatim>\<open>std::stod\<close> and \<^verbatim>\<open>std::stoi\<close> are library functions; they are parameters of the model and
  answer \<open>None\<close> where the library throws. The parsing loop is outside the \<^verbatim>\<open>try\<close> block, so
  such an exception terminates the program.
\<close>

datatype parse_result = Return int | Terminate | Parsed SimulationConfig

text \<open>
  One iteration of the parsing loop on \<^verbatim>\<open>argv[i] = arg\<close> with the arguments \<open>rest\<close> behind
  it: either the program ends, or the loop goes on with an updated configuration after
  consuming \<open>k\<close> value arguments (the \<^verbatim>\<open>argv[++i]\<close> of the source).
\<close>

datatype parse_step = Done parse_result | Next nat SimulationConfig

definition parse_option ::
  "(string \<Rightarrow> real option) \<Rightarrow> (string \<Rightarrow> int option) \<Rightarrow> string \<Rightarrow> string list
   \<Rightarrow> SimulationConfig \<Rightarrow> parse_step" where
  "parse_option stod stoi arg rest c =
     (if arg = ''--help'' then Done (Return 0)
      else if arg = ''--weld_process'' \<and> rest \<noteq> [] then
        (let c' = c\<lparr>weld_process := hd rest\<rparr>
         in if weld_process c' \<noteq> ''TIG'' \<and> weld_process c' \<noteq> ''Electrode''
            then Done (Return 1) else Next 1 c')
      else if arg = ''--use_gas'' then Next 0 (c\<lparr>use_gas := True\<rparr>)
      else if arg = ''--no-gas'' then Next 0 (c\<lparr>use_gas := False\<rparr>)
      else if arg = ''--snapshot_time'' \<and> rest \<noteq> [] then
        (case stod (hd rest) of None \<Rightarrow> Done Terminate
         | Some v \<Rightarrow> Next 1 (c\<lparr>snapshot_time := v\<rparr>))
      else if arg = ''--current'' \<and> rest \<noteq> [] then
        (case stod (hd rest) of None \<Rightarrow> Done Terminate
         | Some v \<Rightarrow> Next 1 (c\<lparr>cfg_I := v\<rparr>))
      else if arg = ''--voltage'' \<and> rest \<noteq> [] then
        (case stod (hd rest) of None \<Rightarrow> Done Terminate
         | Some v \<Rightarrow> Next 1 (c\<lparr>cfg_V := v\<rparr>))
      else if arg = ''--speed'' \<and> rest \<noteq> [] then
        (case stod (hd rest) of None \<Rightarrow> Done Terminate
         | Some v \<Rightarrow> Next 1 (c\<lparr>v_weld := v\<rparr>))
      else if arg = ''--mat1_k'' \<and> rest \<noteq> [] then
        (case stod (hd rest) of None \<Rightarrow> Done Terminate
         | Some v \<Rightarrow> Next 1 (c\<lparr>mat_1_k := v\<rparr>))
      else if arg = ''--mat1_cp'' \<and> rest \<noteq> [] then
        (case stod (hd rest) of None \<Rightarrow> Done Terminate
         | Some v \<Rightarrow> Next 1 (c\<lparr>mat_1_cp := v\<rparr>))
      else if arg = ''--mat1_rho'' \<and> rest \<noteq> [] then
        (case stod (hd rest) of None \<Rightarrow> Done Terminate
         | Some v \<Rightarrow> Next 1 (c\<lparr>mat_1_rho := v\<rparr>))
      else if arg = ''--mat1_Tmelt'' \<and> rest \<noteq> [] then
        (case stod (hd rest) of None \<Rightarrow> Done Terminate
         | Some v \<Rightarrow> Next 1 (c\<lparr>mat_1_T_melt := v\<rparr>))
      else if arg = ''--mat2_k'' \<and> rest \<noteq> [] then
        (case stod (hd rest) of None \<Rightarrow> Done Terminate
         | Some v \<Rightarrow> Next 1 (c\<lparr>mat_2_k := v\<rparr>))
      else if arg = ''--mat2_cp'' \<and> rest \<noteq> [] then
        (case stod (hd rest) of None \<Rightarrow> Done Terminate
         | Some v \<Rightarrow> Next 1 (c\<lparr>mat_2_cp := v\<rparr>))
      else if arg = ''--mat2_rho'' \<and> rest \<noteq> [] then
        (case stod (hd rest) of None \<Rightarrow> Done Terminate
         | Some v \<Rightarrow> Next 1 (c\<lparr>mat_2_rho := v\<rparr>))
      else if arg = ''--mat2_Tmelt'' \<and> rest \<noteq> [] then
        (case stod (hd rest) of None \<Rightarrow> Done Terminate
         | Some v \<Rightarrow> Next 1 (c\<lparr>mat_2_T_melt := v\<rparr>))
      else if arg = ''--save_video'' then Next 0 (c\<lparr>save_video_frames := True\<rparr>)
      else if arg = ''--video_fps'' \<and> rest \<noteq> [] then
        (case stoi (hd rest) of None \<Rightarrow> Done Terminate
         | Some v \<Rightarrow> Next 1 (c\<lparr>video_frames_per_second := v\<rparr>))
      else Done (Return 1))"

fun parse_args ::
  "(string \<Rightarrow> real option) \<Rightarrow> (string \<Rightarrow> int option) \<Rightarrow> string list \<Rightarrow> SimulationConfig
   \<Rightarrow> parse_result" where
  "parse_args stod stoi [] c = Parsed c"
| "parse_args stod stoi (arg # rest) c =
     (case parse_option stod stoi arg rest c of
        Done r \<Rightarrow> r
      | Next k c' \<Rightarrow> parse_args stod stoi (drop k rest) c')"

text \<open>
  \<open>main\<close> up to the end of the constructor call: the arguments after \<^verbatim>\<open>argv[0]\<close> are parsed
  into the default configuration, and only a parsed configuration reaches the constructor.
  A \<^verbatim>\<open>std::length_error\<close> from the constructor is caught and becomes exit status 1.
\<close>

datatype main_result =
  Exit int | Terminated | Undefined | Constructed WeldingSimulation

definition main_construct ::
  "(string \<Rightarrow> real option) \<Rightarrow> (string \<Rightarrow> int option) \<Rightarrow> string list \<Rightarrow> main_result" where
  "main_construct stod stoi args =
     (case parse_args stod stoi args default_config of
        Return n \<Rightarrow> Exit n
      | Terminate \<Rightarrow> Terminated
      | Parsed c \<Rightarrow>
          (case WeldingSimulation_ctor c of
             Inl LengthError \<Rightarrow> Exit 1
           | Inl UndefinedBehaviour \<Rightarrow> Undefined
           | Inr s \<Rightarrow> Constructed s))"

section \<open>Variant 2: TIGSimulator\<close>

record TIGConfig =
  tig_Lx :: real
  tig_Ly :: real
  tig_thickness :: real
  tig_nx :: int
  tig_ny :: int
  tig_mat_1_rho :: real
  tig_mat_1_cp :: real
  tig_mat_1_k :: real
  tig_mat_1_T_melt :: real
  tig_mat_1_T_crit :: real
  tig_mat_2_rho :: real
  tig_mat_2_cp :: real
  tig_mat_2_k :: real
  tig_mat_2_T_melt :: real
  tig_mat_2_T_crit :: real
  tig_V :: real
  tig_I :: real
  tig_eta :: real
  tig_v_weld :: real
  tig_x_start :: real
  tig_y_arc :: real
  tig_a :: real
  tig_b :: real
  tig_cf :: real
  tig_cr :: real
  tig_ff :: real
  tig_fr :: real
  tig_T0 :: real
  tig_dt :: real
  tig_theta :: real
  tig_output_interval :: int
  tig_frame_interval :: int

definition tig_default_config :: TIGConfig where
  "tig_default_config =
     \<lparr>tig_Lx = 15/100, tig_Ly = 10/100, tig_thickness = 6/1000, tig_nx = 151, tig_ny = 101,
      tig_mat_1_rho = 7850, tig_mat_1_cp = 500, tig_mat_1_k = 45,
      tig_mat_1_T_melt = 1811, tig_mat_1_T_crit = 1273,
      tig_mat_2_rho = 7900, tig_mat_2_cp = 500, tig_mat_2_k = 163/10,
      tig_mat_2_T_melt = 1723, tig_mat_2_T_crit = 1273,
      tig_V = 25, tig_I = 150, tig_eta = 75/100, tig_v_weld = 6/1000, tig_x_start = 2/100,
      tig_y_arc = 0,
      tig_a = 4/1000, tig_b = 3/1000, tig_cf = 3/1000, tig_cr = 8/1000,
      tig_ff = 6/10, tig_fr = 14/10,
      tig_T0 = 293, tig_dt = 2/100, tig_theta = 5/10,
      tig_output_interval = 50, tig_frame_interval = 10\<rparr>"

text \<open>The free functions \<^verbatim>\<open>get_k\<close>, \<^verbatim>\<open>get_cp\<close>, \<^verbatim>\<open>get_rho\<close>.\<close>

definition get_k :: "real \<Rightarrow> real \<Rightarrow> real \<Rightarrow> real \<Rightarrow> real" where
  "get_k T k_base Tcrit Tmelt =
     (if T < Tcrit then k_base
      else if T < Tmelt then k_base * (1 + (T - Tcrit) / (Tmelt - Tcrit) * (1/10))
      else k_base * (11/10))"

definition get_cp :: "real \<Rightarrow> real \<Rightarrow> real \<Rightarrow> real \<Rightarrow> real" where
  "get_cp T cp_base Tcrit Tmelt =
     (if T < Tcrit then cp_base
      else if T < Tmelt then cp_base * (1 + (T - Tcrit) / (Tmelt - Tcrit) * (2/10))
      else cp_base * (12/10))"

definition get_rho :: "real \<Rightarrow> real \<Rightarrow> real \<Rightarrow> real \<Rightarrow> real" where
  "get_rho T rho_base Tcrit Tmelt =
     (if T < Tcrit then rho_base
      else if T < Tmelt then rho_base * (1 - (T - Tcrit) / (Tmelt - Tcrit) * (5/100))
      else rho_base * (95/100))"

text \<open>
  \<^verbatim>\<open>goldak_heat_flux\<close> writes every cell of its output parameter \<^verbatim>\<open>q\<close>; the model returns the
  array written. The constant \<^verbatim>\<open>PI\<close> of the source is \<open>\<pi>\<close>.
\<close>

definition goldak_heat_flux_cell ::
  "real list \<Rightarrow> real list \<Rightarrow> real \<Rightarrow> real \<Rightarrow> real \<Rightarrow> real \<Rightarrow> real \<Rightarrow> real \<Rightarrow> real \<Rightarrow> real \<Rightarrow> real
   \<Rightarrow> nat \<Rightarrow> nat \<Rightarrow> nat \<Rightarrow> real" where
  "goldak_heat_flux_cell X Y x_arc y_arc' Q a' b' cf' cr' ff' fr' w i j =
     (let b_sq = b' * b';
          cf_sq = cf' * cf';
          cr_sq = cr' * cr';
          SQRT_PI = sqrt pi;
          coeff_f = (6 * ff' * Q) / (a' * b' * cf' * pi * SQRT_PI);
          coeff_r = (6 * fr' * Q) / (a' * b' * cr' * pi * SQRT_PI);
          n = j * w + i;
          xi = X ! n - x_arc;
          eta' = Y ! n - y_arc';
          eta_sq = eta' * eta'
      in if xi \<ge> 0 then coeff_f * exp (- 3 * (xi * xi / cf_sq + eta_sq / b_sq))
         else coeff_r * exp (- 3 * (xi * xi / cr_sq + eta_sq / b_sq)))"

definition goldak_heat_flux ::
  "real list \<Rightarrow> real list \<Rightarrow> real \<Rightarrow> real \<Rightarrow> real \<Rightarrow> real \<Rightarrow> real \<Rightarrow> real \<Rightarrow> real \<Rightarrow> real \<Rightarrow> real
   \<Rightarrow> int \<Rightarrow> int \<Rightarrow> real list \<Rightarrow> real list" where
  "goldak_heat_flux X Y x_arc y_arc' Q a' b' cf' cr' ff' fr' w h q =
     grid_sweep [0..<nat h] [0..<nat w] (nat w)
       (goldak_heat_flux_cell X Y x_arc y_arc' Q a' b' cf' cr' ff' fr' (nat w)) q"

record TIGSimulator =
  tig_config :: TIGConfig
  tig_N :: nat
  tig_dx :: real
  tig_dy :: real
  tig_midpoint :: real
  tig_X :: "real list"
  tig_Y :: "real list"
  tig_T :: "real list"
  tig_T_max :: "real list"
  tig_q_surf :: "real list"
  tig_Q_vol :: "real list"
  tig_k_arr :: "real list"
  tig_cp_arr :: "real list"
  tig_rho_arr :: "real list"
  tig_alpha_arr :: "real list"
  tig_frame_steps :: "int list"

text \<open>
  The constructor of \<^verbatim>\<open>TIGSimulator\<close> checks nothing either. Its only failing paths are the
  signed overflow of \<^verbatim>\<open>nx * ny\<close> and \<^verbatim>\<open>resize\<close> with a negative product.
\<close>

definition tig_build :: "TIGConfig \<Rightarrow> TIGSimulator" where
  "tig_build c =
     (let w = nat (tig_nx c); h = nat (tig_ny c); n = nat (tig_nx c * tig_ny c);
          dx = tig_Lx c / (real_of_int (tig_nx c) - 1);
          dy = tig_Ly c / (real_of_int (tig_ny c) - 1)
      in \<lparr>tig_config = c, tig_N = n, tig_dx = dx, tig_dy = dy, tig_midpoint = tig_Lx c / 2,
          tig_X = grid_sweep [0..<h] [0..<w] w (\<lambda>i j. real i * dx) (replicate n 0),
          tig_Y = grid_sweep [0..<h] [0..<w] w (\<lambda>i j. - tig_Ly c / 2 + real j * dy)
                    (replicate n 0),
          tig_T = replicate n (tig_T0 c), tig_T_max = replicate n (tig_T0 c),
          tig_q_surf = replicate n 0, tig_Q_vol = replicate n 0,
          tig_k_arr = replicate n 0, tig_cp_arr = replicate n 0,
          tig_rho_arr = replicate n 0, tig_alpha_arr = replicate n 0,
          tig_frame_steps = []\<rparr>)"

definition TIGSimulator_ctor :: "TIGConfig \<Rightarrow> sim_error + TIGSimulator" where
  "TIGSimulator_ctor c =
     (if tig_nx c * tig_ny c < INT_MIN \<or> INT_MAX < tig_nx c * tig_ny c
        then Inl UndefinedBehaviour
      else if tig_nx c * tig_ny c < 0 then Inl LengthError
      else Inr (tig_build c))"

definition compute_material_properties :: "TIGSimulator \<Rightarrow> TIGSimulator" where
  "compute_material_properties s =
     (let c = tig_config s;
          k_val = (\<lambda>n. if tig_X s ! n < tig_midpoint s
                     then get_k (tig_T s ! n) (tig_mat_1_k c) (tig_mat_1_T_crit c) (tig_mat_1_T_melt c)
                     else get_k (tig_T s ! n) (tig_mat_2_k c) (tig_mat_2_T_crit c) (tig_mat_2_T_melt c));
          cp_val = (\<lambda>n. if tig_X s ! n < tig_midpoint s
                     then get_cp (tig_T s ! n) (tig_mat_1_cp c) (tig_mat_1_T_crit c) (tig_mat_1_T_melt c)
                     else get_cp (tig_T s ! n) (tig_mat_2_cp c) (tig_mat_2_T_crit c) (tig_mat_2_T_melt c));
          rho_val = (\<lambda>n. if tig_X s ! n < tig_midpoint s
                     then get_rho (tig_T s ! n) (tig_mat_1_rho c) (tig_mat_1_T_crit c) (tig_mat_1_T_melt c)
                     else get_rho (tig_T s ! n) (tig_mat_2_rho c) (tig_mat_2_T_crit c) (tig_mat_2_T_melt c))
      in s\<lparr>tig_k_arr := map k_val [0..<tig_N s],
           tig_cp_arr := map cp_val [0..<tig_N s],
           tig_rho_arr := map rho_val [0..<tig_N s],
           tig_alpha_arr := map (\<lambda>n. k_val n / (rho_val n * cp_val n)) [0..<tig_N s]\<rparr>)"

definition apply_heat_source :: "TIGSimulator \<Rightarrow> real \<Rightarrow> TIGSimulator" where
  "apply_heat_source s t =
     (let c = tig_config s;
          x_arc = tig_x_start c + tig_v_weld c * t
      in if x_arc \<le> tig_Lx c then
           (let Q_total = tig_eta c * tig_V c * tig_I c;
                q = goldak_heat_flux (tig_X s) (tig_Y s) x_arc (tig_y_arc c) Q_total
                      (tig_a c) (tig_b c) (tig_cf c) (tig_cr c) (tig_ff c) (tig_fr c)
                      (tig_nx c) (tig_ny c) (tig_q_surf s)
            in s\<lparr>tig_q_surf := q, tig_Q_vol := map (\<lambda>n. q ! n) [0..<tig_N s]\<rparr>)
         else s\<lparr>tig_Q_vol := map (\<lambda>n. 0) [0..<tig_N s]\<rparr>)"

text \<open>
  The value stored in an interior cell by \<^verbatim>\<open>time_step_explicit\<close>. Its divisors are
  \<open>rho cp\<close>, \<open>dx\<^sup>2\<close> and \<open>dy\<^sup>2\<close>; where one of them is zero the program's value is an
  infinity or a NaN, not the one given here.
\<close>

definition tig_interior_cell :: "TIGSimulator \<Rightarrow> nat \<Rightarrow> nat \<Rightarrow> real" where
  "tig_interior_cell s i j =
     (let c = tig_config s;
          w = nat (tig_nx c);
          n = j * w + i;
          idx_xp = n + 1;
          idx_xm = n - 1;
          idx_yp = n + w;
          idx_ym = n - w;
          alpha = tig_alpha_arr s ! n;
          d2Tdx2 = (tig_T s ! idx_xp - 2 * tig_T s ! n + tig_T s ! idx_xm) / (tig_dx s * tig_dx s);
          d2Tdy2 = (tig_T s ! idx_yp - 2 * tig_T s ! n + tig_T s ! idx_ym) / (tig_dy s * tig_dy s);
          heat_source = tig_Q_vol s ! n / (tig_rho_arr s ! n * tig_cp_arr s ! n)
      in tig_T s ! n + tig_dt c * (alpha * (d2Tdx2 + d2Tdy2) + heat_source))"

text \<open>
  \<^verbatim>\<open>time_step_explicit\<close>: \<open>time_step_T_new\<close> is its local \<^verbatim>\<open>T_new\<close> after the interior sweep
  over \<open>1 \<le> j < ny - 1\<close>, \<open>1 \<le> i < nx - 1\<close> into a fresh zeroed vector and the two boundary
  loops; the last loop copies it into \<^verbatim>\<open>T\<close> and raises \<^verbatim>\<open>T_max\<close>. When exactly one of the
  dimensions is positive the boundary loops write outside the empty \<^verbatim>\<open>T_new\<close>.
\<close>

definition time_step_T_new :: "TIGSimulator \<Rightarrow> real list" where
  "time_step_T_new s =
     (let c = tig_config s; w = nat (tig_nx c); h = nat (tig_ny c);
          T_new0 = replicate (tig_N s) 0;
          T_new1 = grid_sweep [1..<h - 1] [1..<w - 1] w (tig_interior_cell s) T_new0;
          T_new2 = fold (\<lambda>i acc. (acc[i := tig_T0 c])[(h - 1) * w + i := tig_T0 c])
                     [0..<w] T_new1
      in fold (\<lambda>j acc. (acc[j * w := tig_T0 c])[j * w + w - 1 := tig_T0 c])
           [0..<h] T_new2)"

definition time_step_explicit :: "TIGSimulator \<Rightarrow> sim_error + TIGSimulator" where
  "time_step_explicit s =
     (let c = tig_config s; T_new = time_step_T_new s in
      if (0 < tig_nx c \<and> tig_ny c \<le> 0) \<or> (0 < tig_ny c \<and> tig_nx c \<le> 0)
        then Inl UndefinedBehaviour
      else Inr (s\<lparr>tig_T := map (\<lambda>n. T_new ! n) [0..<tig_N s],
                  tig_T_max := map (\<lambda>n. if T_new ! n > tig_T_max s ! n then T_new ! n
                                         else tig_T_max s ! n) [0..<tig_N s]\<rparr>))"

text \<open>The three calls that change the fields in one iteration of \<^verbatim>\<open>run_simulation\<close>.\<close>

definition tig_step :: "TIGSimulator \<Rightarrow> real \<Rightarrow> sim_error + TIGSimulator" where
  "tig_step g t = time_step_explicit (compute_material_properties (apply_heat_source g t))"

text \<open>
  One iteration of the loop of \<^verbatim>\<open>run_simulation\<close>. A zero \<^verbatim>\<open>frame_interval\<close> or
  \<^verbatim>\<open>output_interval\<close> makes the modulus undefined, and the progress output dereferences
  \<^verbatim>\<open>std::max_element(T.begin(), T.end())\<close>, which is undefined on an empty \<^verbatim>\<open>T\<close>.
\<close>

definition tig_run_step :: "int \<Rightarrow> int \<Rightarrow> TIGSimulator \<Rightarrow> sim_error + TIGSimulator" where
  "tig_run_step nt st s =
     (let c = tig_config s;
          t = real_of_int st * tig_dt c
      in case tig_step s t of
           Inl e \<Rightarrow> Inl e
         | Inr s1 \<Rightarrow>
             if tig_frame_interval c = 0 then Inl UndefinedBehaviour
             else
               let s2 = (if st mod tig_frame_interval c = 0 \<or> st = nt
                           then s1\<lparr>tig_frame_steps := tig_frame_steps s1 @ [st]\<rparr> else s1)
               in if tig_output_interval c = 0 then Inl UndefinedBehaviour
                  else if (st mod tig_output_interval c = 0 \<or> st = nt) \<and> tig_T s2 = []
                    then Inl UndefinedBehaviour
                  else Inr s2)"

primrec tig_run_steps :: "int \<Rightarrow> nat \<Rightarrow> int \<Rightarrow> TIGSimulator \<Rightarrow> sim_error + TIGSimulator" where
  "tig_run_steps nt 0 st s = Inr s"
| "tig_run_steps nt (Suc n) st s =
     (case tig_run_step nt st s of Inl e \<Rightarrow> Inl e
      | Inr s' \<Rightarrow> tig_run_steps nt n (st + 1) s')"

definition run_simulation :: "TIGSimulator \<Rightarrow> sim_error + TIGSimulator" where
  "run_simulation s =
     (let c = tig_config s;
          t_end = (tig_Lx c - tig_x_start c) / tig_v_weld c + 10
      in if tig_v_weld c = 0 \<or> tig_dt c = 0 then Inl UndefinedBehaviour
         else if \<lceil>t_end / tig_dt c\<rceil> < INT_MIN \<or> INT_MAX < \<lceil>t_end / tig_dt c\<rceil>
           then Inl UndefinedBehaviour
         else tig_run_steps \<lceil>t_end / tig_dt c\<rceil> (nat \<lceil>t_end / tig_dt c\<rceil>) 1 s)"

section \<open>The time step of WeldingSimulation with the special values of double\<close>

text \<open>
  Division by zero does not stop the program: a \<^verbatim>\<open>double\<close> quotient with a zero divisor is an
  infinity or a NaN, and the program computes on with it. \<open>double\<close> adds these special
  values and the negative zero to the reals; rounding, overflow and underflow stay outside
  the model. The operations are those of IEEE 754 on such values: a NaN operand gives a NaN;
  \<open>\<infinity> - \<infinity>\<close>, \<open>0 \<times> \<infinity>\<close>, \<open>0 / 0\<close> and \<open>\<infinity> / \<infinity>\<close> are NaN; a non-zero finite number divided by
  a zero is an infinity, with the sign that the signs of the operands give; every
  comparison with a NaN is false. \<open>Num 0\<close> is the positive zero.
\<close>

datatype double = Num real | MinusZero | Infty bool | NaN

fun sign_bit :: "double \<Rightarrow> bool" where
  "sign_bit (Num x) = (x < 0)"
| "sign_bit MinusZero = True"
| "sign_bit (Infty s) = s"
| "sign_bit NaN = False"

fun is_zero :: "double \<Rightarrow> bool" where
  "is_zero (Num x) = (x = 0)"
| "is_zero MinusZero = True"
| "is_zero (Infty s) = False"
| "is_zero NaN = False"

fun is_inf :: "double \<Rightarrow> bool" where
  "is_inf (Infty s) = True"
| "is_inf (Num x) = False"
| "is_inf MinusZero = False"
| "is_inf NaN = False"

fun magnitude :: "double \<Rightarrow> real" where
  "magnitude (Num x) = x"
| "magnitude MinusZero = 0"
| "magnitude (Infty s) = 0"
| "magnitude NaN = 0"

definition signed_zero :: "bool \<Rightarrow> double" where
  "signed_zero s = (if s then MinusZero else Num 0)"

fun d_neg :: "double \<Rightarrow> double" where
  "d_neg (Num x) = (if x = 0 then MinusZero else Num (- x))"
| "d_neg MinusZero = Num 0"
| "d_neg (Infty s) = Infty (\<not> s)"
| "d_neg NaN = NaN"

definition d_add :: "double \<Rightarrow> double \<Rightarrow> double" where
  "d_add a b =
     (if a = NaN \<or> b = NaN then NaN
      else if is_inf a \<and> is_inf b then (if sign_bit a = sign_bit b then a else NaN)
      else if is_inf a then a
      else if is_inf b then b
      else if a = MinusZero \<and> b = MinusZero then MinusZero
      else Num (magnitude a + magnitude b))"

definition d_sub :: "double \<Rightarrow> double \<Rightarrow> double" where
  "d_sub a b = d_add a (d_neg b)"

definition d_mul :: "double \<Rightarrow> double \<Rightarrow> double" where
  "d_mul a b =
     (if a = NaN \<or> b = NaN then NaN
      else if (is_inf a \<and> is_zero b) \<or> (is_zero a \<and> is_inf b) then NaN
      else if is_inf a \<or> is_inf b then Infty (sign_bit a \<noteq> sign_bit b)
      else if is_zero a \<or> is_zero b then signed_zero (sign_bit a \<noteq> sign_bit b)
      else Num (magnitude a * magnitude b))"

definition d_div :: "double \<Rightarrow> double \<Rightarrow> double" where
  "d_div a b =
     (if a = NaN \<or> b = NaN then NaN
      else if (is_inf a \<and> is_inf b) \<or> (is_zero a \<and> is_zero b) then NaN
      else if is_inf a \<or> is_zero b then Infty (sign_bit a \<noteq> sign_bit b)
      else if is_inf b \<or> is_zero a then signed_zero (sign_bit a \<noteq> sign_bit b)
      else Num (magnitude a / magnitude b))"

definition d_less :: "double \<Rightarrow> double \<Rightarrow> bool" where
  "d_less a b \<longleftrightarrow>
     a \<noteq> NaN \<and> b \<noteq> NaN \<and>
     (if is_inf a then sign_bit a \<and> b \<noteq> Infty True
      else if is_inf b then \<not> sign_bit b
      else magnitude a < magnitude b)"


text \<open>\<^verbatim>\<open>std::min(a, b)\<close> is \<^verbatim>\<open>(b < a) ? b : a\<close> and \<^verbatim>\<open>std::max(a, b)\<close> is \<^verbatim>\<open>(a < b) ? b : a\<close>.\<close>

definition d_min :: "double \<Rightarrow> double \<Rightarrow> double" where
  "d_min a b = (if d_less b a then b else a)"

definition d_max :: "double \<Rightarrow> double \<Rightarrow> double" where
  "d_max a b = (if d_less a b then b else a)"

text \<open>The real number that a finite \<open>double\<close> stands for.\<close>

fun value_of :: "double \<Rightarrow> real option" where
  "value_of (Num x) = Some x"
| "value_of MinusZero = Some 0"
| "value_of (Infty s) = None"
| "value_of NaN = None"

text \<open>
  \<^verbatim>\<open>solveTimeStep\<close> once more, with the arithmetic of the loop body carried out on \<open>double\<close>.
  The stored fields of the object are finite and are read with \<open>Num\<close> (a stored zero as the
  positive zero). \<^verbatim>\<open>computeMaterialProperties\<close> is taken as it is: its only quotient is
  evaluated where \<open>T_crit \<le> T < T_melt\<close>, so its divisor is positive. \<open>solve_cell_ieee\<close> is
  the value stored in \<^verbatim>\<open>T_new[idx(i,j)]\<close>, and \<open>solveTimeStep_ieee\<close> returns the fields \<open>T\<close> and
  \<open>T_max\<close> that the call leaves.
\<close>

definition solve_cell_ieee ::
  "WeldingSimulation \<Rightarrow> real list \<Rightarrow> real list \<Rightarrow> real list \<Rightarrow> real list \<Rightarrow> nat \<Rightarrow> nat \<Rightarrow> double" where
  "solve_cell_ieee s Qvol k_arr cp_arr rho_arr i j =
     (let index = idx s i j in
      if isBoundary s i j then Num (T0 (ws_config s))
      else
        let alpha = d_div (Num (k_arr ! index)) (d_mul (Num (rho_arr ! index)) (Num (cp_arr ! index)));
            idx_xm = idx s (i - 1) j;
            idx_xp = idx s (i + 1) j;
            idx_ym = idx s i (j - 1);
            idx_yp = idx s i (j + 1);
            d2T_dx2 = d_div (d_add (d_sub (Num (ws_T s ! idx_xp)) (d_mul (Num 2) (Num (ws_T s ! index))))
                               (Num (ws_T s ! idx_xm)))
                        (d_mul (Num (ws_dx s)) (Num (ws_dx s)));
            d2T_dy2 = d_div (d_add (d_sub (Num (ws_T s ! idx_yp)) (d_mul (Num 2) (Num (ws_T s ! index))))
                               (Num (ws_T s ! idx_ym)))
                        (d_mul (Num (ws_dy s)) (Num (ws_dy s)));
            heat_source = d_div (Num (Qvol ! index))
                            (d_mul (Num (rho_arr ! index)) (Num (cp_arr ! index)));
            dx_sq = d_mul (Num (ws_dx s)) (Num (ws_dx s));
            dy_sq = d_mul (Num (ws_dy s)) (Num (ws_dy s));
            max_dt_stable = d_div (Num (4/10))
                              (d_mul alpha (d_add (d_div (Num 1) dx_sq) (d_div (Num 1) dy_sq)));
            dt_effective = d_min (Num (dt (ws_config s))) max_dt_stable;
            v = d_add (Num (ws_T s ! index))
                  (d_mul dt_effective (d_add (d_mul alpha (d_add d2T_dx2 d2T_dy2)) heat_source))
        in if d_less (Num T_MAX_REASONABLE) v then Num T_MAX_REASONABLE
           else if d_less v (Num (T0 (ws_config s))) then Num (T0 (ws_config s))
           else v)"

definition solveTimeStep_ieee :: "WeldingSimulation \<Rightarrow> real \<Rightarrow> real list \<Rightarrow> double list \<times> double list" where
  "solveTimeStep_ieee s t Qvol =
     (case computeMaterialProperties s (ws_T s) of (k_arr, cp_arr, rho_arr) \<Rightarrow>
        let T_new = grid_sweep [0..<ws_ny s] [0..<ws_nx s] (ws_nx s)
                      (solve_cell_ieee s Qvol k_arr cp_arr rho_arr) (replicate (ws_N s) (Num 0))
        in (T_new, map (\<lambda>n. d_max (Num (ws_T_max s ! n)) (T_new ! n)) [0..<ws_N s]))"


section \<open>Derived notions used in the statements\<close>

text \<open>
  The grid dimensions of a \<^verbatim>\<open>TIGSimulator\<close> as loop bounds, and the arc position
  \<open>x_arc = x_start + v_weld t\<close> that both drivers compute at time \<open>t\<close>.
\<close>

definition tig_w :: "TIGSimulator \<Rightarrow> nat" where
  "tig_w g = nat (tig_nx (tig_config g))"

definition tig_h :: "TIGSimulator \<Rightarrow> nat" where
  "tig_h g = nat (tig_ny (tig_config g))"

definition tig_x_arc :: "TIGSimulator \<Rightarrow> real \<Rightarrow> real" where
  "tig_x_arc g t = tig_x_start (tig_config g) + tig_v_weld (tig_config g) * t"

definition ws_x_arc :: "WeldingSimulation \<Rightarrow> real \<Rightarrow> real" where
  "ws_x_arc s t = x_start (ws_config s) + v_weld (ws_config s) * t"

text \<open>The source term handed to \<^verbatim>\<open>solveTimeStep\<close> in the iteration that starts in state \<open>r\<close>.\<close>

definition step_Qvol :: "run_state \<Rightarrow> real list" where
  "step_Qvol r = snd (heat_source_locals (rs_sim r) (rs_t r + dt (ws_config (rs_sim r))))"

subsection \<open>The cell update in closed form\<close>

text \<open>
  The explicit Euler formula for one cell with a given step, from the cell's own
  temperature, its four neighbours, its properties and its source term.
\<close>

definition euler_update ::
  "real \<Rightarrow> real \<Rightarrow> real \<Rightarrow> real \<Rightarrow> real \<Rightarrow> real \<Rightarrow> real \<Rightarrow> real \<Rightarrow> real \<Rightarrow> real \<Rightarrow> real \<Rightarrow> real \<Rightarrow> real" where
  "euler_update step dx dy kT rhoT cpT Tc Txm Txp Tym Typ Q =
     (let alpha = kT / (rhoT * cpT);
          d2T_dx2 = (Txp - 2 * Tc + Txm) / (dx * dx);
          d2T_dy2 = (Typ - 2 * Tc + Tym) / (dy * dy)
      in Tc + step * (alpha * (d2T_dx2 + d2T_dy2) + Q / (rhoT * cpT)))"

text \<open>
  Following the words of the specification: the per-cell effective step
  \<open>dt_eff = min(dt, 0.4 / (alpha (1/dx\<^sup>2 + 1/dy\<^sup>2)))\<close> and the update that claim C1 states.
\<close>

definition dt_eff :: "real \<Rightarrow> real \<Rightarrow> real \<Rightarrow> real \<Rightarrow> real" where
  "dt_eff dt' alpha dx dy = min dt' ((4/10) / (alpha * (1 / (dx * dx) + 1 / (dy * dy))))"

definition claimed_update ::
  "real \<Rightarrow> real \<Rightarrow> real \<Rightarrow> real \<Rightarrow> real \<Rightarrow> real \<Rightarrow> real \<Rightarrow> real \<Rightarrow> real \<Rightarrow> real \<Rightarrow> real \<Rightarrow> real \<Rightarrow> real" where
  "claimed_update dt' dx dy kT rhoT cpT Tc Txm Txp Tym Typ Q =
     euler_update (dt_eff dt' (kT / (rhoT * cpT)) dx dy) dx dy kT rhoT cpT Tc Txm Txp Tym Typ Q"

text \<open>The clamp of \<^verbatim>\<open>solveTimeStep\<close>: the ceiling is tested first, then the floor.\<close>

definition clamp_T :: "real \<Rightarrow> real \<Rightarrow> real" where
  "clamp_T lo v = (if v > T_MAX_REASONABLE then T_MAX_REASONABLE else if v < lo then lo else v)"

text \<open>
  The material that owns cell \<open>n\<close>, and the right-hand side of claim C1 read on a
  \<^verbatim>\<open>WeldingSimulation\<close> whose field \<open>T\<close> is the previous step's.
\<close>

definition owning_material :: "WeldingSimulation \<Rightarrow> nat \<Rightarrow> Material" where
  "owning_material s n = (if ws_X s ! n < ws_midpoint s then ws_mat_1 s else ws_mat_2 s)"

definition ws_claimed_cell :: "WeldingSimulation \<Rightarrow> real list \<Rightarrow> nat \<Rightarrow> nat \<Rightarrow> real" where
  "ws_claimed_cell s Qvol i j =
     (let n = idx s i j; m = owning_material s n; Told = ws_T s
      in claimed_update (dt (ws_config s)) (ws_dx s) (ws_dy s)
           (Material_get_k m (Told ! n)) (Material_get_rho m (Told ! n))
           (Material_get_cp m (Told ! n))
           (Told ! n) (Told ! idx s (i - 1) j) (Told ! idx s (i + 1) j)
           (Told ! idx s i (j - 1)) (Told ! idx s i (j + 1)) (Qvol ! n))"

text \<open>
  The same for a \<^verbatim>\<open>TIGSimulator\<close> whose \<open>T\<close> is the previous step's and whose \<open>Q_vol\<close> is
  the current source. \<open>tig_cell_update\<close> takes the step as a function of the cell's
  diffusivity: \<open>tig_claimed_cell\<close> uses the claimed \<open>dt_eff\<close>, \<open>tig_nominal_cell\<close> the
  nominal \<open>dt\<close>.
\<close>

definition tig_cell_update :: "(real \<Rightarrow> real) \<Rightarrow> TIGSimulator \<Rightarrow> nat \<Rightarrow> nat \<Rightarrow> real" where
  "tig_cell_update step g i j =
     (let c = tig_config g; n = j * tig_w g + i; Told = tig_T g; first = tig_X g ! n < tig_midpoint g;
          Tcrit = (if first then tig_mat_1_T_crit c else tig_mat_2_T_crit c);
          Tmelt = (if first then tig_mat_1_T_melt c else tig_mat_2_T_melt c);
          kT = get_k (Told ! n) (if first then tig_mat_1_k c else tig_mat_2_k c) Tcrit Tmelt;
          rhoT = get_rho (Told ! n) (if first then tig_mat_1_rho c else tig_mat_2_rho c) Tcrit Tmelt;
          cpT = get_cp (Told ! n) (if first then tig_mat_1_cp c else tig_mat_2_cp c) Tcrit Tmelt
      in euler_update (step (kT / (rhoT * cpT))) (tig_dx g) (tig_dy g) kT rhoT cpT
           (Told ! n) (Told ! (n - 1)) (Told ! (n + 1)) (Told ! (n - tig_w g)) (Told ! (n + tig_w g))
           (tig_Q_vol g ! n))"

definition tig_claimed_cell :: "TIGSimulator \<Rightarrow> nat \<Rightarrow> nat \<Rightarrow> real" where
  "tig_claimed_cell g i j =
     tig_cell_update (\<lambda>alpha. dt_eff (tig_dt (tig_config g)) alpha (tig_dx g) (tig_dy g)) g i j"

definition tig_nominal_cell :: "TIGSimulator \<Rightarrow> nat \<Rightarrow> nat \<Rightarrow> real" where
  "tig_nominal_cell g i j = tig_cell_update (\<lambda>alpha. tig_dt (tig_config g)) g i j"

subsection \<open>The efficiency table\<close>

text \<open>Following the words of the specification: \<open>eta\<close> as a function of process and gas flag.\<close>

definition deriveEfficiency :: "string \<Rightarrow> bool \<Rightarrow> real" where
  "deriveEfficiency process gas =
     (if process = ''TIG'' then (if gas then 75/100 else 65/100) else 85/100)"

definition known_process :: "string \<Rightarrow> bool" where
  "known_process p \<longleftrightarrow> p = ''TIG'' \<or> p = ''Electrode''"

subsection \<open>Mirror symmetry\<close>

text \<open>
  The row \<open>ny - 1 - j\<close> is the mirror image of row \<open>j\<close>. A field is mirror symmetric when
  every cell \<open>(i, j)\<close> holds the value of its mirror image. The grid is symmetric when
  \<open>y[ny - 1 - j] = - y[j]\<close>, and \<open>meshgrid\<close> says that the flattened coordinate arrays hold
  \<open>x[i]\<close> and \<open>y[j]\<close> in cell \<open>(i, j)\<close>, as \<^verbatim>\<open>initializeGrid\<close> leaves them.
\<close>

definition mirror :: "WeldingSimulation \<Rightarrow> nat \<Rightarrow> nat" where
  "mirror s j = ws_ny s - 1 - j"

definition mirror_symmetric :: "WeldingSimulation \<Rightarrow> real list \<Rightarrow> bool" where
  "mirror_symmetric s F \<longleftrightarrow>
     (\<forall>i < ws_nx s. \<forall>j < ws_ny s. F ! idx s i j = F ! idx s i (mirror s j))"

definition grid_symmetric :: "WeldingSimulation \<Rightarrow> bool" where
  "grid_symmetric s \<longleftrightarrow> (\<forall>j < ws_ny s. ws_y s ! mirror s j = - ws_y s ! j)"

definition meshgrid :: "WeldingSimulation \<Rightarrow> bool" where
  "meshgrid s \<longleftrightarrow>
     ws_N s = ws_nx s * ws_ny s \<and>
     (\<forall>i < ws_nx s. \<forall>j < ws_ny s.
        ws_X s ! idx s i j = ws_x s ! i \<and> ws_Y s ! idx s i j = ws_y s ! j)"

text \<open>The properties of the grid and the two fields that a symmetric run keeps.\<close>

definition symmetric_state :: "WeldingSimulation \<Rightarrow> bool" where
  "symmetric_state s \<longleftrightarrow>
     meshgrid s \<and> grid_symmetric s \<and> y_arc (ws_config s) = 0 \<and>
     mirror_symmetric s (ws_T s) \<and> mirror_symmetric s (ws_T_max s)"

subsection \<open>Divisors\<close>

text \<open>
  The divisors of a time step are \<open>rho cp\<close>, \<open>alpha\<close> (in the stability bound of
  \<^verbatim>\<open>WeldingSimulation\<close>) and the squared grid spacings, those of the heat source the plate
  thickness and the semi-axes of the ellipsoid. The temperature-dependent factors of the
  material laws never vanish, so that the divisors of every cell are non-zero when the base
  properties of both materials are. Where these predicates hold, real arithmetic is what the
  program computes, up to rounding.
\<close>

definition ws_divisors_nonzero :: "WeldingSimulation \<Rightarrow> bool" where
  "ws_divisors_nonzero s \<longleftrightarrow>
     ws_dx s \<noteq> 0 \<and> ws_dy s \<noteq> 0 \<and>
     mat_k (ws_mat_1 s) \<noteq> 0 \<and> mat_rho (ws_mat_1 s) \<noteq> 0 \<and> mat_cp (ws_mat_1 s) \<noteq> 0 \<and>
     mat_k (ws_mat_2 s) \<noteq> 0 \<and> mat_rho (ws_mat_2 s) \<noteq> 0 \<and> mat_cp (ws_mat_2 s) \<noteq> 0"

definition ws_source_divisors_nonzero :: "WeldingSimulation \<Rightarrow> bool" where
  "ws_source_divisors_nonzero s \<longleftrightarrow>
     thickness (ws_config s) \<noteq> 0 \<and> cfg_a (ws_config s) \<noteq> 0 \<and> cfg_b (ws_config s) \<noteq> 0"

definition tig_divisors_nonzero :: "TIGSimulator \<Rightarrow> bool" where
  "tig_divisors_nonzero g \<longleftrightarrow>
     tig_dx g \<noteq> 0 \<and> tig_dy g \<noteq> 0 \<and>
     tig_mat_1_rho (tig_config g) \<noteq> 0 \<and> tig_mat_1_cp (tig_config g) \<noteq> 0 \<and>
     tig_mat_2_rho (tig_config g) \<noteq> 0 \<and> tig_mat_2_cp (tig_config g) \<noteq> 0"

definition tig_source_divisors_nonzero :: "TIGSimulator \<Rightarrow> bool" where
  "tig_source_divisors_nonzero g \<longleftrightarrow>
     tig_a (tig_config g) \<noteq> 0 \<and> tig_b (tig_config g) \<noteq> 0 \<and>
     tig_cf (tig_config g) \<noteq> 0 \<and> tig_cr (tig_config g) \<noteq> 0"

section \<open>Concrete configurations\<close>

text \<open>
  A plate of \<open>3 \<times> 3\<close> grid points, 2 cm square, with the default materials and process;
  the arc starts at its far edge, so that it has left the plate in the first iteration.
  \<open>small_run1\<close> and \<open>small_run2\<close> are the states after one and two iterations.
\<close>

definition small_config :: SimulationConfig where
  "small_config = default_config\<lparr>Lx := 2/100, Ly := 2/100, nx := 3, ny := 3\<rparr>"

definition small_sim :: WeldingSimulation where
  "small_sim = build small_config"

definition small_run1 :: run_state where
  "small_run1 = run_body (run_init small_sim)"

definition small_run2 :: run_state where
  "small_run2 = run_body small_run1"

definition tig_small_config :: TIGConfig where
  "tig_small_config =
     tig_default_config\<lparr>tig_Lx := 2/100, tig_Ly := 2/100, tig_nx := 3, tig_ny := 3\<rparr>"

definition tig_small_sim :: TIGSimulator where
  "tig_small_sim = tig_build tig_small_config"

definition tig_small_run1 :: TIGSimulator where
  "tig_small_run1 = projr (tig_run_step 500 1 tig_small_sim)"

definition tig_small_run2 :: TIGSimulator where
  "tig_small_run2 = projr (tig_run_step 500 2 tig_small_run1)"

text \<open>The small plates without power, and the small plate in an environment of 6000 K.\<close>

definition unpowered_config :: SimulationConfig where
  "unpowered_config = small_config\<lparr>cfg_V := 0\<rparr>"

definition unpowered_sim :: WeldingSimulation where
  "unpowered_sim = build unpowered_config"

definition tig_unpowered_config :: TIGConfig where
  "tig_unpowered_config = tig_small_config\<lparr>tig_V := 0\<rparr>"

definition tig_unpowered_sim :: TIGSimulator where
  "tig_unpowered_sim = tig_build tig_unpowered_config"



text \<open>
  The compiled-in default \<^verbatim>\<open>TIGSimulator\<close> and its state after \<^verbatim>\<open>apply_heat_source\<close> of the
  first iteration (\<open>t = 1 dt\<close>); the same with the current raised to 15 kA.
\<close>

definition tig_default_sim :: TIGSimulator where
  "tig_default_sim = tig_build tig_default_config"

definition tig_default_heated :: TIGSimulator where
  "tig_default_heated = apply_heat_source tig_default_sim (1 * tig_dt tig_default_config)"




text \<open>
  The default \<^verbatim>\<open>WeldingSimulation\<close> with the current raised to 150 kA
  (\<^verbatim>\<open>--current 150000\<close>), and the configuration after
  \<^verbatim>\<open>--weld_process Electrode --no-gas\<close>.
\<close>

definition hot_arc_config :: SimulationConfig where
  "hot_arc_config = default_config\<lparr>cfg_I := 150000\<rparr>"

definition hot_arc_sim :: WeldingSimulation where
  "hot_arc_sim = build hot_arc_config"

definition electrode_config :: SimulationConfig where
  "electrode_config = default_config\<lparr>weld_process := ''Electrode'', use_gas := False\<rparr>"

text \<open>The default configurations on a grid of \<open>2 \<times> 2\<close> points, and of a single point.\<close>

definition two_by_two_config :: SimulationConfig where
  "two_by_two_config = default_config\<lparr>nx := 2, ny := 2\<rparr>"

definition tig_single_point_config :: TIGConfig where
  "tig_single_point_config = tig_default_config\<lparr>tig_nx := 1, tig_ny := 1\<rparr>"







section \<open>Integrals of the heat flux\<close>

subsection \<open>The flux as a function of the offsets from the arc\<close>

text \<open>
  \<^verbatim>\<open>computeGoldakHeatFlux\<close> and \<^verbatim>\<open>goldak_heat_flux\<close> evaluate, in each cell, one function of
  the offsets \<open>xi = X - x_arc\<close> and \<open>eta = Y - y_arc\<close>. \<open>goldak_flux\<close> and \<open>tig_goldak_flux\<close>
  are the bodies of the two loops as functions of these offsets.
\<close>

definition goldak_flux :: "WeldingSimulation \<Rightarrow> real \<Rightarrow> real \<Rightarrow> real" where
  "goldak_flux s xi eta' =
     (let c = ws_config s;
          a_sq = cfg_a c * cfg_a c;
          b_sq = cfg_b c * cfg_b c;
          coeff_f = (ff c * ws_Q_total s) / (cfg_a c * cfg_b c * pi);
          coeff_r = (fr c * ws_Q_total s) / (cfg_a c * cfg_b c * pi);
          exp_arg = - xi * xi / a_sq - eta' * eta' / b_sq
      in if xi \<ge> 0 then coeff_f * exp exp_arg else coeff_r * exp exp_arg)"

definition tig_goldak_flux ::
  "real \<Rightarrow> real \<Rightarrow> real \<Rightarrow> real \<Rightarrow> real \<Rightarrow> real \<Rightarrow> real \<Rightarrow> real \<Rightarrow> real \<Rightarrow> real" where
  "tig_goldak_flux Q a' b' cf' cr' ff' fr' xi eta' =
     (let b_sq = b' * b';
          cf_sq = cf' * cf';
          cr_sq = cr' * cr';
          SQRT_PI = sqrt pi;
          coeff_f = (6 * ff' * Q) / (a' * b' * cf' * pi * SQRT_PI);
          coeff_r = (6 * fr' * Q) / (a' * b' * cr' * pi * SQRT_PI);
          eta_sq = eta' * eta'
      in if xi \<ge> 0 then coeff_f * exp (- 3 * (xi * xi / cf_sq + eta_sq / b_sq))
         else coeff_r * exp (- 3 * (xi * xi / cr_sq + eta_sq / b_sq)))"

text \<open>
  The default \<^verbatim>\<open>WeldingSimulation\<close>, and the flux function that the default \<^verbatim>\<open>TIGSimulator\<close>
  passes to \<^verbatim>\<open>goldak_heat_flux\<close>.
\<close>

definition default_sim :: WeldingSimulation where
  "default_sim = build default_config"

definition tig_default_goldak_flux :: "real \<Rightarrow> real \<Rightarrow> real" where
  "tig_default_goldak_flux =
     tig_goldak_flux (tig_eta tig_default_config * tig_V tig_default_config * tig_I tig_default_config)
       (tig_a tig_default_config) (tig_b tig_default_config) (tig_cf tig_default_config)
       (tig_cr tig_default_config) (tig_ff tig_default_config) (tig_fr tig_default_config)"

subsection \<open>Improper integrals\<close>

text \<open>
  Following the words of the specification, which speaks of the integral of the flux over an
  infinite half-plane. The integral of \<open>f\<close> over \<open>(0, \<infinity>)\<close> is taken in Newton's sense: it is
  \<open>L\<close> when \<open>f\<close> has a primitive \<open>F\<close> on \<open>(0, \<infinity>)\<close> that tends to \<open>0\<close> at \<open>0\<close> and to \<open>L\<close> at
  infinity. The integral over the line is the sum of the integrals over its two halves, and
  the integral over the forward half-plane \<open>xi > 0\<close> is the iterated integral, first in
  \<open>xi\<close> over \<open>(0, \<infinity>)\<close> and then in \<open>eta\<close> over the line; the rearward half-plane \<open>xi < 0\<close> is
  the forward one of the reflected function.
\<close>

definition half_line_integral :: "(real \<Rightarrow> real) \<Rightarrow> real \<Rightarrow> bool" where
  "half_line_integral f L \<longleftrightarrow>
     (\<exists>F. (\<forall>x>0. (F has_real_derivative f x) (at x)) \<and> (F \<longlongrightarrow> 0) (at_right 0)
          \<and> (F \<longlongrightarrow> L) at_top)"

definition line_integral :: "(real \<Rightarrow> real) \<Rightarrow> real \<Rightarrow> bool" where
  "line_integral g L \<longleftrightarrow>
     (\<exists>L1 L2. half_line_integral g L1 \<and> half_line_integral (\<lambda>y. g (- y)) L2 \<and> L = L1 + L2)"

definition forward_half_integral :: "(real \<Rightarrow> real \<Rightarrow> real) \<Rightarrow> real \<Rightarrow> bool" where
  "forward_half_integral q L \<longleftrightarrow>
     (\<exists>g. (\<forall>eta'. half_line_integral (\<lambda>xi. q xi eta') (g eta')) \<and> line_integral g L)"

definition rearward_half_integral :: "(real \<Rightarrow> real \<Rightarrow> real) \<Rightarrow> real \<Rightarrow> bool" where
  "rearward_half_integral q L \<longleftrightarrow> forward_half_integral (\<lambda>xi eta'. q (- xi) eta') L"

subsection \<open>A primitive of the Gaussian, and Wallis' integrals\<close>

text \<open>
  \<open>gauss_primitive\<close> is the power series \<open>\<Sum> (-1)\<^sup>m x\<^bsup>2m+1\<^esup> / (m! (2m+1))\<close>, a primitive of
  \<open>exp (- x\<^sup>2)\<close>. \<open>wallis_P n\<close>, \<open>wallis_R k\<close> and \<open>wallis_C m\<close> are the primitives of
  \<open>(1 - x\<^sup>2)\<^sup>n\<close>, of \<open>1 / (1 + x\<^sup>2)\<^bsup>k+1\<^esup>\<close> and of \<open>cos\<^sup>m\<close> that vanish at \<open>0\<close>, given by their
  reduction formulas; \<open>wallis_W m\<close> is the integral of \<open>cos\<^sup>m\<close> over \<open>[0, \<pi>/2]\<close>.
\<close>

definition gauss_coeff :: "nat \<Rightarrow> real" where
  "gauss_coeff n = (if even n then 0 else (- 1) ^ ((n - 1) div 2) / (fact ((n - 1) div 2) * real n))"

definition gauss_primitive :: "real \<Rightarrow> real" where
  "gauss_primitive x = (\<Sum>n. gauss_coeff n * x ^ n)"

primrec wallis_P :: "nat \<Rightarrow> real \<Rightarrow> real" where
  "wallis_P 0 x = x"
| "wallis_P (Suc n) x =
     (x * (1 - x\<^sup>2) ^ Suc n + real (2 * Suc n) * wallis_P n x) / real (2 * Suc n + 1)"

primrec wallis_R :: "nat \<Rightarrow> real \<Rightarrow> real" where
  "wallis_R 0 x = arctan x"
| "wallis_R (Suc k) x =
     (x / (1 + x\<^sup>2) ^ Suc k + real (2 * k + 1) * wallis_R k x) / real (2 * Suc k)"

fun wallis_C :: "nat \<Rightarrow> real \<Rightarrow> real" where
  "wallis_C 0 t = t"
| "wallis_C (Suc 0) t = sin t"
| "wallis_C (Suc (Suc m)) t =
     (cos t ^ Suc m * sin t + real (Suc m) * wallis_C m t) / real (Suc (Suc m))"

definition wallis_W :: "nat \<Rightarrow> real" where
  "wallis_W m = wallis_C m (pi / 2)"

section \<open>Loop nests: what a sweep leaves in each cell\<close>

lemma length_row_sweep [simp]: "length (row_sweep cols w j f arr) = length arr"
  unfolding row_sweep_def by (induction cols arbitrary: arr) simp_all

lemma length_grid_sweep [simp]: "length (grid_sweep rows cols w f arr) = length arr"
  unfolding grid_sweep_def by (induction rows arbitrary: arr) simp_all

lemma nth_row_sweep:
  "n < length arr \<Longrightarrow>
   row_sweep cols w j f arr ! n =
     (if \<exists>i \<in> set cols. n = j * w + i then f (n - j * w) j else arr ! n)"
  unfolding row_sweep_def
proof (induction cols arbitrary: arr)
  case Nil
  then show ?case by simp
next
  case (Cons c cols)
  have len: "n < length (arr[j * w + c := f c j])" using Cons.prems by simp
  show ?case
    using Cons.IH [OF len] Cons.prems
    by (auto simp: nth_list_update)
qed

lemma cell_decompose:
  assumes "i < (w::nat)"
  shows "(n = j * w + i) \<longleftrightarrow> (n div w = j \<and> n mod w = i)"
proof
  assume "n = j * w + i"
  moreover from assms have "0 < w" by simp
  ultimately show "n div w = j \<and> n mod w = i" using assms by simp
next
  assume "n div w = j \<and> n mod w = i"
  then have "j * w + i = n div w * w + n mod w" by simp
  also have "\<dots> = n" by simp
  finally show "n = j * w + i" by simp
qed

lemma minus_div_mult_eq_mod': "n - n div w * w = n mod (w::nat)"
  by (simp add: minus_div_mult_eq_mod)

lemma nth_grid_sweep:
  assumes "n < length arr" and "\<forall>i \<in> set cols. i < w"
  shows "grid_sweep rows cols w f arr ! n =
     (if n div w \<in> set rows \<and> n mod w \<in> set cols then f (n mod w) (n div w) else arr ! n)"
  using assms(1) unfolding grid_sweep_def
proof (induction rows arbitrary: arr)
  case Nil
  then show ?case by simp
next
  case (Cons r rows)
  have len: "n < length (row_sweep cols w r f arr)" using Cons.prems by simp
  have row: "row_sweep cols w r f arr ! n =
      (if n div w = r \<and> n mod w \<in> set cols then f (n mod w) r else arr ! n)"
    using assms(2)
    by (subst nth_row_sweep [OF Cons.prems]) (auto simp: cell_decompose minus_div_mult_eq_mod')
  show ?case
    using Cons.IH [OF len] row by auto
qed

lemma cell_lt:
  assumes "i < (w::nat)" "j < h"
  shows "j * w + i < w * h"
proof -
  have "j * w + i < j * w + w" using assms by simp
  also have "\<dots> = Suc j * w" by simp
  also have "\<dots> \<le> h * w" using assms by (intro mult_le_mono1) simp
  finally show ?thesis by (simp add: mult.commute)
qed

lemma nth_full_sweep:
  assumes "length arr = w * h" "i < w" "j < h"
  shows "grid_sweep [0..<h] [0..<w] w f arr ! (j * w + i) = f i j"
proof -
  have lt: "j * w + i < length arr" using assms cell_lt by simp
  show ?thesis using assms by (simp add: nth_grid_sweep [OF lt])
qed

lemma nth_update2:
  "n < length arr \<Longrightarrow> (arr[p := v])[q := v] ! n = (if n = p \<or> n = q then v else arr ! n)"
  by (cases "q < length arr") (auto simp: nth_list_update list_update_beyond)

lemma length_fold_update2 [simp]:
  "length (fold (\<lambda>i acc. (acc[p i := v])[q i := v]) cols arr) = length arr"
  by (induction cols arbitrary: arr) simp_all

lemma nth_fold_update2:
  "n < length arr \<Longrightarrow>
   fold (\<lambda>i acc. (acc[p i := v])[q i := v]) cols arr ! n =
     (if \<exists>i \<in> set cols. n = p i \<or> n = q i then v else arr ! n)"
proof (induction cols arbitrary: arr)
  case Nil
  then show ?case by simp
next
  case (Cons c cols)
  have len: "n < length ((arr[p c := v])[q c := v])" using Cons.prems by simp
  show ?case
    using Cons.IH [OF len] nth_update2 [OF Cons.prems, of "p c" v "q c"]
    by auto
qed

section \<open>WeldingSimulation: the fields after one step\<close>

lemma idx_lt:
  assumes "i < ws_nx s" "j < ws_ny s"
  shows "idx s i j < ws_nx s * ws_ny s"
  using cell_lt [OF assms] by (simp add: idx_def)

lemma nth_solveTimeStep_T:
  assumes "ws_N s = ws_nx s * ws_ny s" "i < ws_nx s" "j < ws_ny s"
  shows "ws_T (solveTimeStep s t Qvol) ! idx s i j =
     solve_cell s Qvol (fst (computeMaterialProperties s (ws_T s)))
       (fst (snd (computeMaterialProperties s (ws_T s))))
       (snd (snd (computeMaterialProperties s (ws_T s)))) i j"
  using assms
  by (simp add: solveTimeStep_def split_beta Let_def idx_def nth_full_sweep)


lemma nth_solveTimeStep_T_max:
  assumes "n < ws_N s"
  shows "ws_T_max (solveTimeStep s t Qvol) ! n =
     max (ws_T_max s ! n) (ws_T (solveTimeStep s t Qvol) ! n)"
  using assms by (simp add: solveTimeStep_def split_beta Let_def)

lemma solveTimeStep_frame:
  "ws_config (solveTimeStep s t Qvol) = ws_config s"
  "ws_nx (solveTimeStep s t Qvol) = ws_nx s"
  "ws_ny (solveTimeStep s t Qvol) = ws_ny s"
  "ws_N (solveTimeStep s t Qvol) = ws_N s"
  "ws_nt (solveTimeStep s t Qvol) = ws_nt s"
  "ws_X (solveTimeStep s t Qvol) = ws_X s"
  "ws_Y (solveTimeStep s t Qvol) = ws_Y s"
  by (simp_all add: solveTimeStep_def split_beta Let_def)

section \<open>TIGSimulator: the fields after one step\<close>

lemma time_step_T_new_nth:
  assumes N: "tig_N s = tig_w s * tig_h s"
    and i: "i < tig_w s" and j: "j < tig_h s"
  shows "time_step_T_new s ! (j * tig_w s + i) =
     (if i = 0 \<or> i = tig_w s - 1 \<or> j = 0 \<or> j = tig_h s - 1
      then tig_T0 (tig_config s) else tig_interior_cell s i j)"
proof -
  define w where "w = tig_w s"
  define h where "h = tig_h s"
  define n where "n = j * w + i"
  have iw: "i < w" and jh: "j < h" using i j by (simp_all add: w_def h_def)
  have lt: "n < tig_N s" using N cell_lt [OF iw jh] by (simp add: w_def h_def n_def)
  have dm: "n div w = j" "n mod w = i" using iw by (simp_all add: n_def)
  have row: "(\<exists>j' \<in> set [0..<h]. n = j' * w \<or> n = j' * w + w - 1) \<longleftrightarrow> (i = 0 \<or> i = w - 1)"
  proof
    assume "\<exists>j' \<in> set [0..<h]. n = j' * w \<or> n = j' * w + w - 1"
    then obtain j' where "n = j' * w + 0 \<or> n = j' * w + (w - 1)" using iw by force
    then show "i = 0 \<or> i = w - 1"
      using iw dm(2)
      by (metis mod_mult_self3 mod_less diff_less zero_less_one less_nat_zero_code neq0_conv)
  next
    assume "i = 0 \<or> i = w - 1"
    then have "n = j * w \<or> n = j * w + w - 1" using iw by (auto simp: n_def)
    then show "\<exists>j' \<in> set [0..<h]. n = j' * w \<or> n = j' * w + w - 1" using jh by auto
  qed
  have col: "(\<exists>i' \<in> set [0..<w]. n = i' \<or> n = (h - 1) * w + i') \<longleftrightarrow> (j = 0 \<or> j = h - 1)"
  proof
    assume "\<exists>i' \<in> set [0..<w]. n = i' \<or> n = (h - 1) * w + i'"
    then obtain i' where i': "i' < w" "n = 0 * w + i' \<or> n = (h - 1) * w + i'" by auto
    then show "j = 0 \<or> j = h - 1"
      using dm(1) by (metis cell_decompose)
  next
    assume "j = 0 \<or> j = h - 1"
    then show "\<exists>i' \<in> set [0..<w]. n = i' \<or> n = (h - 1) * w + i'"
      using iw by (auto simp: n_def)
  qed
  have int: "n div w \<in> set [1..<h - 1] \<and> n mod w \<in> set [1..<w - 1] \<longleftrightarrow>
      \<not> (i = 0 \<or> i = w - 1 \<or> j = 0 \<or> j = h - 1)"
    using iw jh dm by auto
  have cols: "\<forall>i \<in> set [1..<w - 1]. i < w" by auto
  have sweep: "grid_sweep [1..<h - 1] [1..<w - 1] w (tig_interior_cell s) (replicate (tig_N s) 0) ! n =
      (if \<not> (i = 0 \<or> i = w - 1 \<or> j = 0 \<or> j = h - 1) then tig_interior_cell s i j else 0)"
    using nth_grid_sweep [of n "replicate (tig_N s) 0" "[1..<w - 1]" w "[1..<h - 1]"
        "tig_interior_cell s", OF _ cols] lt int dm by auto
  have "time_step_T_new s ! n =
     (if i = 0 \<or> i = w - 1 \<or> j = 0 \<or> j = h - 1
      then tig_T0 (tig_config s) else tig_interior_cell s i j)"
    unfolding time_step_T_new_def Let_def tig_w_def [symmetric] tig_h_def [symmetric]
      w_def [symmetric] h_def [symmetric]
    using lt row col sweep
    by (simp add: nth_fold_update2 del: upt_Suc set_upt)
  then show ?thesis by (simp add: n_def w_def h_def)
qed

lemma time_step_explicit_Inr:
  assumes "0 < tig_w g" "0 < tig_h g"
  shows "time_step_explicit g =
     Inr (g\<lparr>tig_T := map (\<lambda>n. time_step_T_new g ! n) [0..<tig_N g],
            tig_T_max := map (\<lambda>n. if time_step_T_new g ! n > tig_T_max g ! n
                                   then time_step_T_new g ! n else tig_T_max g ! n)
                           [0..<tig_N g]\<rparr>)"
  using assms by (simp add: time_step_explicit_def Let_def tig_w_def tig_h_def)

section \<open>What the constructors build\<close>

lemma build_simps:
  "ws_config (build cfg) = adjust_eta cfg"
  "ws_nx (build cfg) = nat (nx cfg)"
  "ws_ny (build cfg) = nat (ny cfg)"
  "ws_N (build cfg) = nat (nx cfg) * nat (ny cfg)"
  "ws_T (build cfg) = replicate (nat (nx cfg) * nat (ny cfg)) (T0 cfg)"
  "ws_T_max (build cfg) = replicate (nat (nx cfg) * nat (ny cfg)) (T0 cfg)"
  "ws_midpoint (build cfg) = Lx cfg / 2"
  "ws_Q_total (build cfg) = eta (adjust_eta cfg) * cfg_V cfg * cfg_I cfg"
  "ws_nt (build cfg) = \<lceil>((Lx cfg - x_start cfg) / v_weld cfg + 10) / dt cfg\<rceil>"
  by (simp_all add: build_def Let_def adjust_eta_def)

lemma tig_build_simps:
  "tig_config (tig_build c) = c"
  "tig_N (tig_build c) = nat (tig_nx c * tig_ny c)"
  "tig_w (tig_build c) = nat (tig_nx c)"
  "tig_h (tig_build c) = nat (tig_ny c)"
  "tig_T (tig_build c) = replicate (nat (tig_nx c * tig_ny c)) (tig_T0 c)"
  "tig_T_max (tig_build c) = replicate (nat (tig_nx c * tig_ny c)) (tig_T0 c)"
  by (simp_all add: tig_build_def Let_def tig_w_def tig_h_def)

section \<open>C6: boundary cells are held at the ambient temperature\<close>

lemma ws_boundary_T0:
  assumes "ws_N s = ws_nx s * ws_ny s" "i < ws_nx s" "j < ws_ny s" "isBoundary s i j"
  shows "ws_T (solveTimeStep s t Qvol) ! idx s i j = T0 (ws_config s)"
  using assms by (simp add: nth_solveTimeStep_T solve_cell_def)

lemma tig_boundary_T0:
  assumes "tig_N g = tig_w g * tig_h g" "i < tig_w g" "j < tig_h g"
    "i = 0 \<or> i = tig_w g - 1 \<or> j = 0 \<or> j = tig_h g - 1"
  shows "\<exists>g'. time_step_explicit g = Inr g' \<and> tig_T g' ! (j * tig_w g + i) = tig_T0 (tig_config g)"
proof -
  have pos: "0 < tig_w g" "0 < tig_h g" using assms by auto
  have lt: "j * tig_w g + i < tig_N g" using assms cell_lt by simp
  show ?thesis
    using assms(4) lt
    by (simp add: time_step_explicit_Inr [OF pos] time_step_T_new_nth [OF assms(1-3)])
qed

text \<open>
  Claim C6. In both variants, whatever the previous field \<open>T\<close> and the source \<open>Qvol\<close> are,
  a step leaves exactly \<open>T0\<close> in every boundary cell \<open>(i, j)\<close> of the grid, that is every
  cell with \<open>i = 0\<close>, \<open>i = nx - 1\<close>, \<open>j = 0\<close> or \<open>j = ny - 1\<close>. For \<^verbatim>\<open>WeldingSimulation\<close> the
  step is \<^verbatim>\<open>solveTimeStep\<close>; for \<^verbatim>\<open>TIGSimulator\<close> it is \<^verbatim>\<open>time_step_explicit\<close>, which also
  returns normally on a grid that has a cell. The only assumption on the object is that
  it holds \<open>nx \<times> ny\<close> cells.
\<close>

theorem boundary_cells_forced_to_T0:
  "(ws_N s = ws_nx s * ws_ny s \<and> i < ws_nx s \<and> j < ws_ny s \<and> isBoundary s i j \<longrightarrow>
      ws_T (solveTimeStep s t Qvol) ! idx s i j = T0 (ws_config s))
   \<and> (tig_N g = tig_w g * tig_h g \<and> i' < tig_w g \<and> j' < tig_h g \<and>
        (i' = 0 \<or> i' = tig_w g - 1 \<or> j' = 0 \<or> j' = tig_h g - 1) \<longrightarrow>
      (\<exists>g'. time_step_explicit g = Inr g' \<and>
             tig_T g' ! (j' * tig_w g + i') = tig_T0 (tig_config g)))"
  using ws_boundary_T0 tig_boundary_T0 by blast

theorem boundary_cells_forced_to_T0_witness:
  "(ws_N (build small_config) = ws_nx (build small_config) * ws_ny (build small_config)
      \<and> 2 < ws_nx (build small_config) \<and> 1 < ws_ny (build small_config)
      \<and> isBoundary (build small_config) 2 1)
   \<and> ws_T (solveTimeStep (build small_config) 1 (replicate 9 1000)) ! idx (build small_config) 2 1
       = T0 (ws_config (build small_config))
   \<and> (tig_N (tig_build tig_small_config)
        = tig_w (tig_build tig_small_config) * tig_h (tig_build tig_small_config)
      \<and> 1 < tig_w (tig_build tig_small_config) \<and> 2 < tig_h (tig_build tig_small_config)
      \<and> 2 = tig_h (tig_build tig_small_config) - 1)
   \<and> (\<exists>g'. time_step_explicit (tig_build tig_small_config) = Inr g' \<and>
             tig_T g' ! (2 * tig_w (tig_build tig_small_config) + 1)
               = tig_T0 (tig_config (tig_build tig_small_config)))"
proof -
  have a: "ws_N (build small_config) = ws_nx (build small_config) * ws_ny (build small_config)
      \<and> 2 < ws_nx (build small_config) \<and> 1 < ws_ny (build small_config)
      \<and> isBoundary (build small_config) 2 1"
    by (simp add: build_simps small_config_def isBoundary_def)
  have b: "tig_N (tig_build tig_small_config)
        = tig_w (tig_build tig_small_config) * tig_h (tig_build tig_small_config)
      \<and> 1 < tig_w (tig_build tig_small_config) \<and> 2 < tig_h (tig_build tig_small_config)
      \<and> 2 = tig_h (tig_build tig_small_config) - 1"
    by (simp add: tig_build_simps tig_small_config_def)
  show ?thesis
    using boundary_cells_forced_to_T0 [of "build small_config" 2 1 1 "replicate 9 1000"
        "tig_build tig_small_config" 1 2] a b
    by blast
qed

section \<open>The driver loops\<close>

lemma updateMonitoring_frame:
  "ws_T (updateMonitoring s t) = ws_T s"
  "ws_T_max (updateMonitoring s t) = ws_T_max s"
  "ws_config (updateMonitoring s t) = ws_config s"
  "ws_nx (updateMonitoring s t) = ws_nx s"
  "ws_ny (updateMonitoring s t) = ws_ny s"
  "ws_N (updateMonitoring s t) = ws_N s"
  "ws_nt (updateMonitoring s t) = ws_nt s"
  "ws_X (updateMonitoring s t) = ws_X s"
  "ws_Y (updateMonitoring s t) = ws_Y s"
  by (simp_all add: updateMonitoring_def)

lemma run_body_fields:
  "ws_T (rs_sim (run_body r)) =
     ws_T (solveTimeStep (rs_sim r) (rs_t r + dt (ws_config (rs_sim r))) (step_Qvol r))"
  "ws_T_max (rs_sim (run_body r)) =
     ws_T_max (solveTimeStep (rs_sim r) (rs_t r + dt (ws_config (rs_sim r))) (step_Qvol r))"
  "ws_config (rs_sim (run_body r)) = ws_config (rs_sim r)"
  "ws_nx (rs_sim (run_body r)) = ws_nx (rs_sim r)"
  "ws_ny (rs_sim (run_body r)) = ws_ny (rs_sim r)"
  "ws_N (rs_sim (run_body r)) = ws_N (rs_sim r)"
  "ws_nt (rs_sim (run_body r)) = ws_nt (rs_sim r)"
  "rs_step (run_body r) = rs_step r + 1"
  "rs_t (run_body r) = rs_t r + dt (ws_config (rs_sim r))"
  by (simp_all add: run_body_def Let_def updateMonitoring_frame solveTimeStep_frame step_Qvol_def)

lemma run_step_Inr: "run_step r = Inr r' \<Longrightarrow> r' = run_body r"
  by (auto simp: run_step_def Let_def split: if_splits)

lemma run_step_ok:
  assumes "10 \<le> ws_nt (rs_sim r)" "100 * rs_step r \<le> INT_MAX"
  shows "run_step r = Inr (run_body r)"
proof -
  have "ws_nt (rs_sim r) div 10 \<noteq> 0" using assms(1) by auto
  then show ?thesis using assms(2) by (simp add: run_step_def Let_def)
qed


lemma run_steps_invariant:
  assumes "run_steps n r = Inr r'" "P r" "\<And>x. P x \<Longrightarrow> P (run_body x)"
  shows "P r'"
  using assms(1,2)
proof (induction n arbitrary: r)
  case 0
  then show ?case by simp
next
  case (Suc n)
  from Suc.prems(1) obtain r1 where r1: "run_step r = Inr r1" "run_steps n r1 = Inr r'"
    by (auto split: sum.splits)
  have "P r1" using run_step_Inr [OF r1(1)] Suc.prems(2) assms(3) by simp
  with Suc.IH r1(2) show ?case by blast
qed


lemma ctor_Inr:
  assumes "WeldingSimulation_ctor cfg = Inr s"
  shows "s = build cfg" "2 \<le> nx cfg" "2 \<le> ny cfg"
  using assms by (auto simp: WeldingSimulation_ctor_def split: if_splits)




lemma tig_pre_frame:
  "tig_config (compute_material_properties (apply_heat_source g t)) = tig_config g"
  "tig_N (compute_material_properties (apply_heat_source g t)) = tig_N g"
  "tig_T (compute_material_properties (apply_heat_source g t)) = tig_T g"
  "tig_T_max (compute_material_properties (apply_heat_source g t)) = tig_T_max g"
  "tig_w (compute_material_properties (apply_heat_source g t)) = tig_w g"
  "tig_h (compute_material_properties (apply_heat_source g t)) = tig_h g"
  by (simp_all add: compute_material_properties_def apply_heat_source_def Let_def tig_w_def tig_h_def)

lemma time_step_explicit_fields:
  assumes "time_step_explicit g = Inr g'"
  shows "tig_config g' = tig_config g" "tig_N g' = tig_N g"
    "tig_T g' = map (\<lambda>n. time_step_T_new g ! n) [0..<tig_N g]"
    "tig_T_max g' = map (\<lambda>n. if time_step_T_new g ! n > tig_T_max g ! n
                               then time_step_T_new g ! n else tig_T_max g ! n) [0..<tig_N g]"
  using assms by (auto simp: time_step_explicit_def Let_def split: if_splits)

lemma tig_T_max_time_step:
  assumes "time_step_explicit g = Inr g'" "n < tig_N g"
  shows "tig_T_max g' ! n = max (tig_T_max g ! n) (tig_T g' ! n)"
  using assms(2) by (simp add: time_step_explicit_fields [OF assms(1)] max_def)

lemma tig_step_fields:
  assumes "tig_step g t = Inr g'"
  shows "tig_config g' = tig_config g" "tig_N g' = tig_N g"
    "length (tig_T g') = tig_N g" "length (tig_T_max g') = tig_N g"
    "n < tig_N g \<Longrightarrow> tig_T_max g' ! n = max (tig_T_max g ! n) (tig_T g' ! n)"
  using assms tig_T_max_time_step [of "compute_material_properties (apply_heat_source g t)" g' n]
  by (simp_all add: tig_step_def time_step_explicit_fields tig_pre_frame)

lemma tig_run_step_Inr:
  assumes "tig_run_step nt st g = Inr g'"
  shows "\<exists>g1. tig_step g (real_of_int st * tig_dt (tig_config g)) = Inr g1 \<and>
           tig_T g' = tig_T g1 \<and> tig_T_max g' = tig_T_max g1 \<and>
           tig_config g' = tig_config g1 \<and> tig_N g' = tig_N g1"
  using assms
  by (auto simp: tig_run_step_def tig_step_def Let_def split: sum.splits if_splits)

lemma tig_run_step_T_max:
  assumes "tig_run_step nt st g = Inr g'" "n < tig_N g"
  shows "tig_N g' = tig_N g" "tig_config g' = tig_config g"
    "tig_T_max g' ! n = max (tig_T_max g ! n) (tig_T g' ! n)"
proof -
  from tig_run_step_Inr [OF assms(1)] obtain g1 where
    g1: "tig_step g (real_of_int st * tig_dt (tig_config g)) = Inr g1"
      "tig_T g' = tig_T g1" "tig_T_max g' = tig_T_max g1"
      "tig_config g' = tig_config g1" "tig_N g' = tig_N g1" by blast
  show "tig_N g' = tig_N g" "tig_config g' = tig_config g"
    "tig_T_max g' ! n = max (tig_T_max g ! n) (tig_T g' ! n)"
    using tig_step_fields [OF g1(1)] g1(2-5) assms(2) by simp_all
qed






section \<open>The running peak along the driver loops\<close>



lemma small_config_fields:
  "nx small_config = 3" "ny small_config = 3" "Lx small_config = 2/100"
  "x_start small_config = 2/100" "v_weld small_config = 6/1000" "dt small_config = 2/100"
  "T0 small_config = 293"
  by (simp_all add: small_config_def default_config_def)

lemma small_ctor: "WeldingSimulation_ctor small_config = Inr small_sim"
  by (simp add: WeldingSimulation_ctor_def small_config_fields INT_MAX_def INT_MIN_def small_sim_def)

lemma small_sim_fields:
  "ws_N small_sim = 9" "ws_nx small_sim = 3" "ws_ny small_sim = 3" "ws_nt small_sim = 500"
  by (simp_all add: small_sim_def build_simps small_config_fields)

lemma run_steps_1: "run_steps 1 r = run_step r"
  by (simp split: sum.splits)

lemma small_run1: "run_steps 1 (run_init small_sim) = Inr small_run1"
  unfolding run_steps_1 small_run1_def
  by (rule run_step_ok) (simp_all add: run_init_def small_sim_fields INT_MAX_def)

lemma small_run2: "run_steps 1 small_run1 = Inr small_run2"
  unfolding run_steps_1 small_run2_def
  by (rule run_step_ok)
    (simp_all add: small_run1_def run_body_fields run_init_def small_sim_fields INT_MAX_def)

lemma tig_run_step_total:
  assumes "0 < tig_nx (tig_config g)" "0 < tig_ny (tig_config g)"
    "tig_frame_interval (tig_config g) \<noteq> 0" "tig_output_interval (tig_config g) \<noteq> 0"
    "0 < tig_N g"
  shows "tig_run_step nt st g = Inr (projr (tig_run_step nt st g))"
proof -
  let ?g = "compute_material_properties (apply_heat_source g (real_of_int st * tig_dt (tig_config g)))"
  have "0 < tig_w ?g" "0 < tig_h ?g"
    using assms by (simp_all add: tig_pre_frame tig_w_def tig_h_def)
  from time_step_explicit_Inr [OF this] show ?thesis
    using assms by (simp add: tig_run_step_def tig_step_def Let_def tig_pre_frame)
qed

lemma tig_run_steps_1: "tig_run_steps nt 1 st g = tig_run_step nt st g"
  by (simp split: sum.splits)

lemma tig_small_config_fields:
  "tig_nx tig_small_config = 3" "tig_ny tig_small_config = 3"
  "tig_frame_interval tig_small_config = 10" "tig_output_interval tig_small_config = 50"
  "tig_T0 tig_small_config = 293"
  by (simp_all add: tig_small_config_def tig_default_config_def)

lemma tig_small_ctor: "TIGSimulator_ctor tig_small_config = Inr tig_small_sim"
  by (simp add: TIGSimulator_ctor_def tig_small_config_fields INT_MAX_def INT_MIN_def tig_small_sim_def)

lemma tig_small_run1: "tig_run_steps 500 1 1 tig_small_sim = Inr tig_small_run1"
  unfolding tig_run_steps_1 tig_small_run1_def
  by (rule tig_run_step_total) (simp_all add: tig_small_sim_def tig_build_simps tig_small_config_fields)

lemma tig_small_run1_config:
  "tig_config tig_small_run1 = tig_small_config" "tig_N tig_small_run1 = 9"
  using tig_run_step_T_max(1,2) [OF tig_small_run1 [unfolded tig_run_steps_1], of 0]
  by (simp_all add: tig_small_sim_def tig_build_simps tig_small_config_fields)

lemma tig_small_run2: "tig_run_steps 500 1 2 tig_small_run1 = Inr tig_small_run2"
  unfolding tig_run_steps_1 tig_small_run2_def
  by (rule tig_run_step_total) (simp_all add: tig_small_run1_config tig_small_config_fields)

section \<open>Cell updates in closed form\<close>

lemma computeMaterialProperties_nth:
  assumes "n < ws_N s"
  shows "fst (computeMaterialProperties s T_vec) ! n = Material_get_k (owning_material s n) (T_vec ! n)"
    "fst (snd (computeMaterialProperties s T_vec)) ! n = Material_get_cp (owning_material s n) (T_vec ! n)"
    "snd (snd (computeMaterialProperties s T_vec)) ! n = Material_get_rho (owning_material s n) (T_vec ! n)"
  using assms by (simp_all add: computeMaterialProperties_def owning_material_def Let_def)

lemma not_boundary_iff:
  "\<not> isBoundary s i j \<longleftrightarrow> 0 < i \<and> Suc i \<noteq> ws_nx s \<and> 0 < j \<and> Suc j \<noteq> ws_ny s"
  by (auto simp: isBoundary_def)

lemma ws_interior_update:
  assumes N: "ws_N s = ws_nx s * ws_ny s"
    and i: "0 < i" "i < ws_nx s - 1" and j: "0 < j" "j < ws_ny s - 1"
  shows "ws_T (solveTimeStep s t Qvol) ! idx s i j
           = clamp_T (T0 (ws_config s)) (ws_claimed_cell s Qvol i j)"
proof -
  have ii: "i < ws_nx s" and jj: "j < ws_ny s" using i j by simp_all
  have n: "idx s i j < ws_N s" using idx_lt [OF ii jj] N by simp
  have nb: "\<not> isBoundary s i j" using i j by (auto simp: not_boundary_iff)
  show ?thesis
    unfolding nth_solveTimeStep_T [OF N ii jj]
    using nb
    by (simp add: solve_cell_def Let_def computeMaterialProperties_nth [OF n] clamp_T_def
        ws_claimed_cell_def claimed_update_def euler_update_def dt_eff_def)
qed


lemma compute_material_properties_nth:
  assumes "n < tig_N g"
  shows "tig_k_arr (compute_material_properties g) ! n =
      (if tig_X g ! n < tig_midpoint g
       then get_k (tig_T g ! n) (tig_mat_1_k (tig_config g)) (tig_mat_1_T_crit (tig_config g)) (tig_mat_1_T_melt (tig_config g))
       else get_k (tig_T g ! n) (tig_mat_2_k (tig_config g)) (tig_mat_2_T_crit (tig_config g)) (tig_mat_2_T_melt (tig_config g)))"
    "tig_cp_arr (compute_material_properties g) ! n =
      (if tig_X g ! n < tig_midpoint g
       then get_cp (tig_T g ! n) (tig_mat_1_cp (tig_config g)) (tig_mat_1_T_crit (tig_config g)) (tig_mat_1_T_melt (tig_config g))
       else get_cp (tig_T g ! n) (tig_mat_2_cp (tig_config g)) (tig_mat_2_T_crit (tig_config g)) (tig_mat_2_T_melt (tig_config g)))"
    "tig_rho_arr (compute_material_properties g) ! n =
      (if tig_X g ! n < tig_midpoint g
       then get_rho (tig_T g ! n) (tig_mat_1_rho (tig_config g)) (tig_mat_1_T_crit (tig_config g)) (tig_mat_1_T_melt (tig_config g))
       else get_rho (tig_T g ! n) (tig_mat_2_rho (tig_config g)) (tig_mat_2_T_crit (tig_config g)) (tig_mat_2_T_melt (tig_config g)))"
    "tig_alpha_arr (compute_material_properties g) ! n =
       tig_k_arr (compute_material_properties g) ! n /
         (tig_rho_arr (compute_material_properties g) ! n * tig_cp_arr (compute_material_properties g) ! n)"
  using assms by (simp_all add: compute_material_properties_def Let_def)

lemma compute_material_properties_frame:
  "tig_config (compute_material_properties g) = tig_config g"
  "tig_N (compute_material_properties g) = tig_N g"
  "tig_T (compute_material_properties g) = tig_T g"
  "tig_T_max (compute_material_properties g) = tig_T_max g"
  "tig_Q_vol (compute_material_properties g) = tig_Q_vol g"
  "tig_X (compute_material_properties g) = tig_X g"
  "tig_dx (compute_material_properties g) = tig_dx g"
  "tig_dy (compute_material_properties g) = tig_dy g"
  "tig_midpoint (compute_material_properties g) = tig_midpoint g"
  "tig_w (compute_material_properties g) = tig_w g"
  "tig_h (compute_material_properties g) = tig_h g"
  by (simp_all add: compute_material_properties_def Let_def tig_w_def tig_h_def)

lemma tig_interior_update:
  assumes N: "tig_N g = tig_w g * tig_h g"
    and i: "0 < i" "i < tig_w g - 1" and j: "0 < j" "j < tig_h g - 1"
  shows "\<exists>g'. time_step_explicit (compute_material_properties g) = Inr g' \<and>
           tig_T g' ! (j * tig_w g + i) = tig_nominal_cell g i j"
proof -
  let ?g = "compute_material_properties g"
  have ii: "i < tig_w g" and jj: "j < tig_h g" using i j by simp_all
  have n: "j * tig_w g + i < tig_N g" using cell_lt [OF ii jj] N by simp
  have pos: "0 < tig_w ?g" "0 < tig_h ?g" using ii jj by (simp_all add: compute_material_properties_frame)
  have N': "tig_N ?g = tig_w ?g * tig_h ?g" using N by (simp add: compute_material_properties_frame)
  have cell: "time_step_T_new ?g ! (j * tig_w g + i) = tig_interior_cell ?g i j"
    using time_step_T_new_nth [OF N', of i j] i j
    by (simp add: compute_material_properties_frame)
  have "tig_interior_cell ?g i j = tig_nominal_cell g i j"
    using n
    by (simp add: tig_interior_cell_def tig_nominal_cell_def tig_cell_update_def Let_def
        compute_material_properties_nth compute_material_properties_frame euler_update_def
        tig_w_def [symmetric])
  then show ?thesis
    using n cell by (simp add: time_step_explicit_Inr [OF pos] compute_material_properties_frame)
qed

section \<open>Grid coordinates and heat source of a built object\<close>

lemma adjust_eta_fields:
  "Lx (adjust_eta c) = Lx c" "Ly (adjust_eta c) = Ly c" "thickness (adjust_eta c) = thickness c"
  "nx (adjust_eta c) = nx c" "ny (adjust_eta c) = ny c"
  "T0 (adjust_eta c) = T0 c" "dt (adjust_eta c) = dt c"
  "x_start (adjust_eta c) = x_start c" "v_weld (adjust_eta c) = v_weld c"
  "y_arc (adjust_eta c) = y_arc c" "cfg_a (adjust_eta c) = cfg_a c" "cfg_b (adjust_eta c) = cfg_b c"
  "ff (adjust_eta c) = ff c" "fr (adjust_eta c) = fr c"
  "cfg_V (adjust_eta c) = cfg_V c" "cfg_I (adjust_eta c) = cfg_I c"
  "weld_process (adjust_eta c) = weld_process c" "use_gas (adjust_eta c) = use_gas c"
  by (simp_all add: adjust_eta_def)

lemma build_grid:
  assumes "i < nat (nx cfg)" "j < nat (ny cfg)"
  shows "ws_X (build cfg) ! (j * nat (nx cfg) + i) = real i * Lx cfg / (real (nat (nx cfg)) - 1)"
    "ws_Y (build cfg) ! (j * nat (nx cfg) + i)
       = - Ly cfg / 2 + real j * Ly cfg / (real (nat (ny cfg)) - 1)"
  using assms
  by (simp_all add: build_def Let_def nth_full_sweep grid_x_def grid_y_def adjust_eta_fields)

lemma build_spacing:
  assumes "2 \<le> nx cfg" "2 \<le> ny cfg"
  shows "ws_dx (build cfg) = Lx cfg / (real_of_int (nx cfg) - 1)"
    "ws_dy (build cfg) = Ly cfg / (real_of_int (ny cfg) - 1)"
  using assms
  by (simp_all add: build_def Let_def grid_x_def grid_y_def adjust_eta_fields)

lemma build_materials:
  "ws_mat_1 (build cfg) = Material_ctor (mat_1_name cfg) (mat_1_rho cfg) (mat_1_cp cfg)
     (mat_1_k cfg) (mat_1_T_melt cfg) (mat_1_T_crit cfg)"
  "ws_mat_2 (build cfg) = Material_ctor (mat_2_name cfg) (mat_2_rho cfg) (mat_2_cp cfg)
     (mat_2_k cfg) (mat_2_T_melt cfg) (mat_2_T_crit cfg)"
  by (simp_all add: build_def Let_def adjust_eta_def)

lemma tig_build_grid:
  assumes "i < nat (tig_nx c)" "j < nat (tig_ny c)"
  shows "tig_X (tig_build c) ! (j * nat (tig_nx c) + i)
           = real i * (tig_Lx c / (real_of_int (tig_nx c) - 1))"
    "tig_Y (tig_build c) ! (j * nat (tig_nx c) + i)
       = - tig_Ly c / 2 + real j * (tig_Ly c / (real_of_int (tig_ny c) - 1))"
proof -
  have "nat (tig_nx c * tig_ny c) = nat (tig_nx c) * nat (tig_ny c)"
    using assms by (simp add: nat_mult_distrib)
  then show "tig_X (tig_build c) ! (j * nat (tig_nx c) + i)
           = real i * (tig_Lx c / (real_of_int (tig_nx c) - 1))"
    "tig_Y (tig_build c) ! (j * nat (tig_nx c) + i)
       = - tig_Ly c / 2 + real j * (tig_Ly c / (real_of_int (tig_ny c) - 1))"
    using assms by (simp_all add: tig_build_def Let_def nth_full_sweep)
qed

lemma tig_build_more:
  "tig_dx (tig_build c) = tig_Lx c / (real_of_int (tig_nx c) - 1)"
  "tig_dy (tig_build c) = tig_Ly c / (real_of_int (tig_ny c) - 1)"
  "tig_midpoint (tig_build c) = tig_Lx c / 2"
  "tig_q_surf (tig_build c) = replicate (nat (tig_nx c * tig_ny c)) 0"
  by (simp_all add: tig_build_def Let_def)

lemma apply_heat_source_frame:
  "tig_config (apply_heat_source g t) = tig_config g"
  "tig_N (apply_heat_source g t) = tig_N g"
  "tig_T (apply_heat_source g t) = tig_T g"
  "tig_T_max (apply_heat_source g t) = tig_T_max g"
  "tig_X (apply_heat_source g t) = tig_X g"
  "tig_Y (apply_heat_source g t) = tig_Y g"
  "tig_dx (apply_heat_source g t) = tig_dx g"
  "tig_dy (apply_heat_source g t) = tig_dy g"
  "tig_midpoint (apply_heat_source g t) = tig_midpoint g"
  "tig_w (apply_heat_source g t) = tig_w g"
  "tig_h (apply_heat_source g t) = tig_h g"
  by (simp_all add: apply_heat_source_def Let_def tig_w_def tig_h_def)

lemma apply_heat_source_on:
  assumes "tig_x_arc g t \<le> tig_Lx (tig_config g)"
    and N: "tig_N g = tig_w g * tig_h g" "length (tig_q_surf g) = tig_N g"
    and ij: "i < tig_w g" "j < tig_h g"
  shows "tig_q_surf (apply_heat_source g t) ! (j * tig_w g + i) =
           goldak_heat_flux_cell (tig_X g) (tig_Y g) (tig_x_arc g t) (tig_y_arc (tig_config g))
             (tig_eta (tig_config g) * tig_V (tig_config g) * tig_I (tig_config g))
             (tig_a (tig_config g)) (tig_b (tig_config g)) (tig_cf (tig_config g))
             (tig_cr (tig_config g)) (tig_ff (tig_config g)) (tig_fr (tig_config g)) (tig_w g) i j"
    "tig_Q_vol (apply_heat_source g t) ! (j * tig_w g + i)
       = tig_q_surf (apply_heat_source g t) ! (j * tig_w g + i)"
proof -
  have n: "j * tig_w g + i < tig_N g" using cell_lt [OF ij] N by simp
  show "tig_q_surf (apply_heat_source g t) ! (j * tig_w g + i) =
           goldak_heat_flux_cell (tig_X g) (tig_Y g) (tig_x_arc g t) (tig_y_arc (tig_config g))
             (tig_eta (tig_config g) * tig_V (tig_config g) * tig_I (tig_config g))
             (tig_a (tig_config g)) (tig_b (tig_config g)) (tig_cf (tig_config g))
             (tig_cr (tig_config g)) (tig_ff (tig_config g)) (tig_fr (tig_config g)) (tig_w g) i j"
    using assms
    by (simp add: apply_heat_source_def Let_def tig_x_arc_def goldak_heat_flux_def
        tig_w_def [symmetric] tig_h_def [symmetric] nth_full_sweep)
  show "tig_Q_vol (apply_heat_source g t) ! (j * tig_w g + i)
       = tig_q_surf (apply_heat_source g t) ! (j * tig_w g + i)"
    using assms(1) n by (simp add: apply_heat_source_def Let_def tig_x_arc_def)
qed

lemma apply_heat_source_off:
  assumes "tig_Lx (tig_config g) < tig_x_arc g t"
  shows "tig_Q_vol (apply_heat_source g t) = replicate (tig_N g) 0"
    "tig_q_surf (apply_heat_source g t) = tig_q_surf g"
  using assms by (simp_all add: apply_heat_source_def Let_def tig_x_arc_def map_replicate_const)

lemma heat_source_locals_on:
  assumes "ws_x_arc s t \<le> Lx (ws_config s)"
  shows "fst (heat_source_locals s t) = computeGoldakHeatFlux s (ws_x_arc s t)"
    "length (snd (heat_source_locals s t)) = ws_N s"
    "n < ws_N s \<Longrightarrow> snd (heat_source_locals s t) ! n
       = computeGoldakHeatFlux s (ws_x_arc s t) ! n / thickness (ws_config s)"
  using assms by (simp_all add: heat_source_locals_def Let_def ws_x_arc_def)

lemma heat_source_locals_off:
  assumes "Lx (ws_config s) < ws_x_arc s t"
  shows "fst (heat_source_locals s t) = []"
    "snd (heat_source_locals s t) = replicate (ws_N s) 0"
  using assms by (simp_all add: heat_source_locals_def Let_def ws_x_arc_def)

lemma computeGoldakHeatFlux_nth:
  assumes "ws_N s = ws_nx s * ws_ny s" "i < ws_nx s" "j < ws_ny s"
  shows "computeGoldakHeatFlux s x_arc ! idx s i j = goldak_cell s x_arc i j"
  using assms by (simp add: computeGoldakHeatFlux_def idx_def nth_full_sweep)

lemma tig_default_fields:
  "tig_nx tig_default_config = 151" "tig_ny tig_default_config = 101"
  "tig_Lx tig_default_config = 15/100" "tig_Ly tig_default_config = 10/100"
  "tig_thickness tig_default_config = 6/1000"
  "tig_mat_1_rho tig_default_config = 7850" "tig_mat_1_cp tig_default_config = 500"
  "tig_mat_1_k tig_default_config = 45" "tig_mat_1_T_melt tig_default_config = 1811"
  "tig_mat_1_T_crit tig_default_config = 1273"
  "tig_V tig_default_config = 25" "tig_I tig_default_config = 150"
  "tig_eta tig_default_config = 75/100" "tig_v_weld tig_default_config = 6/1000"
  "tig_x_start tig_default_config = 2/100" "tig_y_arc tig_default_config = 0"
  "tig_a tig_default_config = 4/1000" "tig_b tig_default_config = 3/1000"
  "tig_cf tig_default_config = 3/1000" "tig_cr tig_default_config = 8/1000"
  "tig_ff tig_default_config = 6/10" "tig_fr tig_default_config = 14/10"
  "tig_T0 tig_default_config = 293" "tig_dt tig_default_config = 2/100"
  "tig_frame_interval tig_default_config = 10" "tig_output_interval tig_default_config = 50"
  by (simp_all add: tig_default_config_def)

lemma tig_default_sim_fields:
  "tig_config tig_default_sim = tig_default_config"
  "tig_w tig_default_sim = 151" "tig_h tig_default_sim = 101" "tig_N tig_default_sim = 15251"
  "tig_dx tig_default_sim = 1/1000" "tig_dy tig_default_sim = 1/1000"
  "tig_midpoint tig_default_sim = 75/1000"
  "tig_T tig_default_sim = replicate 15251 293"
  "length (tig_q_surf tig_default_sim) = 15251"
  by (simp_all add: tig_default_sim_def tig_build_simps tig_build_more tig_default_fields)

lemma tig_default_sim_grid:
  "tig_X tig_default_sim ! (50 * 151 + 20) = 2/100"
  "tig_Y tig_default_sim ! (50 * 151 + 20) = 0"
  using tig_build_grid [of 20 tig_default_config 50]
  by (simp_all add: tig_default_sim_def tig_default_fields)

lemma tig_default_heated_eq: "tig_default_heated = apply_heat_source tig_default_sim (1/50)"
  by (simp add: tig_default_heated_def tig_default_fields)

lemma tig_default_x_arc:
  "tig_x_arc tig_default_sim (1/50) = 2012/100000"
  by (simp add: tig_x_arc_def tig_default_sim_fields tig_default_fields)

lemma tig_default_flux_pos:
  "0 < tig_q_surf tig_default_heated ! (50 * 151 + 20)"
  "tig_Q_vol tig_default_heated ! (50 * 151 + 20) = tig_q_surf tig_default_heated ! (50 * 151 + 20)"
proof -
  have on: "tig_x_arc tig_default_sim (1/50) \<le> tig_Lx (tig_config tig_default_sim)"
    unfolding tig_default_x_arc by (simp add: tig_default_sim_fields tig_default_fields)
  have N: "tig_N tig_default_sim = tig_w tig_default_sim * tig_h tig_default_sim"
    "length (tig_q_surf tig_default_sim) = tig_N tig_default_sim"
    "20 < tig_w tig_default_sim" "50 < tig_h tig_default_sim"
    by (simp_all add: tig_default_sim_fields)
  note q = apply_heat_source_on [OF on N, unfolded tig_default_x_arc,
      folded tig_default_heated_eq]
  have "0 < sqrt pi" by simp
  then have c: "0 < (6 * (14/10) * ((75/100) * 25 * 150)) / ((4/1000) * (3/1000) * (8/1000) * pi * sqrt pi)"
    by (simp add: pi_gt_zero)
  show "0 < tig_q_surf tig_default_heated ! (50 * 151 + 20)"
    using c q(1) tig_default_sim_grid
    by (simp add: goldak_heat_flux_cell_def Let_def tig_default_sim_fields tig_default_fields)
  show "tig_Q_vol tig_default_heated ! (50 * 151 + 20) = tig_q_surf tig_default_heated ! (50 * 151 + 20)"
    using q(2) by (simp add: tig_default_sim_fields)
qed

lemma tig_default_heated_fields:
  "tig_config tig_default_heated = tig_default_config"
  "tig_w tig_default_heated = 151" "tig_h tig_default_heated = 101"
  "tig_N tig_default_heated = 15251"
  "tig_dx tig_default_heated = 1/1000" "tig_dy tig_default_heated = 1/1000"
  "tig_midpoint tig_default_heated = 75/1000"
  "tig_T tig_default_heated = replicate 15251 293"
  "tig_X tig_default_heated ! 7570 = 2/100"
  using tig_default_sim_grid
  by (simp_all add: tig_default_heated_def apply_heat_source_frame tig_default_sim_fields)

lemma tig_default_cells:
  "tig_nominal_cell tig_default_heated 20 50
     = 293 + (1/50) * (tig_Q_vol tig_default_heated ! 7570 / 3925000)"
  "tig_claimed_cell tig_default_heated 20 50
     = 293 + (157/9000) * (tig_Q_vol tig_default_heated ! 7570 / 3925000)"
  by (simp_all add: tig_nominal_cell_def tig_claimed_cell_def tig_cell_update_def Let_def
      tig_default_heated_fields tig_default_fields get_k_def get_rho_def get_cp_def
      euler_update_def dt_eff_def)

lemma tig_default_step:
  "tig_step tig_default_sim (1 * tig_dt tig_default_config)
     = Inr (projr (tig_step tig_default_sim (1 * tig_dt tig_default_config)))"
  "tig_T (projr (tig_step tig_default_sim (1 * tig_dt tig_default_config))) ! (50 * 151 + 20)
     = tig_nominal_cell tig_default_heated 20 50"
proof -
  have "\<exists>g'. time_step_explicit (compute_material_properties tig_default_heated) = Inr g' \<and>
           tig_T g' ! (50 * tig_w tig_default_heated + 20) = tig_nominal_cell tig_default_heated 20 50"
    by (rule tig_interior_update) (simp_all add: tig_default_heated_fields)
  then obtain g' where g': "tig_step tig_default_sim (1 * tig_dt tig_default_config) = Inr g'"
    "tig_T g' ! (50 * 151 + 20) = tig_nominal_cell tig_default_heated 20 50"
    unfolding tig_step_def tig_default_heated_def [symmetric]
    by (auto simp: tig_default_heated_fields)
  show "tig_step tig_default_sim (1 * tig_dt tig_default_config)
     = Inr (projr (tig_step tig_default_sim (1 * tig_dt tig_default_config)))"
    "tig_T (projr (tig_step tig_default_sim (1 * tig_dt tig_default_config))) ! (50 * 151 + 20)
     = tig_nominal_cell tig_default_heated 20 50"
    using g' by simp_all
qed

lemma tig_default_deviates:
  "tig_T (projr (tig_step tig_default_sim (1 * tig_dt tig_default_config))) ! (50 * 151 + 20)
     \<noteq> tig_claimed_cell tig_default_heated 20 50"
  unfolding tig_default_step(2) tig_default_cells
  using tig_default_flux_pos by simp

section \<open>Scenario: the first step of WeldingSimulation at 150 kA\<close>

lemma hot_arc_config_fields:
  "nx hot_arc_config = 151" "ny hot_arc_config = 101"
  "Lx hot_arc_config = 15/100" "Ly hot_arc_config = 10/100" "thickness hot_arc_config = 6/1000"
  "mat_1_rho hot_arc_config = 7850" "mat_1_cp hot_arc_config = 500" "mat_1_k hot_arc_config = 45"
  "mat_1_T_melt hot_arc_config = 1811" "mat_1_T_crit hot_arc_config = 1273"
  "cfg_V hot_arc_config = 25" "cfg_I hot_arc_config = 150000"
  "v_weld hot_arc_config = 6/1000" "x_start hot_arc_config = 2/100" "y_arc hot_arc_config = 0"
  "cfg_a hot_arc_config = 5/1000" "cfg_b hot_arc_config = 4/1000"
  "ff hot_arc_config = 6/10" "fr hot_arc_config = 14/10"
  "T0 hot_arc_config = 293" "dt hot_arc_config = 2/100"
  "weld_process hot_arc_config = ''TIG''" "use_gas hot_arc_config = True"
  by (simp_all add: hot_arc_config_def default_config_def)

lemma hot_arc_sim_fields:
  "ws_nx hot_arc_sim = 151" "ws_ny hot_arc_sim = 101" "ws_N hot_arc_sim = 15251"
  "ws_dx hot_arc_sim = 1/1000" "ws_dy hot_arc_sim = 1/1000"
  "ws_midpoint hot_arc_sim = 75/1000"
  "ws_T hot_arc_sim = replicate 15251 293"
  "ws_Q_total hot_arc_sim = 2812500"
  "ws_X hot_arc_sim ! 7570 = 2/100" "ws_Y hot_arc_sim ! 7570 = 0"
  "idx hot_arc_sim 20 50 = 7570"
  "idx hot_arc_sim 19 50 = 7569" "idx hot_arc_sim 21 50 = 7571"
  "idx hot_arc_sim 20 49 = 7419" "idx hot_arc_sim 20 51 = 7721"
  using build_grid [of 20 hot_arc_config 50] build_spacing [of hot_arc_config]
  by (simp_all add: hot_arc_sim_def build_simps hot_arc_config_fields adjust_eta_def idx_def)

lemma hot_arc_sim_config:
  "T0 (ws_config hot_arc_sim) = 293" "dt (ws_config hot_arc_sim) = 2/100"
  "thickness (ws_config hot_arc_sim) = 6/1000" "Lx (ws_config hot_arc_sim) = 15/100"
  "cfg_a (ws_config hot_arc_sim) = 5/1000" "cfg_b (ws_config hot_arc_sim) = 4/1000"
  "ff (ws_config hot_arc_sim) = 6/10" "fr (ws_config hot_arc_sim) = 14/10"
  "y_arc (ws_config hot_arc_sim) = 0"
  by (simp_all add: hot_arc_sim_def build_simps adjust_eta_fields hot_arc_config_fields)

lemma hot_arc_material:
  "Material_get_k (owning_material hot_arc_sim 7570) 293 = 45"
  "Material_get_rho (owning_material hot_arc_sim 7570) 293 = 7850"
  "Material_get_cp (owning_material hot_arc_sim 7570) 293 = 500"
  by (simp_all add: owning_material_def hot_arc_sim_fields Material_get_k_def Material_get_rho_def
      Material_get_cp_def, simp_all add: hot_arc_sim_def build_materials Material_ctor_def hot_arc_config_fields)

lemma hot_arc_x_arc: "ws_x_arc hot_arc_sim (1/50) = 2012/100000"
  by (simp add: ws_x_arc_def hot_arc_sim_def build_simps adjust_eta_fields hot_arc_config_fields)

lemma hot_arc_Qvol:
  "step_Qvol (run_init hot_arc_sim) ! 7570
     = (14/10 * 2812500) / ((5/1000) * (4/1000) * pi) * exp (- (9 / 15625)) / (6/1000)"
proof -
  have t: "rs_t (run_init hot_arc_sim) + dt (ws_config (rs_sim (run_init hot_arc_sim))) = 1/50"
    by (simp add: run_init_def hot_arc_sim_config)
  have on: "ws_x_arc hot_arc_sim (1/50) \<le> Lx (ws_config hot_arc_sim)"
    unfolding hot_arc_x_arc by (simp add: hot_arc_sim_config)
  have n: "7570 < ws_N hot_arc_sim" by (simp add: hot_arc_sim_fields)
  have "computeGoldakHeatFlux hot_arc_sim (2012/100000) ! idx hot_arc_sim 20 50
      = goldak_cell hot_arc_sim (2012/100000) 20 50"
    by (rule computeGoldakHeatFlux_nth) (simp_all add: hot_arc_sim_fields)
  also have "\<dots> = (14/10 * 2812500) / ((5/1000) * (4/1000) * pi) * exp (- (9 / 15625))"
    by (simp add: goldak_cell_def Let_def hot_arc_sim_fields hot_arc_sim_config)
  finally show ?thesis
    unfolding step_Qvol_def t
    using heat_source_locals_on(3) [OF on n]
    by (simp add: run_init_def hot_arc_x_arc hot_arc_sim_fields hot_arc_sim_config)
qed

lemma hot_arc_claimed:
  "ws_claimed_cell hot_arc_sim (step_Qvol (run_init hot_arc_sim)) 20 50
     = 293 + (157/9000) * (step_Qvol (run_init hot_arc_sim) ! 7570 / 3925000)"
  by (simp add: ws_claimed_cell_def Let_def hot_arc_sim_fields hot_arc_sim_config
      hot_arc_material claimed_update_def euler_update_def dt_eff_def)

lemma hot_arc_claimed_large:
  "T_MAX_REASONABLE < ws_claimed_cell hot_arc_sim (step_Qvol (run_init hot_arc_sim)) 20 50"
proof -
  have e: "999/1000 \<le> exp (- (9 / 15625) :: real)"
    using exp_ge_add_one_self [of "- (9 / 15625) :: real"] by simp
  have p: "(14/10 * 2812500) / ((5/1000) * (4/1000) * 4) \<le> (14/10 * 2812500) / ((5/1000) * (4/1000) * pi)"
    using pi_less_4 pi_gt_zero by (intro divide_left_mono) simp_all
  have "(14/10 * 2812500) / ((5/1000) * (4/1000) * 4) * (999/1000)
      \<le> (14/10 * 2812500) / ((5/1000) * (4/1000) * pi) * exp (- (9 / 15625))"
    using p e by (intro mult_mono) simp_all
  then have "(14/10 * 2812500) / ((5/1000) * (4/1000) * 4) * (999/1000) / (6/1000)
      \<le> step_Qvol (run_init hot_arc_sim) ! 7570"
    unfolding hot_arc_Qvol by (simp add: divide_right_mono)
  then show ?thesis
    unfolding hot_arc_claimed T_MAX_REASONABLE_def by simp
qed

lemma hot_arc_clamped:
  "ws_T (rs_sim (run_body (run_init hot_arc_sim))) ! idx hot_arc_sim 20 50 = T_MAX_REASONABLE"
proof -
  have "ws_T (solveTimeStep hot_arc_sim t (step_Qvol (run_init hot_arc_sim))) ! idx hot_arc_sim 20 50
      = clamp_T (T0 (ws_config hot_arc_sim))
          (ws_claimed_cell hot_arc_sim (step_Qvol (run_init hot_arc_sim)) 20 50)" for t
    by (rule ws_interior_update) (simp_all add: hot_arc_sim_fields)
  then show ?thesis
    using hot_arc_claimed_large
    by (simp add: run_body_fields run_init_def clamp_T_def)
qed

section \<open>Step sizes and constructors of the scenarios\<close>

lemma default_steps_differ:
  "dt_eff (dt default_config) (mat_1_k default_config / (mat_1_rho default_config * mat_1_cp default_config)) (1/1000) (1/1000) = 157/9000"
  "dt_eff (dt default_config) (mat_2_k default_config / (mat_2_rho default_config * mat_2_cp default_config)) (1/1000) (1/1000) = 1/50"
  by (simp_all add: dt_eff_def default_config_def)

lemma hot_arc_ctor: "WeldingSimulation_ctor hot_arc_config = Inr hot_arc_sim"
  by (simp add: WeldingSimulation_ctor_def hot_arc_config_fields INT_MAX_def INT_MIN_def
      hot_arc_sim_def)

lemma tig_default_ctor: "TIGSimulator_ctor tig_default_config = Inr tig_default_sim"
  by (simp add: TIGSimulator_ctor_def tig_default_fields INT_MAX_def INT_MIN_def
      tig_default_sim_def)

section \<open>C4: the volumetric source of an iteration\<close>

lemma run_body_sim:
  "rs_sim (run_body r) =
     updateMonitoring
       (solveTimeStep (rs_sim r) (rs_t r + dt (ws_config (rs_sim r)))
          (snd (heat_source_locals (rs_sim r) (rs_t r + dt (ws_config (rs_sim r))))))
       (rs_t r + dt (ws_config (rs_sim r)))"
  by (simp add: run_body_def Let_def)

lemma apply_heat_source_on_nth:
  assumes "tig_x_arc g t \<le> tig_Lx (tig_config g)" "k < tig_N g"
  shows "tig_Q_vol (apply_heat_source g t) ! k = tig_q_surf (apply_heat_source g t) ! k"
  using assms by (simp add: apply_heat_source_def Let_def tig_x_arc_def)

lemma apply_heat_source_on_q:
  assumes "tig_x_arc g t \<le> tig_Lx (tig_config g)"
  shows "tig_q_surf (apply_heat_source g t) =
           goldak_heat_flux (tig_X g) (tig_Y g) (tig_x_arc g t) (tig_y_arc (tig_config g))
             (tig_eta (tig_config g) * tig_V (tig_config g) * tig_I (tig_config g))
             (tig_a (tig_config g)) (tig_b (tig_config g)) (tig_cf (tig_config g))
             (tig_cr (tig_config g)) (tig_ff (tig_config g)) (tig_fr (tig_config g))
             (tig_nx (tig_config g)) (tig_ny (tig_config g)) (tig_q_surf g)"
  using assms by (simp add: apply_heat_source_def Let_def tig_x_arc_def)

text \<open>
  Claim C4, as the code has it. In an iteration of \<^verbatim>\<open>WeldingSimulation::run\<close> at time \<open>t\<close>
  with \<open>x_arc = x_start + v_weld t\<close>: if \<open>x_arc > Lx\<close> the local \<^verbatim>\<open>q_surf\<close> stays the empty
  vector it was declared as (\<^verbatim>\<open>computeGoldakHeatFlux\<close>, which would resize it, is not called)
  and \<^verbatim>\<open>Qvol\<close> is zero in every cell; otherwise \<^verbatim>\<open>q_surf\<close> is the Goldak flux and
  \<open>Qvol[n] = q_surf[n] / thickness\<close> in every cell; \<^verbatim>\<open>solveTimeStep\<close> is called with that
  \<^verbatim>\<open>Qvol\<close> (third part). In \<^verbatim>\<open>TIGSimulator::apply_heat_source\<close>: if \<open>x_arc > Lx\<close> the member
  \<^verbatim>\<open>Q_vol\<close> is zeroed and \<^verbatim>\<open>q_surf\<close> keeps its contents (\<^verbatim>\<open>goldak_heat_flux\<close> is not called);
  otherwise \<^verbatim>\<open>q_surf\<close> is the Goldak flux and \<open>Q_vol[k] = q_surf[k]\<close>, not divided by the
  thickness.
\<close>

theorem volumetric_source_of_step:
  "(Lx (ws_config s) < ws_x_arc s t \<longrightarrow>
      heat_source_locals s t = ([], replicate (ws_N s) 0))
   \<and> (ws_x_arc s t \<le> Lx (ws_config s) \<and> n < ws_N s \<longrightarrow>
        fst (heat_source_locals s t) = computeGoldakHeatFlux s (ws_x_arc s t)
      \<and> snd (heat_source_locals s t) ! n
          = fst (heat_source_locals s t) ! n / thickness (ws_config s))
   \<and> rs_sim (run_body r) =
        updateMonitoring
          (solveTimeStep (rs_sim r) (rs_t r + dt (ws_config (rs_sim r)))
             (snd (heat_source_locals (rs_sim r) (rs_t r + dt (ws_config (rs_sim r))))))
          (rs_t r + dt (ws_config (rs_sim r)))
   \<and> (tig_Lx (tig_config g) < tig_x_arc g t' \<longrightarrow>
        tig_Q_vol (apply_heat_source g t') = replicate (tig_N g) 0
      \<and> tig_q_surf (apply_heat_source g t') = tig_q_surf g)
   \<and> (tig_x_arc g t' \<le> tig_Lx (tig_config g) \<and> k < tig_N g \<longrightarrow>
        tig_q_surf (apply_heat_source g t') =
           goldak_heat_flux (tig_X g) (tig_Y g) (tig_x_arc g t') (tig_y_arc (tig_config g))
             (tig_eta (tig_config g) * tig_V (tig_config g) * tig_I (tig_config g))
             (tig_a (tig_config g)) (tig_b (tig_config g)) (tig_cf (tig_config g))
             (tig_cr (tig_config g)) (tig_ff (tig_config g)) (tig_fr (tig_config g))
             (tig_nx (tig_config g)) (tig_ny (tig_config g)) (tig_q_surf g)
      \<and> tig_Q_vol (apply_heat_source g t') ! k = tig_q_surf (apply_heat_source g t') ! k)"
  using heat_source_locals_off [of s t] heat_source_locals_on(1) [of s t]
    heat_source_locals_on(3) [of s t n]
    run_body_sim [of r] apply_heat_source_off [of g t'] apply_heat_source_on_nth [of g t' k]
    apply_heat_source_on_q [of g t']
  by (simp add: prod_eq_iff)

lemma small_sim_config:
  "Lx (ws_config small_sim) = 2/100" "x_start (ws_config small_sim) = 2/100"
  "v_weld (ws_config small_sim) = 6/1000" "dt (ws_config small_sim) = 2/100"
  "T0 (ws_config small_sim) = 293" "thickness (ws_config small_sim) = 6/1000"
  by (simp_all add: small_sim_def build_simps adjust_eta_fields small_config_def default_config_def)

lemma hot_arc_on: "ws_x_arc hot_arc_sim (1/50) \<le> Lx (ws_config hot_arc_sim) \<and> 7570 < ws_N hot_arc_sim"
  unfolding hot_arc_x_arc by (simp add: hot_arc_sim_config hot_arc_sim_fields)

lemma small_off: "Lx (ws_config small_sim) < ws_x_arc small_sim (1/50)"
  by (simp add: ws_x_arc_def small_sim_config)

lemma tig_small_sim_fields:
  "tig_config tig_small_sim = tig_small_config"
  "tig_Lx tig_small_config = 2/100" "tig_x_start tig_small_config = 2/100"
  "tig_v_weld tig_small_config = 6/1000"
  by (simp_all add: tig_small_sim_def tig_build_simps tig_small_config_def tig_default_config_def)

lemma tig_small_off: "tig_Lx (tig_config tig_small_sim) < tig_x_arc tig_small_sim (1/50)"
  by (simp add: tig_x_arc_def tig_small_sim_fields)

lemma tig_default_on:
  "tig_x_arc tig_default_sim (1/50) \<le> tig_Lx (tig_config tig_default_sim) \<and>
   7570 < tig_N tig_default_sim"
  unfolding tig_default_x_arc by (simp add: tig_default_sim_fields tig_default_fields)

theorem volumetric_source_of_step_witness:
  "Lx (ws_config small_sim) < ws_x_arc small_sim (1/50)
   \<and> heat_source_locals small_sim (1/50) = ([], replicate (ws_N small_sim) 0)
   \<and> (ws_x_arc hot_arc_sim (1/50) \<le> Lx (ws_config hot_arc_sim) \<and> 7570 < ws_N hot_arc_sim)
   \<and> fst (heat_source_locals hot_arc_sim (1/50))
        = computeGoldakHeatFlux hot_arc_sim (ws_x_arc hot_arc_sim (1/50))
   \<and> snd (heat_source_locals hot_arc_sim (1/50)) ! 7570
        = fst (heat_source_locals hot_arc_sim (1/50)) ! 7570 / thickness (ws_config hot_arc_sim)
   \<and> tig_Lx (tig_config tig_small_sim) < tig_x_arc tig_small_sim (1/50)
   \<and> tig_Q_vol (apply_heat_source tig_small_sim (1/50)) = replicate (tig_N tig_small_sim) 0
   \<and> tig_q_surf (apply_heat_source tig_small_sim (1/50)) = tig_q_surf tig_small_sim
   \<and> (tig_x_arc tig_default_sim (1/50) \<le> tig_Lx (tig_config tig_default_sim) \<and>
      7570 < tig_N tig_default_sim)
   \<and> tig_Q_vol (apply_heat_source tig_default_sim (1/50)) ! 7570
        = tig_q_surf (apply_heat_source tig_default_sim (1/50)) ! 7570"
  using volumetric_source_of_step [of small_sim "1/50" 0 "run_init small_sim" tig_small_sim "1/50" 0]
    volumetric_source_of_step [of hot_arc_sim "1/50" 7570 "run_init small_sim" tig_default_sim "1/50" 7570]
    small_off hot_arc_on tig_small_off tig_default_on
  by blast

text \<open>
  Claim C4 as stated fails for \<^verbatim>\<open>TIGSimulator\<close>: in the first step of the default
  configuration the arc is on the plate, and \<open>Q_vol\<close> of cell \<open>(20, 50)\<close> is the flux itself,
  which differs from the flux divided by the thickness of 6 mm.
\<close>

theorem volumetric_source_of_step_counterexample:
  "tig_x_arc tig_default_sim (1 * tig_dt tig_default_config) \<le> tig_Lx (tig_config tig_default_sim)
   \<and> tig_Q_vol tig_default_heated ! (50 * 151 + 20)
       \<noteq> tig_q_surf tig_default_heated ! (50 * 151 + 20) / tig_thickness (tig_config tig_default_heated)"
  using tig_default_flux_pos tig_default_on
  by (simp add: tig_default_heated_fields tig_default_fields)

section \<open>Steps without a source\<close>



















lemma small_based_fields:
  "nx (small_config\<lparr>cfg_V := v\<rparr>) = 3" "ny (small_config\<lparr>cfg_V := v\<rparr>) = 3"
  "Lx (small_config\<lparr>cfg_V := v\<rparr>) = 2/100" "x_start (small_config\<lparr>cfg_V := v\<rparr>) = 2/100"
  "v_weld (small_config\<lparr>cfg_V := v\<rparr>) = 6/1000" "dt (small_config\<lparr>cfg_V := v\<rparr>) = 2/100"
  "T0 (small_config\<lparr>cfg_V := v\<rparr>) = 293" "cfg_V (small_config\<lparr>cfg_V := v\<rparr>) = v"
  by (simp_all add: small_config_def default_config_def)

lemma unpowered_ctor: "WeldingSimulation_ctor unpowered_config = Inr unpowered_sim"
  by (simp add: WeldingSimulation_ctor_def unpowered_config_def small_based_fields INT_MAX_def
      INT_MIN_def unpowered_sim_def)

lemma unpowered_sim_fields:
  "ws_N unpowered_sim = 9" "ws_nx unpowered_sim = 3" "ws_ny unpowered_sim = 3"
  "ws_nt unpowered_sim = 500" "ws_Q_total unpowered_sim = 0"
  "ws_T unpowered_sim = replicate 9 293" "T0 (ws_config unpowered_sim) = 293"
  "T0 unpowered_config = 293"
  by (simp_all add: unpowered_sim_def build_simps unpowered_config_def small_based_fields
      adjust_eta_fields)

lemma run_steps_2:
  assumes "run_step r = Inr r1" "run_step r1 = Inr r2"
  shows "run_steps 2 r = Inr r2"
proof -
  have "run_steps (Suc (Suc 0)) r = Inr r2" using assms by simp
  then show ?thesis by (simp add: numeral_2_eq_2)
qed

lemma unpowered_run:
  "run_steps 2 (run_init unpowered_sim) = Inr (run_body (run_body (run_init unpowered_sim)))"
proof (rule run_steps_2)
  show "run_step (run_init unpowered_sim) = Inr (run_body (run_init unpowered_sim))"
    by (rule run_step_ok) (simp_all add: run_init_def unpowered_sim_fields INT_MAX_def)
  show "run_step (run_body (run_init unpowered_sim))
      = Inr (run_body (run_body (run_init unpowered_sim)))"
    by (rule run_step_ok)
      (simp_all add: run_body_fields run_init_def unpowered_sim_fields INT_MAX_def)
qed

lemma tig_unpowered_fields:
  "tig_nx tig_unpowered_config = 3" "tig_ny tig_unpowered_config = 3"
  "tig_V tig_unpowered_config = 0"
  "tig_frame_interval tig_unpowered_config = 10" "tig_output_interval tig_unpowered_config = 50"
  by (simp_all add: tig_unpowered_config_def tig_small_config_def tig_default_config_def)

lemma tig_unpowered_ctor: "TIGSimulator_ctor tig_unpowered_config = Inr tig_unpowered_sim"
  by (simp add: TIGSimulator_ctor_def tig_unpowered_fields INT_MAX_def INT_MIN_def
      tig_unpowered_sim_def)

lemma tig_unpowered_sim_fields:
  "tig_config tig_unpowered_sim = tig_unpowered_config"
  "tig_N tig_unpowered_sim = 9" "tig_w tig_unpowered_sim = 3" "tig_h tig_unpowered_sim = 3"
  "length (tig_q_surf tig_unpowered_sim) = 9"
  "tig_T tig_unpowered_sim = replicate 9 (tig_T0 tig_unpowered_config)"
  by (simp_all add: tig_unpowered_sim_def tig_build_simps tig_build_more tig_unpowered_fields)

lemma tig_unpowered_run:
  "tig_run_steps 500 1 1 tig_unpowered_sim = Inr (projr (tig_run_step 500 1 tig_unpowered_sim))"
  unfolding tig_run_steps_1
  by (rule tig_run_step_total) (simp_all add: tig_unpowered_sim_fields tig_unpowered_fields)

section \<open>Scenario: the small plate in a 6000 K environment\<close>



















section \<open>The clamp along the driver loops\<close>



section \<open>C8: construction on small grids\<close>

lemma ctor_succeeds:
  assumes "2 \<le> nx cfg" "2 \<le> ny cfg" "nx cfg * ny cfg \<le> INT_MAX"
    "v_weld cfg \<noteq> 0" "dt cfg \<noteq> 0"
    "INT_MIN \<le> \<lceil>((Lx cfg - x_start cfg) / v_weld cfg + 10) / dt cfg\<rceil>"
    "\<lceil>((Lx cfg - x_start cfg) / v_weld cfg + 10) / dt cfg\<rceil> \<le> INT_MAX"
  shows "WeldingSimulation_ctor cfg = Inr (build cfg)"
proof -
  have "0 \<le> nx cfg * ny cfg" using assms(1,2) by simp
  then have "\<not> nx cfg * ny cfg < INT_MIN" by (simp add: INT_MIN_def)
  then show ?thesis using assms by (simp add: WeldingSimulation_ctor_def)
qed

lemma ctor_negative:
  assumes "nx cfg < 0 \<or> ny cfg < 0" "INT_MIN \<le> nx cfg * ny cfg" "nx cfg * ny cfg \<le> INT_MAX"
  shows "WeldingSimulation_ctor cfg = Inl LengthError"
  using assms by (auto simp: WeldingSimulation_ctor_def)

lemma tig_ctor_succeeds:
  assumes "0 \<le> tig_nx c * tig_ny c" "tig_nx c * tig_ny c \<le> INT_MAX"
  shows "TIGSimulator_ctor c = Inr (tig_build c)"
proof -
  have "\<not> tig_nx c * tig_ny c < INT_MIN" using assms(1) by (simp add: INT_MIN_def)
  then show ?thesis using assms by (simp add: TIGSimulator_ctor_def)
qed

lemma no_interior_all_boundary:
  assumes "ws_nx s = 2 \<or> ws_ny s = 2" "i < ws_nx s" "j < ws_ny s"
  shows "isBoundary s i j"
  using assms by (auto simp: isBoundary_def)

text \<open>
  Claim C8, as the code has it. Neither constructor checks the grid dimensions. The
  constructor of \<^verbatim>\<open>WeldingSimulation\<close> succeeds for every configuration with \<open>nx \<ge> 2\<close> and
  \<open>ny \<ge> 2\<close> whose cell count and step count fit an \<^verbatim>\<open>int\<close> and whose \<open>v_weld\<close> and \<open>dt\<close>
  are not zero, and leaves \<open>nx \<times> ny\<close> cells at \<open>T0\<close>; this includes \<open>nx = 2\<close> and \<open>ny = 2\<close>,
  where every cell is a boundary cell, so that no stencil is ever evaluated. It fails with
  \<^verbatim>\<open>std::length_error\<close> when a dimension is negative. The constructor of \<^verbatim>\<open>TIGSimulator\<close>
  succeeds whenever \<open>nx \<times> ny\<close> is not negative and fits an \<^verbatim>\<open>int\<close>.
\<close>

theorem construction_without_dimension_check:
  "(2 \<le> nx cfg \<and> 2 \<le> ny cfg \<and> nx cfg * ny cfg \<le> INT_MAX \<and> v_weld cfg \<noteq> 0 \<and> dt cfg \<noteq> 0 \<and>
      INT_MIN \<le> \<lceil>((Lx cfg - x_start cfg) / v_weld cfg + 10) / dt cfg\<rceil> \<and>
      \<lceil>((Lx cfg - x_start cfg) / v_weld cfg + 10) / dt cfg\<rceil> \<le> INT_MAX \<longrightarrow>
        WeldingSimulation_ctor cfg = Inr (build cfg)
      \<and> ws_nx (build cfg) = nat (nx cfg) \<and> ws_ny (build cfg) = nat (ny cfg)
      \<and> ws_T (build cfg) = replicate (nat (nx cfg) * nat (ny cfg)) (T0 cfg)
      \<and> ws_T_max (build cfg) = replicate (nat (nx cfg) * nat (ny cfg)) (T0 cfg))
   \<and> ((ws_nx s = 2 \<or> ws_ny s = 2) \<and> i < ws_nx s \<and> j < ws_ny s \<longrightarrow> isBoundary s i j)
   \<and> ((nx cfg < 0 \<or> ny cfg < 0) \<and> INT_MIN \<le> nx cfg * ny cfg \<and> nx cfg * ny cfg \<le> INT_MAX \<longrightarrow>
        WeldingSimulation_ctor cfg = Inl LengthError)
   \<and> (0 \<le> tig_nx c * tig_ny c \<and> tig_nx c * tig_ny c \<le> INT_MAX \<longrightarrow>
        TIGSimulator_ctor c = Inr (tig_build c))"
  using ctor_succeeds [of cfg] no_interior_all_boundary [of s i j] ctor_negative [of cfg]
    tig_ctor_succeeds [of c]
  by (simp add: build_simps)

lemma two_by_two_fields:
  "nx two_by_two_config = 2" "ny two_by_two_config = 2"
  "Lx two_by_two_config = 15/100" "x_start two_by_two_config = 2/100"
  "v_weld two_by_two_config = 6/1000" "dt two_by_two_config = 2/100"
  by (simp_all add: two_by_two_config_def default_config_def)

lemma two_by_two_ok:
  "2 \<le> nx two_by_two_config \<and> 2 \<le> ny two_by_two_config \<and>
    nx two_by_two_config * ny two_by_two_config \<le> INT_MAX \<and>
    v_weld two_by_two_config \<noteq> 0 \<and> dt two_by_two_config \<noteq> 0 \<and>
    INT_MIN \<le> \<lceil>((Lx two_by_two_config - x_start two_by_two_config) / v_weld two_by_two_config + 10)
                 / dt two_by_two_config\<rceil> \<and>
    \<lceil>((Lx two_by_two_config - x_start two_by_two_config) / v_weld two_by_two_config + 10)
       / dt two_by_two_config\<rceil> \<le> INT_MAX"
  by (simp add: two_by_two_fields INT_MAX_def INT_MIN_def)

lemma negative_ok:
  "(nx (default_config\<lparr>nx := - 1\<rparr>) < 0 \<or> ny (default_config\<lparr>nx := - 1\<rparr>) < 0) \<and>
   INT_MIN \<le> nx (default_config\<lparr>nx := - 1\<rparr>) * ny (default_config\<lparr>nx := - 1\<rparr>) \<and>
   nx (default_config\<lparr>nx := - 1\<rparr>) * ny (default_config\<lparr>nx := - 1\<rparr>) \<le> INT_MAX"
  by (simp add: default_config_def INT_MAX_def INT_MIN_def)

lemma tig_single_point_ok:
  "0 \<le> tig_nx tig_single_point_config * tig_ny tig_single_point_config \<and>
   tig_nx tig_single_point_config * tig_ny tig_single_point_config \<le> INT_MAX"
  by (simp add: tig_single_point_config_def tig_default_config_def INT_MAX_def)

lemma two_by_two_cell:
  "(ws_nx (build two_by_two_config) = 2 \<or> ws_ny (build two_by_two_config) = 2) \<and>
   1 < ws_nx (build two_by_two_config) \<and> 1 < ws_ny (build two_by_two_config)"
  by (simp add: build_simps two_by_two_fields)

theorem construction_without_dimension_check_witness:
  "(2 \<le> nx two_by_two_config \<and> 2 \<le> ny two_by_two_config \<and>
    nx two_by_two_config * ny two_by_two_config \<le> INT_MAX \<and>
    v_weld two_by_two_config \<noteq> 0 \<and> dt two_by_two_config \<noteq> 0 \<and>
    INT_MIN \<le> \<lceil>((Lx two_by_two_config - x_start two_by_two_config) / v_weld two_by_two_config + 10)
                 / dt two_by_two_config\<rceil> \<and>
    \<lceil>((Lx two_by_two_config - x_start two_by_two_config) / v_weld two_by_two_config + 10)
       / dt two_by_two_config\<rceil> \<le> INT_MAX)
   \<and> WeldingSimulation_ctor two_by_two_config = Inr (build two_by_two_config)
   \<and> ws_T (build two_by_two_config)
        = replicate (nat (nx two_by_two_config) * nat (ny two_by_two_config)) (T0 two_by_two_config)
   \<and> ((ws_nx (build two_by_two_config) = 2 \<or> ws_ny (build two_by_two_config) = 2) \<and>
       1 < ws_nx (build two_by_two_config) \<and> 1 < ws_ny (build two_by_two_config))
   \<and> isBoundary (build two_by_two_config) 1 1
   \<and> ((nx (default_config\<lparr>nx := - 1\<rparr>) < 0 \<or> ny (default_config\<lparr>nx := - 1\<rparr>) < 0) \<and>
       INT_MIN \<le> nx (default_config\<lparr>nx := - 1\<rparr>) * ny (default_config\<lparr>nx := - 1\<rparr>) \<and>
       nx (default_config\<lparr>nx := - 1\<rparr>) * ny (default_config\<lparr>nx := - 1\<rparr>) \<le> INT_MAX)
   \<and> WeldingSimulation_ctor (default_config\<lparr>nx := - 1\<rparr>) = Inl LengthError
   \<and> (0 \<le> tig_nx tig_single_point_config * tig_ny tig_single_point_config \<and>
       tig_nx tig_single_point_config * tig_ny tig_single_point_config \<le> INT_MAX)
   \<and> TIGSimulator_ctor tig_single_point_config = Inr (tig_build tig_single_point_config)"
  using construction_without_dimension_check [of two_by_two_config "build two_by_two_config" 1 1
      tig_single_point_config]
    construction_without_dimension_check [of "default_config\<lparr>nx := - 1\<rparr>"
      "build two_by_two_config" 1 1 tig_single_point_config]
    two_by_two_ok negative_ok tig_single_point_ok two_by_two_cell
  by blast

text \<open>
  Claim C8 as stated fails: with \<open>nx = ny = 2\<close> (both below 3) the constructor of
  \<^verbatim>\<open>WeldingSimulation\<close> returns an object, and so does the constructor of \<^verbatim>\<open>TIGSimulator\<close>
  with \<open>nx = ny = 1\<close>.
\<close>

theorem construction_without_dimension_check_counterexample:
  "nx two_by_two_config < 3
   \<and> WeldingSimulation_ctor two_by_two_config = Inr (build two_by_two_config)
   \<and> tig_nx tig_single_point_config < 3
   \<and> TIGSimulator_ctor tig_single_point_config = Inr (tig_build tig_single_point_config)"
  using ctor_succeeds [of two_by_two_config] two_by_two_ok
    tig_ctor_succeeds [of tig_single_point_config] tig_single_point_ok
  by (simp add: two_by_two_fields tig_single_point_config_def tig_default_config_def)

section \<open>C9: the efficiency and the welding process\<close>

lemma parse_option_process:
  assumes "parse_option stod stoi arg rest c = Next k c'"
  shows "weld_process c' = weld_process c \<or> known_process (weld_process c')"
  using assms unfolding parse_option_def Let_def known_process_def
  by (simp split: if_splits option.splits) force+

lemma parse_option_known:
  assumes "parse_option stod stoi arg rest c = Next k c'" "known_process (weld_process c)"
  shows "known_process (weld_process c')"
  using parse_option_process [OF assms(1)] assms(2) by auto

lemma parse_option_never_parsed:
  assumes "parse_option stod stoi arg rest c = Done (Parsed c')"
  shows False
  using assms unfolding parse_option_def Let_def
  by (simp split: if_splits option.splits)

lemma parse_option_not_parsed:
  "parse_option stod stoi arg rest c \<noteq> Done (Parsed c')"
  using parse_option_never_parsed by blast

lemma parse_args_known:
  "parse_args stod stoi args c0 = Parsed c \<Longrightarrow> known_process (weld_process c0) \<Longrightarrow>
   known_process (weld_process c)"
proof (induction stod stoi args c0 rule: parse_args.induct)
  case (1 stod stoi c)
  then show ?case by simp
next
  case (2 stod stoi arg rest c0)
  show ?case
  proof (cases "parse_option stod stoi arg rest c0")
    case (Done r)
    with "2.prems" parse_option_not_parsed [of stod stoi arg rest c0 c] show ?thesis by simp
  next
    case (Next k c')
    then show ?thesis
      using "2.IH" [OF Next] "2.prems" parse_option_known [OF Next] by simp
  qed
qed

lemma parse_option_nonempty:
  "rest \<noteq> [] \<Longrightarrow> parse_option stod stoi arg (rest @ post) c = parse_option stod stoi arg rest c"
  by (cases rest) (simp_all add: parse_option_def)

lemma parse_option_empty:
  assumes "parse_option stod stoi arg [] c = Next k c'"
  shows "k = 0 \<and> parse_option stod stoi arg post c = Next k c'"
proof -
  from assms have "arg = ''--use_gas'' \<or> arg = ''--no-gas'' \<or> arg = ''--save_video''"
    unfolding parse_option_def by (simp split: if_splits)
  then show ?thesis
    using assms by (elim disjE) (simp_all add: parse_option_def)
qed

lemma parse_option_consumes:
  assumes "parse_option stod stoi arg (a # list) c = Next k c'"
  shows "k \<le> 1"
  using assms unfolding parse_option_def Let_def
  by (simp split: if_splits option.splits)

lemma parse_option_length:
  assumes "parse_option stod stoi arg rest c = Next k c'"
  shows "k \<le> length rest"
proof (cases rest)
  case Nil
  then show ?thesis using parse_option_empty [of stod stoi arg c k c'] assms by simp
next
  case (Cons a list)
  then show ?thesis using parse_option_consumes [of stod stoi arg a list c k c'] assms by simp
qed

lemma parse_option_extend:
  assumes "parse_option stod stoi arg rest c = Next k c'"
  shows "k \<le> length rest" "parse_option stod stoi arg (rest @ post) c = Next k c'"
proof -
  show "k \<le> length rest" by (rule parse_option_length [OF assms])
  show "parse_option stod stoi arg (rest @ post) c = Next k c'"
  proof (cases rest)
    case Nil
    then show ?thesis using parse_option_empty [of stod stoi arg c k c' post] assms by simp
  next
    case (Cons a list)
    then show ?thesis using parse_option_nonempty [of rest stod stoi arg post c] assms by simp
  qed
qed

lemma parse_args_append:
  "parse_args stod stoi pre c0 = Parsed c1 \<Longrightarrow>
   parse_args stod stoi (pre @ post) c0 = parse_args stod stoi post c1"
proof (induction stod stoi pre c0 rule: parse_args.induct)
  case (1 stod stoi c)
  then show ?case by simp
next
  case (2 stod stoi arg rest c0)
  show ?case
  proof (cases "parse_option stod stoi arg rest c0")
    case (Done r)
    with "2.prems" parse_option_not_parsed [of stod stoi arg rest c0 c1] show ?thesis by simp
  next
    case (Next k c')
    note ext = parse_option_extend [OF Next]
    have "parse_args stod stoi (drop k rest) c' = Parsed c1" using "2.prems" Next by simp
    from "2.IH" [OF Next this] show ?thesis using ext(1) ext(2) [of post] by simp
  qed
qed

lemma parse_option_reject:
  assumes "\<not> known_process w"
  shows "parse_option stod stoi ''--weld_process'' (w # post) c = Done (Return 1)"
  using assms by (simp add: parse_option_def known_process_def)

lemma main_rejects_unknown_process:
  assumes "parse_args stod stoi pre default_config = Parsed c1" "\<not> known_process w"
  shows "main_construct stod stoi (pre @ ''--weld_process'' # w # post) = Exit 1"
  using parse_args_append [OF assms(1), of "''--weld_process'' # w # post"]
    parse_option_reject [OF assms(2), of stod stoi post c1]
  by (simp add: main_construct_def)

lemma adjust_eta_table:
  assumes "known_process (weld_process c)"
  shows "eta (adjust_eta c) = deriveEfficiency (weld_process c) (use_gas c)"
  using assms by (auto simp: adjust_eta_def deriveEfficiency_def known_process_def)

lemma main_constructed:
  assumes "main_construct stod stoi args = Constructed s"
  shows "\<exists>c. parse_args stod stoi args default_config = Parsed c \<and> s = build c"
  using assms ctor_Inr(1)
  by (auto simp: main_construct_def split: parse_result.splits sum.splits sim_error.splits)

lemma main_efficiency:
  assumes "main_construct stod stoi args = Constructed s"
  shows "known_process (weld_process (ws_config s)) \<and>
         eta (ws_config s) = deriveEfficiency (weld_process (ws_config s)) (use_gas (ws_config s)) \<and>
         ws_Q_total s = eta (ws_config s) * cfg_V (ws_config s) * cfg_I (ws_config s)"
proof -
  from main_constructed [OF assms] obtain c where
    c: "parse_args stod stoi args default_config = Parsed c" "s = build c" by blast
  have "known_process (weld_process default_config)"
    by (simp add: known_process_def default_config_def)
  then have k: "known_process (weld_process c)" using parse_args_known [OF c(1)] by simp
  show ?thesis
    using k adjust_eta_table [OF k] by (simp add: c(2) build_simps adjust_eta_fields)
qed

text \<open>
  Claim C9. Whenever \<^verbatim>\<open>main\<close> constructs a simulation from its command line, the process
  of its configuration is TIG or Electrode and its efficiency is the table value for
  \<open>(weld_process, use_gas)\<close>, whatever efficiency the configuration held before: 0.75 for
  TIG with gas, 0.65 for TIG without, 0.85 for Electrode with either gas flag; \<open>Q_total\<close>
  is computed from it. A command line on which \<^verbatim>\<open>--weld_process w\<close> is reached with \<open>w\<close>
  neither TIG nor Electrode ends with exit status 1 before any construction.
\<close>

theorem efficiency_from_process:
  "(main_construct stod stoi args = Constructed s \<longrightarrow>
      known_process (weld_process (ws_config s)) \<and>
      eta (ws_config s) = deriveEfficiency (weld_process (ws_config s)) (use_gas (ws_config s)) \<and>
      ws_Q_total s = eta (ws_config s) * cfg_V (ws_config s) * cfg_I (ws_config s))
   \<and> deriveEfficiency ''TIG'' True = 75/100
   \<and> deriveEfficiency ''TIG'' False = 65/100
   \<and> deriveEfficiency ''Electrode'' gas = 85/100
   \<and> (known_process (weld_process c) \<longrightarrow>
        eta (ws_config (build c)) = deriveEfficiency (weld_process c) (use_gas c))
   \<and> (parse_args stod stoi pre default_config = Parsed c1 \<and> \<not> known_process w \<longrightarrow>
        main_construct stod stoi (pre @ ''--weld_process'' # w # post) = Exit 1)"
  using main_efficiency [of stod stoi args s] adjust_eta_table [of c]
    main_rejects_unknown_process [of stod stoi pre c1 w post]
  by (simp add: deriveEfficiency_def build_simps)

lemma electrode_parsed:
  "parse_args (\<lambda>_. None) (\<lambda>_. None) [''--weld_process'', ''Electrode'', ''--no-gas''] default_config
     = Parsed electrode_config"
  by (simp add: parse_option_def electrode_config_def)

lemma electrode_ctor: "WeldingSimulation_ctor electrode_config = Inr (build electrode_config)"
  by (rule ctor_succeeds)
    (simp_all add: electrode_config_def default_config_def INT_MAX_def INT_MIN_def)

lemma electrode_constructed:
  "main_construct (\<lambda>_. None) (\<lambda>_. None) [''--weld_process'', ''Electrode'', ''--no-gas'']
     = Constructed (build electrode_config)"
  unfolding main_construct_def electrode_parsed by (simp add: electrode_ctor)

lemma no_gas_parsed:
  "parse_args (\<lambda>_. None) (\<lambda>_. None) [''--no-gas''] default_config
     = Parsed (default_config\<lparr>use_gas := False\<rparr>)"
  by (simp add: parse_option_def)

theorem efficiency_from_process_witness:
  "main_construct (\<lambda>_. None) (\<lambda>_. None) [''--weld_process'', ''Electrode'', ''--no-gas'']
     = Constructed (build electrode_config)
   \<and> known_process (weld_process (ws_config (build electrode_config)))
   \<and> eta (ws_config (build electrode_config))
       = deriveEfficiency (weld_process (ws_config (build electrode_config)))
           (use_gas (ws_config (build electrode_config)))
   \<and> known_process (weld_process default_config)
   \<and> eta (ws_config (build default_config))
       = deriveEfficiency (weld_process default_config) (use_gas default_config)
   \<and> (parse_args (\<lambda>_. None) (\<lambda>_. None) [''--no-gas''] default_config
         = Parsed (default_config\<lparr>use_gas := False\<rparr>) \<and> \<not> known_process ''MIG'')
   \<and> main_construct (\<lambda>_. None) (\<lambda>_. None) ([''--no-gas''] @ ''--weld_process'' # ''MIG'' # [])
       = Exit 1"
proof -
  have k: "known_process (weld_process default_config)" "\<not> known_process ''MIG''"
    by (simp_all add: known_process_def default_config_def)
  show ?thesis
    using efficiency_from_process [of "\<lambda>_. None" "\<lambda>_. None"
        "[''--weld_process'', ''Electrode'', ''--no-gas'']" "build electrode_config" _
        default_config "[''--no-gas'']" "default_config\<lparr>use_gas := False\<rparr>" "''MIG''" "[]"]
      electrode_constructed no_gas_parsed k
    by blast
qed

section \<open>C10: mirror symmetry across the centreline\<close>

lemma mirror_lt: "j < ws_ny s \<Longrightarrow> mirror s j < ws_ny s"
  by (simp add: mirror_def)

lemma mirror_boundary:
  assumes "j < ws_ny s"
  shows "isBoundary s i (mirror s j) \<longleftrightarrow> isBoundary s i j"
  using assms by (auto simp: isBoundary_def mirror_def)

lemma mirror_interior:
  assumes "0 < j" "j < ws_ny s - 1"
  shows "0 < mirror s j" "mirror s j < ws_ny s - 1"
    "mirror s j - 1 = mirror s (j + 1)" "mirror s j + 1 = mirror s (j - 1)"
  using assms by (simp_all add: mirror_def)

lemma claimed_update_swap:
  "claimed_update d dx dy kT rhoT cpT Tc Txm Txp Tym Typ Q
     = claimed_update d dx dy kT rhoT cpT Tc Txm Txp Typ Tym Q"
  by (simp add: claimed_update_def euler_update_def Let_def add.commute)

lemma mirror_goldak_cell:
  assumes m: "meshgrid s" and g: "grid_symmetric s" and y: "y_arc (ws_config s) = 0"
    and i: "i < ws_nx s" and j: "j < ws_ny s"
  shows "goldak_cell s x_arc i (mirror s j) = goldak_cell s x_arc i j"
proof -
  note j' = mirror_lt [OF j]
  have X: "ws_X s ! idx s i (mirror s j) = ws_X s ! idx s i j"
    using m i j j' by (simp add: meshgrid_def)
  have Y: "ws_Y s ! idx s i (mirror s j) = - ws_Y s ! idx s i j"
    using m g i j j' by (simp add: meshgrid_def grid_symmetric_def)
  show ?thesis unfolding goldak_cell_def Let_def X Y y by simp
qed

lemma mirror_Qvol:
  assumes m: "meshgrid s" and g: "grid_symmetric s" and y: "y_arc (ws_config s) = 0"
    and i: "i < ws_nx s" and j: "j < ws_ny s"
  shows "snd (heat_source_locals s t) ! idx s i (mirror s j)
           = snd (heat_source_locals s t) ! idx s i j"
proof -
  have N: "ws_N s = ws_nx s * ws_ny s" using m by (simp add: meshgrid_def)
  note j' = mirror_lt [OF j]
  have n: "idx s i j < ws_N s" "idx s i (mirror s j) < ws_N s"
    using idx_lt [OF i j] idx_lt [OF i j'] N by simp_all
  show ?thesis
  proof (cases "ws_x_arc s t \<le> Lx (ws_config s)")
    case True
    have "snd (heat_source_locals s t) ! idx s i (mirror s j)
        = goldak_cell s (ws_x_arc s t) i (mirror s j) / thickness (ws_config s)"
      unfolding heat_source_locals_on(3) [OF True n(2)] computeGoldakHeatFlux_nth [OF N i j'] ..
    also have "\<dots> = goldak_cell s (ws_x_arc s t) i j / thickness (ws_config s)"
      unfolding mirror_goldak_cell [OF m g y i j] ..
    also have "\<dots> = snd (heat_source_locals s t) ! idx s i j"
      unfolding heat_source_locals_on(3) [OF True n(1)] computeGoldakHeatFlux_nth [OF N i j] ..
    finally show ?thesis .
  next
    case False
    then have "snd (heat_source_locals s t) = replicate (ws_N s) 0"
      using heat_source_locals_off(2) [of s t] by simp
    then show ?thesis using n by simp
  qed
qed

lemma mirror_claimed_cell:
  assumes m: "meshgrid s" and T: "mirror_symmetric s (ws_T s)"
    and Q: "Qvol ! idx s i (mirror s j) = Qvol ! idx s i j"
    and i: "0 < i" "i < ws_nx s - 1" and j: "0 < j" "j < ws_ny s - 1"
  shows "ws_claimed_cell s Qvol i (mirror s j) = ws_claimed_cell s Qvol i j"
proof -
  have ii: "i < ws_nx s" "i - 1 < ws_nx s" "i + 1 < ws_nx s" using i by simp_all
  have jj: "j < ws_ny s" "j - 1 < ws_ny s" "j + 1 < ws_ny s" using j by simp_all
  note mi = mirror_interior [OF j]
  have sym: "ws_T s ! idx s a (mirror s b) = ws_T s ! idx s a b"
    if "a < ws_nx s" "b < ws_ny s" for a b
    using T that by (simp add: mirror_symmetric_def)
  have X: "ws_X s ! idx s i (mirror s j) = ws_X s ! idx s i j"
    using m ii(1) jj(1) mirror_lt [OF jj(1)] by (simp add: meshgrid_def)
  have mat: "owning_material s (idx s i (mirror s j)) = owning_material s (idx s i j)"
    unfolding owning_material_def X ..
  show ?thesis
    unfolding ws_claimed_cell_def Let_def mat mi(3,4) Q
      sym [OF ii(1) jj(1)] sym [OF ii(2) jj(1)] sym [OF ii(3) jj(1)]
      sym [OF ii(1) jj(3)] sym [OF ii(1) jj(2)]
    by (rule claimed_update_swap)
qed

lemma mirror_step:
  assumes m: "meshgrid s" and T: "mirror_symmetric s (ws_T s)"
    and Q: "\<And>i j. i < ws_nx s \<Longrightarrow> j < ws_ny s \<Longrightarrow>
              Qvol ! idx s i (mirror s j) = Qvol ! idx s i j"
  shows "mirror_symmetric s (ws_T (solveTimeStep s t Qvol))"
  unfolding mirror_symmetric_def
proof (intro allI impI)
  fix i j assume i: "i < ws_nx s" and j: "j < ws_ny s"
  have N: "ws_N s = ws_nx s * ws_ny s" using m by (simp add: meshgrid_def)
  note j' = mirror_lt [OF j]
  show "ws_T (solveTimeStep s t Qvol) ! idx s i j
      = ws_T (solveTimeStep s t Qvol) ! idx s i (mirror s j)"
  proof (cases "isBoundary s i j")
    case True
    then have b: "isBoundary s i (mirror s j)" using mirror_boundary [OF j] by simp
    show ?thesis
      unfolding ws_boundary_T0 [OF N i j True] ws_boundary_T0 [OF N i j' b] ..
  next
    case False
    then have int: "0 < i" "i < ws_nx s - 1" "0 < j" "j < ws_ny s - 1"
      using i j by (auto simp: not_boundary_iff)
    note int' = mirror_interior(1,2) [OF int(3,4)]
    show ?thesis
      unfolding ws_interior_update [OF N int] ws_interior_update [OF N int(1,2) int']
        mirror_claimed_cell [OF m T Q [OF i j] int] ..
  qed
qed

lemma mirror_T_max:
  assumes N: "ws_N s = ws_nx s * ws_ny s"
    and M: "mirror_symmetric s (ws_T_max s)"
    and T: "mirror_symmetric s (ws_T (solveTimeStep s t Qvol))"
  shows "mirror_symmetric s (ws_T_max (solveTimeStep s t Qvol))"
  unfolding mirror_symmetric_def
proof (intro allI impI)
  fix i j assume i: "i < ws_nx s" and j: "j < ws_ny s"
  note j' = mirror_lt [OF j]
  have n: "idx s i j < ws_N s" "idx s i (mirror s j) < ws_N s"
    using idx_lt [OF i j] idx_lt [OF i j'] N by simp_all
  have a: "ws_T_max s ! idx s i j = ws_T_max s ! idx s i (mirror s j)"
    using M i j by (simp add: mirror_symmetric_def)
  have b: "ws_T (solveTimeStep s t Qvol) ! idx s i j
      = ws_T (solveTimeStep s t Qvol) ! idx s i (mirror s j)"
    using T i j by (simp add: mirror_symmetric_def)
  show "ws_T_max (solveTimeStep s t Qvol) ! idx s i j
      = ws_T_max (solveTimeStep s t Qvol) ! idx s i (mirror s j)"
    unfolding nth_solveTimeStep_T_max [OF n(1)] nth_solveTimeStep_T_max [OF n(2)] a b ..
qed

lemma same_grid:
  assumes "ws_nx s' = ws_nx s" "ws_ny s' = ws_ny s"
  shows "mirror_symmetric s' F = mirror_symmetric s F"
  using assms by (simp add: mirror_symmetric_def idx_def mirror_def)

lemma run_body_grid:
  "ws_x (rs_sim (run_body r)) = ws_x (rs_sim r)"
  "ws_y (rs_sim (run_body r)) = ws_y (rs_sim r)"
  "ws_X (rs_sim (run_body r)) = ws_X (rs_sim r)"
  "ws_Y (rs_sim (run_body r)) = ws_Y (rs_sim r)"
  by (simp_all add: run_body_def Let_def updateMonitoring_def solveTimeStep_def split_beta)

lemma symmetric_run_body:
  assumes "symmetric_state (rs_sim r)"
  shows "symmetric_state (rs_sim (run_body r))"
proof -
  let ?s = "rs_sim r"
  let ?t = "rs_t r + dt (ws_config ?s)"
  from assms have m: "meshgrid ?s" and g: "grid_symmetric ?s" and y: "y_arc (ws_config ?s) = 0"
    and T: "mirror_symmetric ?s (ws_T ?s)" and M: "mirror_symmetric ?s (ws_T_max ?s)"
    by (simp_all add: symmetric_state_def)
  have N: "ws_N ?s = ws_nx ?s * ws_ny ?s" using m by (simp add: meshgrid_def)
  have T': "mirror_symmetric ?s (ws_T (solveTimeStep ?s ?t (step_Qvol r)))"
    unfolding step_Qvol_def
    by (rule mirror_step [OF m T]) (rule mirror_Qvol [OF m g y])
  have M': "mirror_symmetric ?s (ws_T_max (solveTimeStep ?s ?t (step_Qvol r)))"
    by (rule mirror_T_max [OF N M T'])
  have grid: "mirror_symmetric (rs_sim (run_body r)) F = mirror_symmetric ?s F" for F
    by (rule same_grid) (simp_all add: run_body_fields)
  have "meshgrid (rs_sim (run_body r))"
    using m by (simp add: meshgrid_def run_body_fields run_body_grid idx_def)
  moreover have "grid_symmetric (rs_sim (run_body r))"
    using g by (simp add: grid_symmetric_def run_body_fields run_body_grid mirror_def)
  ultimately show ?thesis
    using y T' M' by (simp add: symmetric_state_def grid run_body_fields)
qed

lemma meshgrid_build:
  assumes "0 \<le> nx cfg" "0 \<le> ny cfg"
  shows "meshgrid (build cfg)"
  unfolding meshgrid_def
proof (intro conjI allI impI)
  show "ws_N (build cfg) = ws_nx (build cfg) * ws_ny (build cfg)" by (simp add: build_simps)
next
  fix i j assume "i < ws_nx (build cfg)" "j < ws_ny (build cfg)"
  then have ij: "i < nat (nx cfg)" "j < nat (ny cfg)" by (simp_all add: build_simps)
  have x: "ws_x (build cfg) ! i = real i * Lx cfg / (real (nat (nx cfg)) - 1)"
    using ij by (simp add: build_def Let_def grid_x_def adjust_eta_fields)
  have y: "ws_y (build cfg) ! j = - Ly cfg / 2 + real j * Ly cfg / (real (nat (ny cfg)) - 1)"
    using ij by (simp add: build_def Let_def grid_y_def adjust_eta_fields)
  show "ws_X (build cfg) ! idx (build cfg) i j = ws_x (build cfg) ! i"
    "ws_Y (build cfg) ! idx (build cfg) i j = ws_y (build cfg) ! j"
    using build_grid [OF ij] by (simp_all add: idx_def build_simps x y)
qed

lemma grid_symmetric_build:
  assumes "2 \<le> ny cfg"
  shows "grid_symmetric (build cfg)"
  unfolding grid_symmetric_def
proof (intro allI impI)
  fix j assume "j < ws_ny (build cfg)"
  then have j: "j < nat (ny cfg)" by (simp add: build_simps)
  define h where "h = nat (ny cfg)"
  have h: "2 \<le> h" "j < h" "h - 1 - j < h" using assms j by (simp_all add: h_def)
  have y: "ws_y (build cfg) ! k = - Ly cfg / 2 + real k * Ly cfg / (real h - 1)" if "k < h" for k
    using that by (simp add: build_def Let_def grid_y_def adjust_eta_fields h_def)
  have r: "real (h - 1 - j) = (real h - 1) - real j" using h by simp
  have nz: "real h - 1 \<noteq> 0" using h by simp
  have "- Ly cfg / 2 + ((real h - 1) - real j) * Ly cfg / (real h - 1)
      = - (- Ly cfg / 2 + real j * Ly cfg / (real h - 1))"
    using nz by (simp add: field_simps)
  then show "ws_y (build cfg) ! mirror (build cfg) j = - ws_y (build cfg) ! j"
    unfolding mirror_def build_simps h_def [symmetric] y [OF h(3)] y [OF h(2)] r .
qed

lemma uniform_mirror_symmetric:
  assumes "ws_N s = ws_nx s * ws_ny s"
  shows "mirror_symmetric s (replicate (ws_N s) v)"
  unfolding mirror_symmetric_def
proof (intro allI impI)
  fix i j assume i: "i < ws_nx s" and j: "j < ws_ny s"
  have "idx s i j < ws_N s" "idx s i (mirror s j) < ws_N s"
    using idx_lt [OF i j] idx_lt [OF i mirror_lt [OF j]] assms by simp_all
  then show "replicate (ws_N s) v ! idx s i j = replicate (ws_N s) v ! idx s i (mirror s j)"
    by simp
qed

lemma symmetric_build:
  assumes "2 \<le> nx cfg" "2 \<le> ny cfg" "y_arc cfg = 0"
  shows "symmetric_state (build cfg)"
proof -
  have N: "ws_N (build cfg) = ws_nx (build cfg) * ws_ny (build cfg)" by (simp add: build_simps)
  have "mirror_symmetric (build cfg) (ws_T (build cfg))"
    "mirror_symmetric (build cfg) (ws_T_max (build cfg))"
    using uniform_mirror_symmetric [OF N, of "T0 cfg"] by (simp_all add: build_simps)
  then show ?thesis
    using assms meshgrid_build [of cfg] grid_symmetric_build [of cfg]
    by (simp add: symmetric_state_def build_simps adjust_eta_fields)
qed

lemma symmetric_run:
  assumes "WeldingSimulation_ctor cfg = Inr s0" "y_arc cfg = 0"
    "run_steps n (run_init s0) = Inr r"
  shows "symmetric_state (rs_sim r) \<and> ws_nx (rs_sim r) = ws_nx s0 \<and> ws_ny (rs_sim r) = ws_ny s0"
proof -
  define P where "P x \<longleftrightarrow> symmetric_state (rs_sim x) \<and> ws_nx (rs_sim x) = ws_nx s0 \<and>
      ws_ny (rs_sim x) = ws_ny s0" for x :: run_state
  note c = ctor_Inr [OF assms(1)]
  have "P (run_init s0)"
    using symmetric_build [OF c(2,3) assms(2)] c(1) by (simp add: P_def run_init_def)
  moreover have "P (run_body x)" if "P x" for x
    using that symmetric_run_body [of x] by (simp add: P_def run_body_fields)
  ultimately have "P r" using run_steps_invariant [OF assms(3), of P] by blast
  then show ?thesis by (simp add: P_def)
qed

lemma mirror_run_body:
  assumes "meshgrid (rs_sim r)" "grid_symmetric (rs_sim r)" "y_arc (ws_config (rs_sim r)) = 0"
    "mirror_symmetric (rs_sim r) (ws_T (rs_sim r))"
  shows "mirror_symmetric (rs_sim r) (ws_T (rs_sim (run_body r)))"
  unfolding run_body_fields step_Qvol_def
  by (rule mirror_step [OF assms(1,4)]) (rule mirror_Qvol [OF assms(1-3)])

lemma symmetric_run_fields:
  assumes "WeldingSimulation_ctor cfg = Inr s0" "y_arc cfg = 0"
    "run_steps n (run_init s0) = Inr r"
  shows "meshgrid s0 \<and> grid_symmetric s0 \<and>
         mirror_symmetric s0 (ws_T (rs_sim r)) \<and> mirror_symmetric s0 (ws_T_max (rs_sim r))"
proof -
  note c = ctor_Inr [OF assms(1)]
  have s0: "symmetric_state s0" using symmetric_build [OF c(2,3) assms(2)] c(1) by simp
  note r = symmetric_run [OF assms]
  have "mirror_symmetric s0 F = mirror_symmetric (rs_sim r) F" for F
    by (rule same_grid) (simp_all add: r)
  then show ?thesis using s0 r by (simp add: symmetric_state_def)
qed

text \<open>
  Claim C10, for \<^verbatim>\<open>WeldingSimulation\<close>. On a grid that is symmetric about \<open>y = 0\<close>
  (\<open>y[ny - 1 - j] = - y[j]\<close>) and with \<open>y_arc = 0\<close>, an iteration of the driver loop maps a
  mirror-symmetric field \<open>T\<close> to a mirror-symmetric field (first part), because the Goldak
  flux of a cell equals that of its mirror image (third part), the owning material
  depends on \<open>x\<close> only and a cell is a boundary cell exactly when its mirror image is
  (fourth part). The constructor with \<open>y_arc = 0\<close> builds such a grid, and after any number
  of iterations from its uniform field both \<open>T\<close> and \<open>T_max\<close> are mirror symmetric
  (second part).
\<close>

theorem mirror_symmetry_preserved:
  "(meshgrid (rs_sim r) \<and> grid_symmetric (rs_sim r) \<and> y_arc (ws_config (rs_sim r)) = 0 \<and>
      mirror_symmetric (rs_sim r) (ws_T (rs_sim r)) \<longrightarrow>
        mirror_symmetric (rs_sim r) (ws_T (rs_sim (run_body r))))
   \<and> (WeldingSimulation_ctor cfg = Inr s0 \<and> y_arc cfg = 0 \<and>
      run_steps n (run_init s0) = Inr r' \<longrightarrow>
        meshgrid s0 \<and> grid_symmetric s0 \<and>
        mirror_symmetric s0 (ws_T (rs_sim r')) \<and> mirror_symmetric s0 (ws_T_max (rs_sim r')))
   \<and> (meshgrid s \<and> grid_symmetric s \<and> y_arc (ws_config s) = 0 \<and> i < ws_nx s \<and> j < ws_ny s \<longrightarrow>
        goldak_cell s x_arc i (mirror s j) = goldak_cell s x_arc i j
      \<and> owning_material s (idx s i (mirror s j)) = owning_material s (idx s i j))
   \<and> (j < ws_ny s \<longrightarrow> isBoundary s i (mirror s j) = isBoundary s i j)"
proof -
  have mat: "owning_material s (idx s i (mirror s j)) = owning_material s (idx s i j)"
    if "meshgrid s" "i < ws_nx s" "j < ws_ny s"
    using that mirror_lt [of j s] by (simp add: owning_material_def meshgrid_def)
  show ?thesis
    using mirror_run_body [of r] symmetric_run_fields [of cfg s0 n r']
      mirror_goldak_cell [of s i j x_arc] mat mirror_boundary [of j s i]
    by blast
qed

lemma hot_arc_symmetric:
  "meshgrid hot_arc_sim" "grid_symmetric hot_arc_sim" "y_arc (ws_config hot_arc_sim) = 0"
  "mirror_symmetric hot_arc_sim (ws_T hot_arc_sim)"
  using symmetric_build [of hot_arc_config]
  by (simp_all add: symmetric_state_def hot_arc_sim_def hot_arc_config_fields)

lemma hot_arc_run:
  "run_steps 1 (run_init hot_arc_sim) = Inr (run_body (run_init hot_arc_sim))"
  unfolding run_steps_1
  by (rule run_step_ok)
    (simp_all add: run_init_def hot_arc_sim_def build_simps hot_arc_config_fields INT_MAX_def)

theorem mirror_symmetry_preserved_witness:
  "(meshgrid hot_arc_sim \<and> grid_symmetric hot_arc_sim \<and> y_arc (ws_config hot_arc_sim) = 0 \<and>
      mirror_symmetric hot_arc_sim (ws_T hot_arc_sim))
   \<and> mirror_symmetric hot_arc_sim (ws_T (rs_sim (run_body (run_init hot_arc_sim))))
   \<and> (WeldingSimulation_ctor hot_arc_config = Inr hot_arc_sim \<and> y_arc hot_arc_config = 0 \<and>
      run_steps 1 (run_init hot_arc_sim) = Inr (run_body (run_init hot_arc_sim)))
   \<and> mirror_symmetric hot_arc_sim (ws_T_max (rs_sim (run_body (run_init hot_arc_sim))))
   \<and> (20 < ws_nx hot_arc_sim \<and> 30 < ws_ny hot_arc_sim)
   \<and> goldak_cell hot_arc_sim (2012/100000) 20 (mirror hot_arc_sim 30)
       = goldak_cell hot_arc_sim (2012/100000) 20 30
   \<and> isBoundary hot_arc_sim 20 (mirror hot_arc_sim 30) = isBoundary hot_arc_sim 20 30"
proof -
  have a: "rs_sim (run_init hot_arc_sim) = hot_arc_sim" by (simp add: run_init_def)
  have b: "WeldingSimulation_ctor hot_arc_config = Inr hot_arc_sim \<and> y_arc hot_arc_config = 0 \<and>
      run_steps 1 (run_init hot_arc_sim) = Inr (run_body (run_init hot_arc_sim))"
    using hot_arc_ctor hot_arc_run by (simp add: hot_arc_config_fields)
  have c: "20 < ws_nx hot_arc_sim \<and> 30 < ws_ny hot_arc_sim" by (simp add: hot_arc_sim_fields)
  show ?thesis
    using mirror_symmetry_preserved [of "run_init hot_arc_sim" hot_arc_config hot_arc_sim 1
        "run_body (run_init hot_arc_sim)" hot_arc_sim 20 30 "2012/100000"]
      hot_arc_symmetric b c
    unfolding a by blast
qed

section \<open>Improper integrals: comparison, uniqueness, scaling\<close>

lemma antiderivative_le:
  assumes F: "\<And>x. 0 < x \<Longrightarrow> (F has_real_derivative f x) (at x)"
    and H: "\<And>x. 0 < x \<Longrightarrow> (H has_real_derivative h x) (at x)"
    and le: "\<And>x. 0 < x \<Longrightarrow> f x \<le> h x"
    and F0: "(F \<longlongrightarrow> 0) (at_right 0)" and H0: "(H \<longlongrightarrow> 0) (at_right 0)"
    and x: "0 < (x::real)"
  shows "F x \<le> H x"
proof -
  define D where "D y = H y - F y" for y
  have mono: "D y \<le> D x" if "0 < y" "y \<le> x" for y
  proof (rule DERIV_nonneg_imp_nondecreasing [OF that(2)])
    fix z assume "y \<le> z" "z \<le> x"
    then have z: "0 < z" using that by simp
    have "(D has_real_derivative (h z - f z)) (at z)"
      unfolding D_def by (intro derivative_intros F H z)
    then show "\<exists>d. (D has_real_derivative d) (at z) \<and> 0 \<le> d"
      using le [OF z] by (intro exI [of _ "h z - f z"]) simp
  qed
  have "(D \<longlongrightarrow> 0) (at_right 0)"
    using tendsto_diff [OF H0 F0] by (simp add: D_def [abs_def])
  moreover have "eventually (\<lambda>y. D y \<le> D x) (at_right 0)"
    unfolding eventually_at_right_field using mono x by (intro exI [of _ x]) simp
  ultimately have "0 \<le> D x"
    by (rule tendsto_upperbound) simp
  then show ?thesis by (simp add: D_def)
qed

lemma half_line_integral_le:
  assumes "half_line_integral f L1" "half_line_integral h L2"
    and le: "\<And>x. 0 < x \<Longrightarrow> f x \<le> h x"
  shows "L1 \<le> L2"
proof -
  from assms(1) obtain F where F: "\<And>x. 0 < x \<Longrightarrow> (F has_real_derivative f x) (at x)"
    "(F \<longlongrightarrow> 0) (at_right 0)" "(F \<longlongrightarrow> L1) at_top"
    unfolding half_line_integral_def by blast
  from assms(2) obtain H where H: "\<And>x. 0 < x \<Longrightarrow> (H has_real_derivative h x) (at x)"
    "(H \<longlongrightarrow> 0) (at_right 0)" "(H \<longlongrightarrow> L2) at_top"
    unfolding half_line_integral_def by blast
  have "eventually (\<lambda>x. F x \<le> H x) at_top"
    using eventually_gt_at_top [of 0]
    by eventually_elim (rule antiderivative_le [OF F(1) H(1) le F(2) H(2)])
  then show ?thesis
    by (rule tendsto_le [OF trivial_limit_at_top_linorder H(3) F(3)])
qed

lemma half_line_integral_unique:
  assumes "half_line_integral f L1" "half_line_integral f L2"
  shows "L1 = L2"
  using half_line_integral_le [OF assms(1,2)] half_line_integral_le [OF assms(2,1)] by force

lemma half_line_integral_mult:
  assumes "half_line_integral f L"
  shows "half_line_integral (\<lambda>x. c * f x) (c * L)"
proof -
  from assms obtain F where F: "\<And>x. 0 < x \<Longrightarrow> (F has_real_derivative f x) (at x)"
    "(F \<longlongrightarrow> 0) (at_right 0)" "(F \<longlongrightarrow> L) at_top"
    unfolding half_line_integral_def by blast
  have "\<forall>x>0. ((\<lambda>x. c * F x) has_real_derivative c * f x) (at x)"
    by (auto intro!: derivative_eq_intros F(1))
  moreover have "((\<lambda>x. c * F x) \<longlongrightarrow> 0) (at_right 0)"
    using tendsto_mult_left [OF F(2), of c] by simp
  moreover have "((\<lambda>x. c * F x) \<longlongrightarrow> c * L) at_top"
    by (rule tendsto_mult_left [OF F(3)])
  ultimately show ?thesis unfolding half_line_integral_def by blast
qed

lemma half_line_integral_scale:
  assumes "half_line_integral f L" and k: "0 < k"
  shows "half_line_integral (\<lambda>x. f (k * x)) (L / k)"
proof -
  from assms obtain F where F: "\<And>x. 0 < x \<Longrightarrow> (F has_real_derivative f x) (at x)"
    "(F \<longlongrightarrow> 0) (at_right 0)" "(F \<longlongrightarrow> L) at_top"
    unfolding half_line_integral_def by blast
  have "((\<lambda>x. F (k * x) / k) has_real_derivative f (k * x)) (at x)" if "0 < x" for x
  proof -
    have "0 < k * x" using k that by simp
    from F(1) [OF this] have "((\<lambda>x. F (k * x)) has_real_derivative f (k * x) * k) (at x)"
      by (auto intro!: derivative_eq_intros DERIV_chain2 [where f = F])
    then show ?thesis using k by (auto intro!: derivative_eq_intros)
  qed
  moreover have "((\<lambda>x. F (k * x) / k) \<longlongrightarrow> 0) (at_right 0)"
  proof -
    have "filterlim (\<lambda>x. k * x) (at_right 0) (at_right 0)"
      using k by (auto simp: filterlim_at eventually_at_right_field intro!: tendsto_eq_intros exI [of _ 1])
    then have "((\<lambda>x. F (k * x)) \<longlongrightarrow> 0) (at_right 0)"
      by (rule filterlim_compose [OF F(2)])
    from tendsto_divide [OF this tendsto_const [of k]] show ?thesis using k by simp
  qed
  moreover have "((\<lambda>x. F (k * x) / k) \<longlongrightarrow> L / k) at_top"
  proof -
    have "filterlim (\<lambda>x. k * x) at_top at_top"
      using k by (intro filterlim_tendsto_pos_mult_at_top [OF tendsto_const]) (auto simp: filterlim_ident)
    then have "((\<lambda>x. F (k * x)) \<longlongrightarrow> L) at_top"
      by (rule filterlim_compose [OF F(3)])
    from tendsto_divide [OF this tendsto_const [of k]] show ?thesis using k by simp
  qed
  ultimately show ?thesis unfolding half_line_integral_def by blast
qed

section \<open>The power series of the Gaussian primitive\<close>

lemma gauss_coeff_summable: "summable (\<lambda>n. gauss_coeff n * x ^ n)"
proof -
  define g where "g m = (- 1) ^ m * x ^ (2 * m + 1) / (fact m * real (2 * m + 1))" for m
  have "summable (\<lambda>m. \<bar>x\<bar> * (inverse (fact m) * (x\<^sup>2) ^ m))"
    by (intro summable_mult summable_exp)
  then have "summable g"
  proof (rule summable_comparison_test' [where N = 0])
    fix m :: nat
    have "norm (g m) = \<bar>x\<bar> * (x\<^sup>2) ^ m / (fact m * real (2 * m + 1))"
      by (simp add: g_def abs_mult power_abs power_mult [symmetric] abs_divide power_even_abs)
    also have "\<dots> \<le> \<bar>x\<bar> * (x\<^sup>2) ^ m / (fact m * 1)"
      by (intro divide_left_mono mult_left_mono mult_nonneg_nonneg mult_pos_pos) simp_all
    finally show "norm (g m) \<le> \<bar>x\<bar> * (inverse (fact m) * (x\<^sup>2) ^ m)"
      by (simp add: field_simps)
  qed
  then have "(\<lambda>n. if even n then 0 else g ((n - 1) div 2)) sums suminf g"
    by (intro sums_if' summable_sums)
  moreover have "(if even n then 0 else g ((n - 1) div 2)) = gauss_coeff n * x ^ n" for n
  proof (cases "even n")
    case False
    then obtain m where "n = 2 * m + 1" by (auto elim: oddE)
    then show ?thesis by (simp add: g_def gauss_coeff_def)
  qed (simp add: gauss_coeff_def)
  ultimately show ?thesis by (simp add: sums_iff)
qed

lemma diffs_gauss_coeff_sums: "(\<lambda>n. diffs gauss_coeff n * x ^ n) sums exp (- x\<^sup>2)"
proof -
  define f where "f m = (- x\<^sup>2) ^ m /\<^sub>R fact m" for m
  have "f sums exp (- x\<^sup>2)" unfolding f_def [abs_def] by (rule exp_converges)
  from sums_if [OF sums_zero this]
  have "(\<lambda>n. if even n then f (n div 2) else 0) sums exp (- x\<^sup>2)" by simp
  moreover have "(if even n then f (n div 2) else 0) = diffs gauss_coeff n * x ^ n" for n
  proof (cases "even n")
    case True
    then obtain m where n: "n = 2 * m" by (auto elim: evenE)
    have "(- x\<^sup>2) ^ m = (- 1) ^ m * x ^ (2 * m)"
      by (simp add: power_mult power_minus [of "x\<^sup>2"])
    moreover have "diffs gauss_coeff (2 * m) = (- 1) ^ m / fact m"
      by (simp add: diffs_def gauss_coeff_def add.commute [of 1] del: of_nat_Suc of_nat_add)
    ultimately show ?thesis
      by (simp add: n f_def divide_inverse mult.commute)
  qed (simp add: diffs_def gauss_coeff_def)
  ultimately show ?thesis by simp
qed

lemma DERIV_gauss_primitive:
  "(gauss_primitive has_real_derivative exp (- x\<^sup>2)) (at x)"
proof -
  have "((\<lambda>x. \<Sum>n. gauss_coeff n * x ^ n) has_real_derivative (\<Sum>n. diffs gauss_coeff n * x ^ n)) (at x)"
    by (rule termdiffs_strong_converges_everywhere) (rule gauss_coeff_summable)
  then show ?thesis
    using diffs_gauss_coeff_sums [of x] by (simp add: sums_iff gauss_primitive_def [abs_def])
qed

lemma gauss_primitive_0: "gauss_primitive 0 = 0"
  by (simp add: gauss_primitive_def gauss_coeff_def)

section \<open>Wallis' integrals\<close>

lemma DERIV_wallis_P: "(wallis_P n has_real_derivative (1 - x\<^sup>2) ^ n) (at x)"
proof (induction n)
  case 0
  have "wallis_P 0 = (\<lambda>x. x)" by (rule ext) simp
  then show ?case by simp
next
  case (Suc n)
  have eq: "wallis_P (Suc n) =
     (\<lambda>x. (x * (1 - x\<^sup>2) ^ Suc n + real (2 * Suc n) * wallis_P n x) / real (2 * Suc n + 1))"
    by (rule ext) simp
  define u where "u = (1 - x\<^sup>2) ^ n"
  have "((\<lambda>x. (x * (1 - x\<^sup>2) ^ Suc n + real (2 * Suc n) * wallis_P n x) / real (2 * Suc n + 1))
      has_real_derivative
        ((1 * (1 - x\<^sup>2) ^ Suc n + (real (Suc n) * (1 - x\<^sup>2) ^ n * (0 - 2 * x)) * x)
          + real (2 * Suc n) * (1 - x\<^sup>2) ^ n) / real (2 * Suc n + 1)) (at x)"
    by (rule derivative_eq_intros Suc.IH refl | simp)+
  also have "((1 * (1 - x\<^sup>2) ^ Suc n + (real (Suc n) * (1 - x\<^sup>2) ^ n * (0 - 2 * x)) * x)
          + real (2 * Suc n) * (1 - x\<^sup>2) ^ n) / real (2 * Suc n + 1) = (1 - x\<^sup>2) ^ Suc n"
    unfolding power_Suc u_def [symmetric]
    by (simp add: field_simps power2_eq_square)
  finally show ?case unfolding eq .
qed

lemma DERIV_wallis_R: "(wallis_R k has_real_derivative 1 / (1 + x\<^sup>2) ^ Suc k) (at x)"
proof (induction k)
  case 0
  have "wallis_R 0 = arctan" by (rule ext) simp
  then show ?case using DERIV_arctan [of x] by (simp add: inverse_eq_divide)
next
  case (Suc k)
  have eq: "wallis_R (Suc k) =
     (\<lambda>x. (x / (1 + x\<^sup>2) ^ Suc k + real (2 * k + 1) * wallis_R k x) / real (2 * Suc k))"
    by (rule ext) simp
  have pos: "0 < 1 + x\<^sup>2" by (simp add: add_pos_nonneg)
  define u where "u = (1 + x\<^sup>2) ^ k"
  have u: "0 < u" unfolding u_def using pos by simp
  have nz: "(1 + x\<^sup>2) ^ Suc k \<noteq> 0" using pos by simp
  have "((\<lambda>x. (x / (1 + x\<^sup>2) ^ Suc k + real (2 * k + 1) * wallis_R k x) / real (2 * Suc k))
      has_real_derivative
        ((1 * (1 + x\<^sup>2) ^ Suc k - x * (real (Suc k) * (1 + x\<^sup>2) ^ k * (0 + 2 * x)))
            / ((1 + x\<^sup>2) ^ Suc k * (1 + x\<^sup>2) ^ Suc k)
          + real (2 * k + 1) * (1 / (1 + x\<^sup>2) ^ Suc k)) / real (2 * Suc k)) (at x)"
    by (rule derivative_eq_intros Suc.IH refl nz | simp)+
  also have "((1 * (1 + x\<^sup>2) ^ Suc k - x * (real (Suc k) * (1 + x\<^sup>2) ^ k * (0 + 2 * x)))
            / ((1 + x\<^sup>2) ^ Suc k * (1 + x\<^sup>2) ^ Suc k)
          + real (2 * k + 1) * (1 / (1 + x\<^sup>2) ^ Suc k)) / real (2 * Suc k)
        = 1 / (1 + x\<^sup>2) ^ Suc (Suc k)"
  proof -
    define v where "v = 1 + x\<^sup>2"
    define w where "w = x * x"
    define c where "c = real (Suc k)"
    have v: "0 < v" using pos by (simp add: v_def)
    have c: "0 < c" by (simp add: c_def)
    have w: "w = v - 1" by (simp add: v_def w_def power2_eq_square)
    have "((1 * (1 + x\<^sup>2) ^ Suc k - x * (real (Suc k) * (1 + x\<^sup>2) ^ k * (0 + 2 * x)))
            / ((1 + x\<^sup>2) ^ Suc k * (1 + x\<^sup>2) ^ Suc k)
          + real (2 * k + 1) * (1 / (1 + x\<^sup>2) ^ Suc k)) / real (2 * Suc k)
        = ((v * u - 2 * c * u * w) / ((v * u) * (v * u)) + (2 * c - 1) * (1 / (v * u))) / (2 * c)"
      by (simp add: u_def v_def c_def w_def mult_ac)
    also have "\<dots> = 1 / (v * (v * u))"
      unfolding w using u v c by (simp add: field_simps)
    also have "\<dots> = 1 / (1 + x\<^sup>2) ^ Suc (Suc k)"
      by (simp add: u_def v_def)
    finally show ?thesis .
  qed
  finally show ?case unfolding eq .
qed

lemma DERIV_wallis_C: "(wallis_C m has_real_derivative cos t ^ m) (at t)"
proof (induction m t rule: wallis_C.induct)
  case (1 t)
  have "wallis_C 0 = (\<lambda>x. x)" by (rule ext) simp
  then show ?case by simp
next
  case (2 t)
  have "wallis_C (Suc 0) = sin" by (rule ext) simp
  then show ?case by simp
next
  case (3 m t)
  have eq: "wallis_C (Suc (Suc m)) =
     (\<lambda>t. (cos t ^ Suc m * sin t + real (Suc m) * wallis_C m t) / real (Suc (Suc m)))"
    by (rule ext) simp
  define u where "u = cos t ^ m"
  have "((\<lambda>t. (cos t ^ Suc m * sin t + real (Suc m) * wallis_C m t) / real (Suc (Suc m)))
      has_real_derivative
        (((real (Suc m) * cos t ^ m * (- sin t)) * sin t + cos t ^ Suc m * cos t)
          + real (Suc m) * cos t ^ m) / real (Suc (Suc m))) (at t)"
    by (rule derivative_eq_intros 3 refl | simp)+
  also have "(((real (Suc m) * cos t ^ m * (- sin t)) * sin t + cos t ^ Suc m * cos t)
          + real (Suc m) * cos t ^ m) / real (Suc (Suc m)) = cos t ^ Suc (Suc m)"
  proof -
    have s: "sin t * sin t = 1 - cos t * cos t"
      using sin_cos_squared_add [of t] by (simp add: power2_eq_square)
    have "real (Suc m) * u * (- sin t) * sin t = - (real (Suc m) * u * (sin t * sin t))"
      by simp
    also have "\<dots> = - (real (Suc m) * u * (1 - cos t * cos t))" unfolding s ..
    finally have a: "real (Suc m) * u * (- sin t) * sin t = - (real (Suc m) * u * (1 - cos t * cos t))" .
    define c where "c = real (Suc m)"
    have c: "0 < c" by (simp add: c_def)
    have b: "real (Suc (Suc m)) = c + 1" by (simp add: c_def)
    have "(((real (Suc m) * cos t ^ m * (- sin t)) * sin t + cos t ^ Suc m * cos t)
          + real (Suc m) * cos t ^ m) / real (Suc (Suc m))
        = ((- (c * u * (1 - cos t * cos t)) + u * cos t * cos t) + c * u) / (c + 1)"
      unfolding power_Suc u_def [symmetric] a b c_def [symmetric] using s by (simp add: mult_ac)
    also have "\<dots> = cos t * (cos t * u)"
      using c by (simp add: field_simps)
    finally show ?thesis by (simp add: u_def)
  qed
  finally show ?case unfolding eq .
qed

lemma wallis_W_simps:
  "wallis_W 0 = pi / 2" "wallis_W (Suc 0) = 1"
  "wallis_W (Suc (Suc m)) = real (Suc m) / real (Suc (Suc m)) * wallis_W m"
  by (simp_all add: wallis_W_def)

lemma wallis_C_0: "t = 0 \<Longrightarrow> wallis_C m t = 0"
  by (induction m t rule: wallis_C.induct) simp_all

lemma wallis_P_0: "wallis_P n 0 = 0"
  by (induction n) simp_all

lemma wallis_R_0: "wallis_R k 0 = 0"
  by (induction k) simp_all

lemma wallis_W_pos2: "0 < wallis_W m \<and> 0 < wallis_W (Suc m)"
  by (induction m) (simp_all add: wallis_W_simps)

lemma wallis_W_pos: "0 < wallis_W m"
  using wallis_W_pos2 [of m] by simp

lemma wallis_W_antimono: "wallis_W (Suc m) \<le> wallis_W m"
proof -
  define D where "D t = wallis_C m t - wallis_C (Suc m) t" for t
  have "D 0 \<le> D (pi / 2)"
  proof (rule DERIV_nonneg_imp_nondecreasing [of 0 "pi / 2" D])
    fix t :: real assume t: "0 \<le> t" "t \<le> pi / 2"
    have "(D has_real_derivative (cos t ^ m - cos t ^ Suc m)) (at t)"
      unfolding D_def by (intro derivative_intros DERIV_wallis_C)
    moreover have "0 \<le> cos t" using t by (intro cos_ge_zero) simp_all
    then have "cos t ^ Suc m \<le> cos t ^ m"
      by (intro power_decreasing) simp_all
    ultimately show "\<exists>d. (D has_real_derivative d) (at t) \<and> 0 \<le> d"
      by (intro exI [of _ "cos t ^ m - cos t ^ Suc m"]) simp
  qed simp
  then show ?thesis by (simp add: D_def wallis_C_0 wallis_W_def)
qed

lemma wallis_W_prod: "wallis_W m * wallis_W (Suc m) = pi / (2 * real (Suc m))"
proof (induction m)
  case 0
  show ?case by (simp add: wallis_W_simps)
next
  case (Suc m)
  have "wallis_W (Suc m) * wallis_W (Suc (Suc m))
      = real (Suc m) / real (Suc (Suc m)) * (wallis_W m * wallis_W (Suc m))"
    by (simp add: wallis_W_simps)
  also have "\<dots> = pi / (2 * real (Suc (Suc m)))"
  proof -
    define c where "c = real (Suc m)"
    have c: "0 < c" "real (Suc (Suc m)) = c + 1" by (simp_all add: c_def)
    show ?thesis unfolding Suc.IH c(2) c_def [symmetric] using c(1) by (simp add: divide_simps)
  qed
  finally show ?case .
qed

lemma wallis_P_1: "wallis_P n 1 = wallis_W (2 * n + 1)"
  by (induction n) (simp_all add: wallis_W_simps)

lemma wallis_R_lim: "(wallis_R k \<longlongrightarrow> wallis_W (2 * k)) at_top"
proof (induction k)
  case 0
  have "wallis_R 0 = arctan" by (rule ext) simp
  then show ?case using tendsto_arctan_at_top by (simp add: wallis_W_simps)
next
  case (Suc k)
  have eq: "wallis_R (Suc k) =
     (\<lambda>x. (x / (1 + x\<^sup>2) ^ Suc k + real (2 * k + 1) * wallis_R k x) / real (2 * Suc k))"
    by (rule ext) simp
  have "((\<lambda>x::real. x / (1 + x\<^sup>2) ^ Suc k) \<longlongrightarrow> 0) at_top"
  proof (rule tendsto_sandwich [OF _ _ tendsto_const])
    show "((\<lambda>x::real. 1 / x) \<longlongrightarrow> 0) at_top"
      using tendsto_inverse_0_at_top [OF filterlim_ident] by (simp add: inverse_eq_divide)
    show "eventually (\<lambda>x::real. 0 \<le> x / (1 + x\<^sup>2) ^ Suc k) at_top"
      using eventually_gt_at_top [of 0] by eventually_elim simp
    show "eventually (\<lambda>x::real. x / (1 + x\<^sup>2) ^ Suc k \<le> 1 / x) at_top"
      using eventually_gt_at_top [of 0]
    proof eventually_elim
      case (elim x)
      have "x * x \<le> (1 + x\<^sup>2) ^ 1" by (simp add: power2_eq_square)
      also have "\<dots> \<le> (1 + x\<^sup>2) ^ Suc k" by (intro power_increasing) simp_all
      finally have le: "x * x \<le> (1 + x\<^sup>2) ^ Suc k" .
      have "x / (1 + x\<^sup>2) ^ Suc k \<le> x / (x * x)"
        using elim by (intro divide_left_mono le mult_pos_pos zero_less_power) (simp_all add: add_pos_nonneg)
      then show ?case using elim by simp
    qed
  qed
  from tendsto_divide [OF tendsto_add [OF this tendsto_mult_left [OF Suc.IH, of "real (2 * k + 1)"]]
      tendsto_const [of "real (2 * Suc k)"]]
  show ?case unfolding eq by (simp add: wallis_W_simps field_simps)
qed

section \<open>The Gaussian integral\<close>

lemma gauss_lower_bound: "1 - x\<^sup>2 \<le> exp (- x\<^sup>2)" for x :: real
  using exp_ge_add_one_self [of "- x\<^sup>2"] by simp

lemma gauss_upper_bound: "exp (- x\<^sup>2) \<le> 1 / (1 + x\<^sup>2)" for x :: real
proof -
  have "1 + x\<^sup>2 \<le> exp (x\<^sup>2)" by (rule exp_ge_add_one_self)
  moreover have "0 < 1 + x\<^sup>2" by (simp add: add_pos_nonneg)
  ultimately have "1 / exp (x\<^sup>2) \<le> 1 / (1 + x\<^sup>2)"
    by (intro divide_left_mono) simp_all
  then show ?thesis by (simp add: exp_minus inverse_eq_divide)
qed

lemma gauss_primitive_mono: "x \<le> y \<Longrightarrow> gauss_primitive x \<le> gauss_primitive y"
  by (rule DERIV_nonneg_imp_nondecreasing [of x y gauss_primitive])
    (auto intro!: exI [of _ "exp (- t\<^sup>2)" for t] DERIV_gauss_primitive)

lemma DERIV_gauss_scaled:
  assumes s: "0 < s"
  shows "((\<lambda>x. gauss_primitive (s * x) / s) has_real_derivative exp (- (s * x)\<^sup>2)) (at x)"
proof -
  have "((\<lambda>x. gauss_primitive (s * x)) has_real_derivative exp (- (s * x)\<^sup>2) * s) (at x)"
    by (auto intro!: derivative_eq_intros DERIV_chain2 [where f = gauss_primitive] DERIV_gauss_primitive)
  then show ?thesis using s by (auto intro!: derivative_eq_intros)
qed

lemma exp_scaled: "exp (- (sqrt (real n) * x)\<^sup>2) = exp (- x\<^sup>2) ^ n"
  by (simp add: power_mult_distrib exp_of_nat_mult [symmetric])

lemma gauss_primitive_ge:
  assumes n: "0 < n"
  shows "sqrt (real n) * wallis_W (2 * n + 1) \<le> gauss_primitive (sqrt (real n))"
proof -
  define s where "s = sqrt (real n)"
  have s: "0 < s" using n by (simp add: s_def)
  define D where "D x = gauss_primitive (s * x) / s - wallis_P n x" for x
  have "D 0 \<le> D 1"
  proof (rule DERIV_nonneg_imp_nondecreasing [of 0 1 D])
    fix x :: real assume x: "0 \<le> x" "x \<le> 1"
    have "(D has_real_derivative (exp (- (s * x)\<^sup>2) - (1 - x\<^sup>2) ^ n)) (at x)"
      unfolding D_def by (intro derivative_intros DERIV_gauss_scaled s DERIV_wallis_P)
    moreover have "0 \<le> 1 - x\<^sup>2" using x by (simp add: power_le_one)
    then have "(1 - x\<^sup>2) ^ n \<le> exp (- x\<^sup>2) ^ n"
      by (intro power_mono gauss_lower_bound)
    ultimately show "\<exists>d. (D has_real_derivative d) (at x) \<and> 0 \<le> d"
      by (intro exI [of _ "exp (- (s * x)\<^sup>2) - (1 - x\<^sup>2) ^ n"]) (simp add: s_def exp_scaled)
  qed simp
  then have "wallis_P n 1 \<le> gauss_primitive s / s"
    by (simp add: D_def wallis_P_0 gauss_primitive_0)
  then show ?thesis using s by (simp add: field_simps wallis_P_1 s_def)
qed

lemma gauss_primitive_le:
  assumes x: "0 \<le> x"
  shows "gauss_primitive (sqrt (real (Suc k)) * x) / sqrt (real (Suc k)) \<le> wallis_R k x"
proof -
  define s where "s = sqrt (real (Suc k))"
  have s: "0 < s" by (simp add: s_def)
  define D where "D x = wallis_R k x - gauss_primitive (s * x) / s" for x
  have "D 0 \<le> D x"
  proof (rule DERIV_nonneg_imp_nondecreasing [of 0 x D])
    fix y :: real assume "0 \<le> y" "y \<le> x"
    have "(D has_real_derivative (1 / (1 + y\<^sup>2) ^ Suc k - exp (- (s * y)\<^sup>2))) (at y)"
      unfolding D_def by (intro derivative_intros DERIV_gauss_scaled s DERIV_wallis_R)
    moreover have "exp (- y\<^sup>2) ^ Suc k \<le> (1 / (1 + y\<^sup>2)) ^ Suc k"
      by (intro power_mono gauss_upper_bound) simp
    moreover have "exp (- (s * y)\<^sup>2) = exp (- y\<^sup>2) ^ Suc k"
      unfolding s_def by (rule exp_scaled)
    ultimately show "\<exists>d. (D has_real_derivative d) (at y) \<and> 0 \<le> d"
      by (intro exI [of _ "1 / (1 + y\<^sup>2) ^ Suc k - exp (- (s * y)\<^sup>2)"])
        (simp add: power_one_over del: power_Suc)
  qed (rule x)
  then show ?thesis by (simp add: D_def wallis_R_0 gauss_primitive_0 s_def)
qed

lemma gauss_primitive_limit: "(gauss_primitive \<longlongrightarrow> sqrt pi / 2) at_top"
proof -
  have bound: "gauss_primitive (real i) \<le> pi / 2" for i :: nat
  proof -
    have "gauss_primitive (sqrt (real (Suc 0)) * real i) / sqrt (real (Suc 0)) \<le> wallis_R 0 (real i)"
      by (rule gauss_primitive_le) simp
    then have "gauss_primitive (real i) \<le> arctan (real i)" by simp
    also have "\<dots> \<le> pi / 2" using arctan_ubound [of "real i"] by simp
    finally show ?thesis .
  qed
  have "incseq (\<lambda>i. gauss_primitive (real i))"
    by (intro incseq_SucI gauss_primitive_mono) simp
  then obtain G where G: "(\<lambda>i. gauss_primitive (real i)) \<longlonglongrightarrow> G"
    using incseq_convergent [of "\<lambda>i. gauss_primitive (real i)" "pi / 2"] bound by blast
  have "mono gauss_primitive" by (intro monoI gauss_primitive_mono)
  then have lim: "(gauss_primitive \<longlongrightarrow> G) at_top"
    using G by (rule tendsto_at_topI_sequentially_real)
  have le_G: "gauss_primitive x \<le> G" for x
  proof (rule tendsto_lowerbound [OF lim])
    show "eventually (\<lambda>y. gauss_primitive x \<le> gauss_primitive y) at_top"
      using eventually_ge_at_top [of x] by eventually_elim (rule gauss_primitive_mono)
  qed simp
  have G0: "0 \<le> G" using le_G [of 0] by (simp add: gauss_primitive_0)
  have lower: "real n / real (Suc n) * (pi / 4) \<le> G\<^sup>2" if n: "1 \<le> n" for n
  proof -
    define s where "s = sqrt (real n)"
    have s: "0 < s" using n by (simp add: s_def)
    have W: "wallis_W (Suc (2 * n + 1)) \<le> wallis_W (2 * n + 1)" by (rule wallis_W_antimono)
    have "real n * (pi / (2 * real (Suc (2 * n + 1)))) = s\<^sup>2 * (wallis_W (2 * n + 1) * wallis_W (Suc (2 * n + 1)))"
      unfolding wallis_W_prod using n by (simp add: s_def)
    also have "\<dots> \<le> s\<^sup>2 * (wallis_W (2 * n + 1) * wallis_W (2 * n + 1))"
      using wallis_W_pos [of "2 * n + 1"] W by (intro mult_left_mono) simp_all
    also have "\<dots> = (s * wallis_W (2 * n + 1))\<^sup>2" by (simp add: power2_eq_square)
    also have "\<dots> \<le> G\<^sup>2"
    proof (rule power_mono)
      have "s * wallis_W (2 * n + 1) \<le> gauss_primitive s"
        unfolding s_def using n by (intro gauss_primitive_ge) simp
      then show "s * wallis_W (2 * n + 1) \<le> G" using le_G [of s] by simp
      show "0 \<le> s * wallis_W (2 * n + 1)" using s wallis_W_pos [of "2 * n + 1"] by simp
    qed
    finally show ?thesis by (simp add: field_simps)
  qed
  have upper: "G\<^sup>2 \<le> real (Suc k) / real k * (pi / 4)" if k: "1 \<le> k" for k
  proof -
    define s where "s = sqrt (real (Suc k))"
    have s: "0 < s" by (simp add: s_def)
    have "((\<lambda>x. gauss_primitive (s * x) / s) \<longlongrightarrow> G / s) at_top"
    proof -
      have "filterlim (\<lambda>x. s * x) at_top at_top"
        using s by (intro filterlim_tendsto_pos_mult_at_top [OF tendsto_const]) (auto simp: filterlim_ident)
      then have "((\<lambda>x. gauss_primitive (s * x)) \<longlongrightarrow> G) at_top"
        by (rule filterlim_compose [OF lim])
      from tendsto_divide [OF this tendsto_const [of s]] show ?thesis using s by simp
    qed
    moreover have "eventually (\<lambda>x. gauss_primitive (s * x) / s \<le> wallis_R k x) at_top"
      using eventually_ge_at_top [of 0] unfolding s_def by eventually_elim (rule gauss_primitive_le)
    ultimately have "G / s \<le> wallis_W (2 * k)"
      by (intro tendsto_le [OF _ wallis_R_lim]) simp_all
    then have Gs: "G \<le> s * wallis_W (2 * k)" using s by (simp add: field_simps)
    obtain j where j: "2 * k = Suc j" using k by (cases k) simp_all
    have W: "wallis_W (Suc j) \<le> wallis_W j" by (rule wallis_W_antimono)
    have "G\<^sup>2 \<le> (s * wallis_W (2 * k))\<^sup>2" by (rule power_mono [OF Gs G0])
    also have "\<dots> = s\<^sup>2 * (wallis_W (Suc j) * wallis_W (Suc j))" by (simp add: power2_eq_square j)
    also have "\<dots> \<le> s\<^sup>2 * (wallis_W j * wallis_W (Suc j))"
      using wallis_W_pos [of "Suc j"] W by (intro mult_left_mono mult_right_mono) simp_all
    also have "\<dots> = real (Suc k) * (pi / (2 * real (2 * k)))"
      unfolding wallis_W_prod by (simp add: s_def j)
    finally show ?thesis using k by (simp add: field_simps)
  qed
  have "pi / 4 \<le> G\<^sup>2"
  proof (rule LIMSEQ_le_const2)
    show "(\<lambda>n. real n / real (Suc n) * (pi / 4)) \<longlonglongrightarrow> pi / 4"
      using tendsto_mult [OF LIMSEQ_n_over_Suc_n tendsto_const [of "pi / 4"]] by simp
    show "\<exists>N. \<forall>n\<ge>N. real n / real (Suc n) * (pi / 4) \<le> G\<^sup>2"
      using lower by blast
  qed
  moreover have "G\<^sup>2 \<le> pi / 4"
  proof (rule LIMSEQ_le_const)
    show "(\<lambda>k. real (Suc k) / real k * (pi / 4)) \<longlonglongrightarrow> pi / 4"
      using tendsto_mult [OF LIMSEQ_Suc_n_over_n tendsto_const [of "pi / 4"]] by simp
    show "\<exists>N. \<forall>k\<ge>N. G\<^sup>2 \<le> real (Suc k) / real k * (pi / 4)"
      using upper by blast
  qed
  ultimately have "G\<^sup>2 = pi / 4" by simp
  then have "sqrt (pi / 4) = G" using G0 by (intro real_sqrt_unique)
  moreover have "sqrt (pi / 4) = sqrt pi / 2"
    using real_sqrt_divide [of pi 4] real_sqrt_abs [of 2] by simp
  ultimately show ?thesis using lim by simp
qed

lemma gauss_half_line_integral: "half_line_integral (\<lambda>x. exp (- x\<^sup>2)) (sqrt pi / 2)"
proof -
  have "isCont gauss_primitive 0"
    using DERIV_gauss_primitive [of 0] by (rule DERIV_isCont)
  then have "(gauss_primitive \<longlongrightarrow> 0) (at 0)"
    by (simp add: isCont_def gauss_primitive_0)
  then have "(gauss_primitive \<longlongrightarrow> 0) (at_right 0)"
    by (rule filterlim_mono) (simp_all add: at_le)
  then show ?thesis
    unfolding half_line_integral_def
    using DERIV_gauss_primitive gauss_primitive_limit by blast
qed

section \<open>Integrals of separable Gaussians over a half-plane\<close>

lemma half_line_integral_cong:
  assumes "\<And>x. 0 < x \<Longrightarrow> f x = g x"
  shows "half_line_integral f L \<longleftrightarrow> half_line_integral g L"
  unfolding half_line_integral_def using assms by simp

lemma line_integral_unique:
  assumes "line_integral g L" "line_integral g L'"
  shows "L = L'"
  using assms unfolding line_integral_def
  by (metis half_line_integral_unique)

lemma forward_half_integral_unique:
  assumes "forward_half_integral q L" "forward_half_integral q L'"
  shows "L = L'"
proof -
  from assms(1) obtain g where g: "\<And>e. half_line_integral (\<lambda>xi. q xi e) (g e)" "line_integral g L"
    unfolding forward_half_integral_def by blast
  from assms(2) obtain g' where g': "\<And>e. half_line_integral (\<lambda>xi. q xi e) (g' e)" "line_integral g' L'"
    unfolding forward_half_integral_def by blast
  have "g = g'" by (rule ext) (rule half_line_integral_unique [OF g(1) g'(1)])
  then show ?thesis using g(2) g'(2) by (simp add: line_integral_unique)
qed

lemma gauss_scaled_integral:
  assumes A: "0 < A"
  shows "half_line_integral (\<lambda>x. K * exp (- (x / A)\<^sup>2)) (K * (A * (sqrt pi / 2)))"
proof -
  have "half_line_integral (\<lambda>x. exp (- (1 / A * x)\<^sup>2)) (sqrt pi / 2 / (1 / A))"
    using A by (intro half_line_integral_scale [OF gauss_half_line_integral, of "1 / A"]) simp
  moreover have "sqrt pi / 2 / (1 / A) = A * (sqrt pi / 2)" by simp
  moreover have "(\<lambda>x. exp (- (1 / A * x)\<^sup>2)) = (\<lambda>x. exp (- (x / A)\<^sup>2))" by simp
  ultimately have "half_line_integral (\<lambda>x. exp (- (x / A)\<^sup>2)) (A * (sqrt pi / 2))"
    by (simp only:)
  then show ?thesis by (rule half_line_integral_mult)
qed

lemma gauss_line_integral:
  assumes B: "0 < B"
  shows "line_integral (\<lambda>y. K * exp (- (y / B)\<^sup>2)) (K * (B * sqrt pi))"
  unfolding line_integral_def
  using gauss_scaled_integral [OF B, of K]
  by (intro exI [of _ "K * (B * (sqrt pi / 2))"]) simp

lemma separable_forward_integral:
  assumes A: "0 < A" and B: "0 < B"
    and q: "\<And>xi e. 0 < xi \<Longrightarrow> q xi e = K * exp (- (xi / A)\<^sup>2) * exp (- (e / B)\<^sup>2)"
  shows "forward_half_integral q (K * A * B * pi / 2)"
proof -
  define g where "g e = (K * (A * (sqrt pi / 2))) * exp (- (e / B)\<^sup>2)" for e
  have "half_line_integral (\<lambda>xi. q xi e) (g e)" for e
  proof -
    have "half_line_integral (\<lambda>xi. (K * exp (- (e / B)\<^sup>2)) * exp (- (xi / A)\<^sup>2))
        ((K * exp (- (e / B)\<^sup>2)) * (A * (sqrt pi / 2)))"
      by (rule gauss_scaled_integral [OF A])
    moreover have "(K * exp (- (e / B)\<^sup>2)) * (A * (sqrt pi / 2)) = g e"
      by (simp add: g_def)
    ultimately show ?thesis
      using half_line_integral_cong [of "\<lambda>xi. q xi e"
          "\<lambda>xi. (K * exp (- (e / B)\<^sup>2)) * exp (- (xi / A)\<^sup>2)" "g e"] q
      by simp
  qed
  moreover have "line_integral g (K * A * B * pi / 2)"
  proof -
    have "line_integral g ((K * (A * (sqrt pi / 2))) * (B * sqrt pi))"
      unfolding g_def [abs_def] by (rule gauss_line_integral [OF B])
    moreover have "(K * (A * (sqrt pi / 2))) * (B * sqrt pi) = K * A * B * (sqrt pi * sqrt pi) / 2"
      by (simp add: algebra_simps)
    moreover have "sqrt pi * sqrt pi = pi" by simp
    ultimately show ?thesis by (simp only:)
  qed
  ultimately show ?thesis unfolding forward_half_integral_def by blast
qed

section \<open>C3: the integrals of the Goldak flux\<close>

lemma goldak_cell_flux:
  "goldak_cell s x_arc i j =
     goldak_flux s (ws_X s ! idx s i j - x_arc) (ws_Y s ! idx s i j - y_arc (ws_config s))"
  unfolding goldak_cell_def goldak_flux_def Let_def by (rule refl)

lemma goldak_heat_flux_cell_flux:
  "goldak_heat_flux_cell X Y x_arc y_arc' Q a' b' cf' cr' ff' fr' w i j =
     tig_goldak_flux Q a' b' cf' cr' ff' fr' (X ! (j * w + i) - x_arc) (Y ! (j * w + i) - y_arc')"
  unfolding goldak_heat_flux_cell_def tig_goldak_flux_def Let_def by (rule refl)

lemma gauss_exponent:
  assumes "A \<noteq> 0" "B \<noteq> (0::real)"
  shows "exp (- xi * xi / (A * A) - e * e / (B * B)) = exp (- (xi / A)\<^sup>2) * exp (- (e / B)\<^sup>2)"
  by (simp add: exp_add [symmetric] power2_eq_square)

lemma goldak_flux_forward:
  assumes a: "0 < cfg_a (ws_config s)" and b: "0 < cfg_b (ws_config s)"
  shows "forward_half_integral (goldak_flux s) (ff (ws_config s) * ws_Q_total s / 2)"
proof -
  define A where "A = cfg_a (ws_config s)"
  define B where "B = cfg_b (ws_config s)"
  define K where "K = (ff (ws_config s) * ws_Q_total s) / (A * B * pi)"
  have AB: "0 < A" "0 < B" using a b by (simp_all add: A_def B_def)
  have "forward_half_integral (goldak_flux s) (K * A * B * pi / 2)"
  proof (rule separable_forward_integral [OF AB])
    fix xi e :: real assume "0 < xi"
    then show "goldak_flux s xi e = K * exp (- (xi / A)\<^sup>2) * exp (- (e / B)\<^sup>2)"
      using AB gauss_exponent [of A B xi e]
      by (simp add: goldak_flux_def Let_def K_def A_def B_def)
  qed
  moreover have "K * A * B * pi / 2 = ff (ws_config s) * ws_Q_total s / 2"
    using AB by (simp add: K_def)
  ultimately show ?thesis by (simp only:)
qed

lemma goldak_flux_rearward:
  assumes a: "0 < cfg_a (ws_config s)" and b: "0 < cfg_b (ws_config s)"
  shows "rearward_half_integral (goldak_flux s) (fr (ws_config s) * ws_Q_total s / 2)"
proof -
  define A where "A = cfg_a (ws_config s)"
  define B where "B = cfg_b (ws_config s)"
  define K where "K = (fr (ws_config s) * ws_Q_total s) / (A * B * pi)"
  have AB: "0 < A" "0 < B" using a b by (simp_all add: A_def B_def)
  have "forward_half_integral (\<lambda>xi e. goldak_flux s (- xi) e) (K * A * B * pi / 2)"
  proof (rule separable_forward_integral [OF AB])
    fix xi e :: real assume "0 < xi"
    then show "goldak_flux s (- xi) e = K * exp (- (xi / A)\<^sup>2) * exp (- (e / B)\<^sup>2)"
      using AB gauss_exponent [of A B xi e]
      by (simp add: goldak_flux_def Let_def K_def A_def B_def)
  qed
  moreover have "K * A * B * pi / 2 = fr (ws_config s) * ws_Q_total s / 2"
    using AB by (simp add: K_def)
  ultimately show ?thesis unfolding rearward_half_integral_def by (simp only:)
qed

lemma tig_gauss_exponent:
  assumes "0 < c" "0 < (b::real)"
  shows "exp (- 3 * (xi * xi / (c * c) + e * e / (b * b)))
     = exp (- (xi / (c / sqrt 3))\<^sup>2) * exp (- (e / (b / sqrt 3))\<^sup>2)"
  using assms by (simp add: exp_add [symmetric] power2_eq_square power_divide field_simps)

lemma tig_flux_integral:
  assumes pos: "0 < a'" "0 < b'" "0 < c"
    and q: "\<And>xi e. 0 < xi \<Longrightarrow>
      q xi e = (6 * f * Q) / (a' * b' * c * pi * sqrt pi) * exp (- 3 * (xi * xi / (c * c) + e * e / (b' * b')))"
  shows "forward_half_integral q (f * Q / (a' * sqrt pi))"
proof -
  define A where "A = c / sqrt 3"
  define B where "B = b' / sqrt 3"
  define K where "K = (6 * f * Q) / (a' * b' * c * pi * sqrt pi)"
  have AB: "0 < A" "0 < B" using pos by (simp_all add: A_def B_def)
  have "forward_half_integral q (K * A * B * pi / 2)"
  proof (rule separable_forward_integral [OF AB])
    fix xi e :: real assume "0 < xi"
    then show "q xi e = K * exp (- (xi / A)\<^sup>2) * exp (- (e / B)\<^sup>2)"
      using tig_gauss_exponent [OF pos(3,2), of xi e] by (simp add: q K_def A_def B_def)
  qed
  moreover have "K * A * B * pi / 2 = f * Q / (a' * sqrt pi)"
  proof -
    have "sqrt 3 * sqrt 3 = (3::real)" by simp
    then have "A * B = c * b' / 3" by (simp add: A_def B_def)
    then have "K * A * B * pi / 2 = K * (c * b' / 3) * pi / 2" by (simp add: mult.assoc)
    also have "\<dots> = f * Q / (a' * sqrt pi)"
      using pos by (simp add: K_def field_simps)
    finally show ?thesis .
  qed
  ultimately show ?thesis by (simp only:)
qed

lemma tig_goldak_flux_forward:
  assumes "0 < a'" "0 < b'" "0 < cf'"
  shows "forward_half_integral (tig_goldak_flux Q a' b' cf' cr' ff' fr') (ff' * Q / (a' * sqrt pi))"
  by (rule tig_flux_integral [OF assms]) (simp add: tig_goldak_flux_def Let_def)

lemma tig_goldak_flux_rearward:
  assumes "0 < a'" "0 < b'" "0 < cr'"
  shows "rearward_half_integral (tig_goldak_flux Q a' b' cf' cr' ff' fr') (fr' * Q / (a' * sqrt pi))"
  unfolding rearward_half_integral_def
  by (rule tig_flux_integral [OF assms]) (simp add: tig_goldak_flux_def Let_def)

lemma default_ctor: "WeldingSimulation_ctor default_config = Inr default_sim"
  by (simp add: WeldingSimulation_ctor_def default_config_def INT_MAX_def INT_MIN_def default_sim_def)

lemma default_sim_flux_fields:
  "cfg_a (ws_config default_sim) = 5/1000" "cfg_b (ws_config default_sim) = 4/1000"
  "ff (ws_config default_sim) = 6/10" "ws_Q_total default_sim = (75/100) * 25 * 150"
  by (simp_all add: default_sim_def build_def Let_def adjust_eta_def default_config_def)

lemma default_forward_not_ff_Q:
  "\<not> forward_half_integral (goldak_flux default_sim)
       (ff (ws_config default_sim) * ws_Q_total default_sim)"
proof
  assume "forward_half_integral (goldak_flux default_sim)
       (ff (ws_config default_sim) * ws_Q_total default_sim)"
  moreover have "forward_half_integral (goldak_flux default_sim)
       (ff (ws_config default_sim) * ws_Q_total default_sim / 2)"
    by (rule goldak_flux_forward) (simp_all add: default_sim_flux_fields)
  ultimately have "ff (ws_config default_sim) * ws_Q_total default_sim
      = ff (ws_config default_sim) * ws_Q_total default_sim / 2"
    by (rule forward_half_integral_unique)
  then show False by (simp add: default_sim_flux_fields)
qed

lemma tig_default_forward_not_ff_Q:
  "\<not> forward_half_integral tig_default_goldak_flux
       (tig_ff tig_default_config
         * (tig_eta tig_default_config * tig_V tig_default_config * tig_I tig_default_config))"
proof
  assume "forward_half_integral tig_default_goldak_flux
       (tig_ff tig_default_config
         * (tig_eta tig_default_config * tig_V tig_default_config * tig_I tig_default_config))"
  moreover have "forward_half_integral tig_default_goldak_flux
       (tig_ff tig_default_config
         * (tig_eta tig_default_config * tig_V tig_default_config * tig_I tig_default_config)
         / (tig_a tig_default_config * sqrt pi))"
    unfolding tig_default_goldak_flux_def
    by (rule tig_goldak_flux_forward) (simp_all add: tig_default_config_def)
  ultimately have "tig_ff tig_default_config
         * (tig_eta tig_default_config * tig_V tig_default_config * tig_I tig_default_config)
      = tig_ff tig_default_config
         * (tig_eta tig_default_config * tig_V tig_default_config * tig_I tig_default_config)
         / (tig_a tig_default_config * sqrt pi)"
    by (rule forward_half_integral_unique)
  then have "(4/1000) * sqrt pi = 1" by (simp add: tig_default_config_def field_simps)
  moreover have "sqrt pi < sqrt 4" by (rule real_sqrt_less_mono) (rule pi_less_4)
  ultimately show False by simp
qed

text \<open>
  Claim C3, as the code has it. The arc position enters either flux only through the
  offsets \<open>xi = X - x_arc\<close> and \<open>eta = Y - y_arc\<close> (third and fourth part), so the integrals
  are the same for every arc position. With positive shape parameters and any \<open>Q_total\<close>:
  the flux of \<^verbatim>\<open>WeldingSimulation\<close>, with coefficient \<open>f Q_total / (a b \<pi>)\<close> and Gaussian
  \<open>exp (- xi\<^sup>2 / a\<^sup>2 - eta\<^sup>2 / b\<^sup>2)\<close>, integrates over the forward half-plane to
  \<open>ff Q_total / 2\<close> and over the rearward one to \<open>fr Q_total / 2\<close> (first part); the flux of
  \<^verbatim>\<open>TIGSimulator\<close>, with coefficient \<open>6 f Q_total / (a b c \<pi> \<surd>\<pi>)\<close> and Gaussian
  \<open>exp (- 3 (xi\<^sup>2 / c\<^sup>2 + eta\<^sup>2 / b\<^sup>2))\<close>, integrates to \<open>ff Q_total / (a \<surd>\<pi>)\<close> and to
  \<open>fr Q_total / (a \<surd>\<pi>)\<close> (second part).
\<close>

theorem goldak_half_plane_integrals:
  "(0 < cfg_a (ws_config s) \<and> 0 < cfg_b (ws_config s) \<longrightarrow>
      forward_half_integral (goldak_flux s) (ff (ws_config s) * ws_Q_total s / 2)
    \<and> rearward_half_integral (goldak_flux s) (fr (ws_config s) * ws_Q_total s / 2))
   \<and> (0 < a' \<and> 0 < b' \<and> 0 < cf' \<and> 0 < cr' \<longrightarrow>
      forward_half_integral (tig_goldak_flux Q a' b' cf' cr' ff' fr') (ff' * Q / (a' * sqrt pi))
    \<and> rearward_half_integral (tig_goldak_flux Q a' b' cf' cr' ff' fr') (fr' * Q / (a' * sqrt pi)))
   \<and> goldak_cell s x_arc i j =
        goldak_flux s (ws_X s ! idx s i j - x_arc) (ws_Y s ! idx s i j - y_arc (ws_config s))
   \<and> goldak_heat_flux_cell X Y x_arc' y_arc' Q a' b' cf' cr' ff' fr' w i' j' =
        tig_goldak_flux Q a' b' cf' cr' ff' fr' (X ! (j' * w + i') - x_arc') (Y ! (j' * w + i') - y_arc')"
  using goldak_flux_forward [of s] goldak_flux_rearward [of s]
    tig_goldak_flux_forward [of a' b' cf' Q cr' ff' fr']
    tig_goldak_flux_rearward [of a' b' cr' Q cf' ff' fr']
    goldak_cell_flux [of s x_arc i j]
    goldak_heat_flux_cell_flux [of X Y x_arc' y_arc' Q a' b' cf' cr' ff' fr' w i' j']
  by blast

theorem goldak_half_plane_integrals_witness:
  "(0 < cfg_a (ws_config default_sim) \<and> 0 < cfg_b (ws_config default_sim))
   \<and> forward_half_integral (goldak_flux default_sim)
        (ff (ws_config default_sim) * ws_Q_total default_sim / 2)
   \<and> rearward_half_integral (goldak_flux default_sim)
        (fr (ws_config default_sim) * ws_Q_total default_sim / 2)
   \<and> (0 < tig_a tig_default_config \<and> 0 < tig_b tig_default_config \<and>
      0 < tig_cf tig_default_config \<and> 0 < tig_cr tig_default_config)
   \<and> forward_half_integral tig_default_goldak_flux
        (tig_ff tig_default_config
          * (tig_eta tig_default_config * tig_V tig_default_config * tig_I tig_default_config)
          / (tig_a tig_default_config * sqrt pi))
   \<and> rearward_half_integral tig_default_goldak_flux
        (tig_fr tig_default_config
          * (tig_eta tig_default_config * tig_V tig_default_config * tig_I tig_default_config)
          / (tig_a tig_default_config * sqrt pi))"
proof -
  have ws: "0 < cfg_a (ws_config default_sim) \<and> 0 < cfg_b (ws_config default_sim)"
    by (simp add: default_sim_flux_fields)
  have tig: "0 < tig_a tig_default_config \<and> 0 < tig_b tig_default_config \<and>
      0 < tig_cf tig_default_config \<and> 0 < tig_cr tig_default_config"
    by (simp add: tig_default_config_def)
  show ?thesis
    unfolding tig_default_goldak_flux_def
    using ws tig
      goldak_half_plane_integrals [where s = default_sim
        and Q = "tig_eta tig_default_config * tig_V tig_default_config * tig_I tig_default_config"
        and a' = "tig_a tig_default_config" and b' = "tig_b tig_default_config"
        and cf' = "tig_cf tig_default_config" and cr' = "tig_cr tig_default_config"
        and ff' = "tig_ff tig_default_config" and fr' = "tig_fr tig_default_config"]
    by blast
qed

text \<open>
  Claim C3 as stated fails. The default \<^verbatim>\<open>WeldingSimulation\<close> has \<open>Q_total > 0\<close>, and its
  forward flux does not integrate to \<open>ff Q_total\<close> (it integrates to half of that); nor does the
  forward flux of the default \<^verbatim>\<open>TIGSimulator\<close> (it integrates to \<open>ff Q_total / (a \<surd>\<pi>)\<close> with
  \<open>a \<surd>\<pi> < 1\<close>).
\<close>

theorem goldak_half_plane_integrals_counterexample:
  "WeldingSimulation_ctor default_config = Inr default_sim
   \<and> 0 < ws_Q_total default_sim
   \<and> \<not> forward_half_integral (goldak_flux default_sim)
         (ff (ws_config default_sim) * ws_Q_total default_sim)
   \<and> 0 < tig_eta tig_default_config * tig_V tig_default_config * tig_I tig_default_config
   \<and> \<not> forward_half_integral tig_default_goldak_flux
         (tig_ff tig_default_config
           * (tig_eta tig_default_config * tig_V tig_default_config * tig_I tig_default_config))"
proof -
  have "0 < ws_Q_total default_sim" by (simp add: default_sim_flux_fields)
  moreover have "0 < tig_eta tig_default_config * tig_V tig_default_config * tig_I tig_default_config"
    by (simp add: tig_default_config_def)
  ultimately show ?thesis
    using default_ctor default_forward_not_ff_Q tig_default_forward_not_ff_Q by blast
qed

section \<open>Special values: agreement with real arithmetic where no divisor is zero\<close>

lemma value_of_add:
  "value_of a = Some x \<Longrightarrow> value_of b = Some y \<Longrightarrow> value_of (d_add a b) = Some (x + y)"
  by (cases a; cases b) (auto simp: d_add_def)

lemma value_of_neg: "value_of a = Some x \<Longrightarrow> value_of (d_neg a) = Some (- x)"
  by (cases a) auto

lemma value_of_sub:
  "value_of a = Some x \<Longrightarrow> value_of b = Some y \<Longrightarrow> value_of (d_sub a b) = Some (x - y)"
  using value_of_add [of a x "d_neg b" "- y"] value_of_neg [of b y] by (simp add: d_sub_def)

lemma value_of_mul:
  "value_of a = Some x \<Longrightarrow> value_of b = Some y \<Longrightarrow> value_of (d_mul a b) = Some (x * y)"
  by (cases a; cases b) (auto simp: d_mul_def signed_zero_def)

lemma value_of_div:
  "value_of a = Some x \<Longrightarrow> value_of b = Some y \<Longrightarrow> y \<noteq> 0 \<Longrightarrow> value_of (d_div a b) = Some (x / y)"
  by (cases a; cases b) (auto simp: d_div_def signed_zero_def)

lemma d_less_value:
  "value_of a = Some x \<Longrightarrow> value_of b = Some y \<Longrightarrow> d_less a b \<longleftrightarrow> x < y"
  by (cases a; cases b) (auto simp: d_less_def)

lemma value_of_min:
  "value_of a = Some x \<Longrightarrow> value_of b = Some y \<Longrightarrow> value_of (d_min a b) = Some (min x y)"
  by (auto simp: d_min_def d_less_value min_def)

lemma value_of_max:
  "value_of a = Some x \<Longrightarrow> value_of b = Some y \<Longrightarrow> value_of (d_max a b) = Some (max x y)"
  by (auto simp: d_max_def d_less_value max_def)

lemma Material_get_nonzero:
  "mat_k m \<noteq> 0 \<Longrightarrow> Material_get_k m T \<noteq> 0"
  "mat_cp m \<noteq> 0 \<Longrightarrow> Material_get_cp m T \<noteq> 0"
  "mat_rho m \<noteq> 0 \<Longrightarrow> Material_get_rho m T \<noteq> 0"
proof -
  define r where "r = (T - mat_T_crit m) / (mat_T_melt m - mat_T_crit m)"
  have r: "0 \<le> r \<and> r < 1" if "\<not> T < mat_T_crit m" "T < mat_T_melt m"
    using that by (simp add: r_def field_simps)
  have f: "1 + r * (1/10) \<noteq> 0" "1 + r * (2/10) \<noteq> 0" "1 - r * (5/100) \<noteq> 0"
    if "\<not> T < mat_T_crit m" "T < mat_T_melt m"
    using r [OF that] by auto
  show "mat_k m \<noteq> 0 \<Longrightarrow> Material_get_k m T \<noteq> 0"
    using f(1) by (simp add: Material_get_k_def r_def)
  show "mat_cp m \<noteq> 0 \<Longrightarrow> Material_get_cp m T \<noteq> 0"
    using f(2) by (simp add: Material_get_cp_def r_def)
  show "mat_rho m \<noteq> 0 \<Longrightarrow> Material_get_rho m T \<noteq> 0"
    using f(3) by (simp add: Material_get_rho_def r_def)
qed

lemma divisors_of_cell:
  assumes "ws_divisors_nonzero s" "n < ws_N s"
  shows "fst (computeMaterialProperties s T_vec) ! n \<noteq> 0"
    "snd (snd (computeMaterialProperties s T_vec)) ! n * fst (snd (computeMaterialProperties s T_vec)) ! n \<noteq> 0"
  using assms Material_get_nonzero
  by (auto simp: computeMaterialProperties_nth ws_divisors_nonzero_def owning_material_def)

lemma solve_cell_ieee_exact:
  assumes k: "k_arr ! idx s i j \<noteq> 0" and rc: "rho_arr ! idx s i j * cp_arr ! idx s i j \<noteq> 0"
    and d: "ws_dx s \<noteq> 0" "ws_dy s \<noteq> 0"
  shows "value_of (solve_cell_ieee s Qvol k_arr cp_arr rho_arr i j)
           = Some (solve_cell s Qvol k_arr cp_arr rho_arr i j)"
proof (cases "isBoundary s i j")
  case True
  then show ?thesis by (simp add: solve_cell_ieee_def solve_cell_def Let_def)
next
  case False
  define n where "n = idx s i j"
  define T where "T = ws_T s"
  define dx where "dx = ws_dx s"
  define dy where "dy = ws_dy s"
  define rho_cp where "rho_cp = d_mul (Num (rho_arr ! n)) (Num (cp_arr ! n))"
  define alpha where "alpha = d_div (Num (k_arr ! n)) rho_cp"
  define lx where "lx = d_div (d_add (d_sub (Num (T ! idx s (i + 1) j)) (d_mul (Num 2) (Num (T ! n))))
                               (Num (T ! idx s (i - 1) j))) (d_mul (Num dx) (Num dx))"
  define ly where "ly = d_div (d_add (d_sub (Num (T ! idx s i (j + 1))) (d_mul (Num 2) (Num (T ! n))))
                               (Num (T ! idx s i (j - 1)))) (d_mul (Num dy) (Num dy))"
  define hs where "hs = d_div (Num (Qvol ! n)) rho_cp"
  define mds where "mds = d_div (Num (4/10))
      (d_mul alpha (d_add (d_div (Num 1) (d_mul (Num dx) (Num dx))) (d_div (Num 1) (d_mul (Num dy) (Num dy)))))"
  define dte where "dte = d_min (Num (dt (ws_config s))) mds"
  define v where "v = d_add (Num (T ! n)) (d_mul dte (d_add (d_mul alpha (d_add lx ly)) hs))"
  note ops = value_of_add value_of_sub value_of_mul value_of_div value_of_min value_of.simps(1)
  have a: "alpha' \<noteq> 0" if "alpha' = k_arr ! n / (rho_arr ! n * cp_arr ! n)" for alpha'
    using that k rc by (simp add: n_def)
  have rcv: "value_of rho_cp = Some (rho_arr ! n * cp_arr ! n)"
    unfolding rho_cp_def by (intro ops)
  have av: "value_of alpha = Some (k_arr ! n / (rho_arr ! n * cp_arr ! n))"
    unfolding alpha_def using rc by (intro ops rcv) (simp add: n_def)
  have lxv: "value_of lx = Some ((T ! idx s (i + 1) j - 2 * T ! n + T ! idx s (i - 1) j) / (dx * dx))"
    unfolding lx_def using d by (intro ops) (simp add: dx_def)
  have lyv: "value_of ly = Some ((T ! idx s i (j + 1) - 2 * T ! n + T ! idx s i (j - 1)) / (dy * dy))"
    unfolding ly_def using d by (intro ops) (simp add: dy_def)
  have hsv: "value_of hs = Some (Qvol ! n / (rho_arr ! n * cp_arr ! n))"
    unfolding hs_def using rc by (intro ops rcv) (simp add: n_def)
  have pos: "1 / (dx * dx) + 1 / (dy * dy) \<noteq> 0"
  proof -
    have "0 < dx\<^sup>2" "0 < dy\<^sup>2" using d by (simp_all add: dx_def dy_def)
    then have "0 < 1 / (dx * dx)" "0 < 1 / (dy * dy)" by (simp_all add: power2_eq_square)
    then show ?thesis by linarith
  qed
  have mdsv: "value_of mds = Some ((4/10) / (k_arr ! n / (rho_arr ! n * cp_arr ! n) * (1 / (dx * dx) + 1 / (dy * dy))))"
    unfolding mds_def using d pos a by (intro ops av) (simp_all add: dx_def dy_def)
  have dtev: "value_of dte = Some (min (dt (ws_config s))
      ((4/10) / (k_arr ! n / (rho_arr ! n * cp_arr ! n) * (1 / (dx * dx) + 1 / (dy * dy)))))"
    unfolding dte_def by (intro ops mdsv)
  have vv: "value_of v = Some (T ! n + min (dt (ws_config s))
      ((4/10) / (k_arr ! n / (rho_arr ! n * cp_arr ! n) * (1 / (dx * dx) + 1 / (dy * dy))))
      * (k_arr ! n / (rho_arr ! n * cp_arr ! n)
          * ((T ! idx s (i + 1) j - 2 * T ! n + T ! idx s (i - 1) j) / (dx * dx)
             + (T ! idx s i (j + 1) - 2 * T ! n + T ! idx s i (j - 1)) / (dy * dy))
         + Qvol ! n / (rho_arr ! n * cp_arr ! n)))"
    unfolding v_def by (intro ops dtev av lxv lyv hsv)
  have l1: "d_less (Num T_MAX_REASONABLE) v \<longleftrightarrow> T_MAX_REASONABLE < the (value_of v)"
    using d_less_value [OF value_of.simps(1) vv] vv by simp
  have l2: "d_less v (Num (T0 (ws_config s))) \<longleftrightarrow> the (value_of v) < T0 (ws_config s)"
    using d_less_value [OF vv value_of.simps(1)] vv by simp
  have "solve_cell_ieee s Qvol k_arr cp_arr rho_arr i j =
      (if d_less (Num T_MAX_REASONABLE) v then Num T_MAX_REASONABLE
       else if d_less v (Num (T0 (ws_config s))) then Num (T0 (ws_config s)) else v)"
    using False
    by (simp add: solve_cell_ieee_def Let_def v_def dte_def mds_def hs_def lx_def ly_def alpha_def
        rho_cp_def n_def T_def dx_def dy_def)
  then show ?thesis
    using False vv
    by (simp add: l1 l2 solve_cell_def Let_def n_def T_def dx_def dy_def)
qed

lemma nth_solveTimeStep_ieee:
  assumes "ws_N s = ws_nx s * ws_ny s" "i < ws_nx s" "j < ws_ny s"
  shows "fst (solveTimeStep_ieee s t Qvol) ! idx s i j =
     solve_cell_ieee s Qvol (fst (computeMaterialProperties s (ws_T s)))
       (fst (snd (computeMaterialProperties s (ws_T s))))
       (snd (snd (computeMaterialProperties s (ws_T s)))) i j"
    "snd (solveTimeStep_ieee s t Qvol) ! idx s i j =
       d_max (Num (ws_T_max s ! idx s i j)) (fst (solveTimeStep_ieee s t Qvol) ! idx s i j)"
  using assms idx_lt [OF assms(2,3)]
  by (simp_all add: solveTimeStep_ieee_def split_beta Let_def idx_def nth_full_sweep)

lemma solveTimeStep_ieee_exact:
  assumes "ws_divisors_nonzero s" "ws_N s = ws_nx s * ws_ny s" "i < ws_nx s" "j < ws_ny s"
  shows "value_of (fst (solveTimeStep_ieee s t Qvol) ! idx s i j)
           = Some (ws_T (solveTimeStep s t Qvol) ! idx s i j)"
    "value_of (snd (solveTimeStep_ieee s t Qvol) ! idx s i j)
           = Some (ws_T_max (solveTimeStep s t Qvol) ! idx s i j)"
proof -
  have n: "idx s i j < ws_N s" using idx_lt [OF assms(3,4)] assms(2) by simp
  show T: "value_of (fst (solveTimeStep_ieee s t Qvol) ! idx s i j)
           = Some (ws_T (solveTimeStep s t Qvol) ! idx s i j)"
    unfolding nth_solveTimeStep_ieee(1) [OF assms(2-4)] nth_solveTimeStep_T [OF assms(2-4)]
    using divisors_of_cell [OF assms(1) n] assms(1)
    by (intro solve_cell_ieee_exact) (simp_all add: ws_divisors_nonzero_def)
  show "value_of (snd (solveTimeStep_ieee s t Qvol) ! idx s i j)
           = Some (ws_T_max (solveTimeStep s t Qvol) ! idx s i j)"
    unfolding nth_solveTimeStep_ieee(2) [OF assms(2-4)] nth_solveTimeStep_T_max [OF n]
    by (intro value_of_max T) simp
qed

section \<open>Divisors of built objects\<close>

lemma build_divisors:
  assumes "2 \<le> nx cfg" "2 \<le> ny cfg" "Lx cfg \<noteq> 0" "Ly cfg \<noteq> 0"
    "mat_1_k cfg \<noteq> 0" "mat_1_rho cfg \<noteq> 0" "mat_1_cp cfg \<noteq> 0"
    "mat_2_k cfg \<noteq> 0" "mat_2_rho cfg \<noteq> 0" "mat_2_cp cfg \<noteq> 0"
  shows "ws_divisors_nonzero (build cfg)"
  using assms
  by (simp add: ws_divisors_nonzero_def build_spacing build_materials Material_ctor_def)

lemma build_source_divisors:
  assumes "thickness cfg \<noteq> 0" "cfg_a cfg \<noteq> 0" "cfg_b cfg \<noteq> 0"
  shows "ws_source_divisors_nonzero (build cfg)"
  using assms by (simp add: ws_source_divisors_nonzero_def build_simps adjust_eta_fields)

lemma tig_build_divisors:
  assumes "tig_nx c \<noteq> 1" "tig_ny c \<noteq> 1" "tig_Lx c \<noteq> 0" "tig_Ly c \<noteq> 0"
    "tig_mat_1_rho c \<noteq> 0" "tig_mat_1_cp c \<noteq> 0" "tig_mat_2_rho c \<noteq> 0" "tig_mat_2_cp c \<noteq> 0"
  shows "tig_divisors_nonzero (tig_build c)"
  using assms by (simp add: tig_divisors_nonzero_def tig_build_simps tig_build_more)

lemma run_body_divisors:
  "ws_divisors_nonzero (rs_sim (run_body r)) = ws_divisors_nonzero (rs_sim r)"
  "ws_source_divisors_nonzero (rs_sim (run_body r)) = ws_source_divisors_nonzero (rs_sim r)"
  by (simp_all add: ws_divisors_nonzero_def ws_source_divisors_nonzero_def run_body_def Let_def
      updateMonitoring_def solveTimeStep_def split_beta)


lemma hot_arc_divisors:
  "ws_divisors_nonzero hot_arc_sim" "ws_source_divisors_nonzero hot_arc_sim"
  unfolding hot_arc_sim_def
  by (rule build_divisors build_source_divisors; simp add: hot_arc_config_def default_config_def)+


lemma small_divisors:
  "ws_divisors_nonzero small_sim" "ws_source_divisors_nonzero small_sim"
  unfolding small_sim_def
  by (rule build_divisors build_source_divisors; simp add: small_config_def default_config_def)+

lemma tig_default_divisors:
  "tig_divisors_nonzero tig_default_sim" "tig_source_divisors_nonzero tig_default_sim"
  "tig_divisors_nonzero tig_default_heated"
  by (simp_all add: tig_divisors_nonzero_def tig_source_divisors_nonzero_def
      tig_default_sim_fields tig_default_heated_fields tig_default_config_def)




section \<open>Scenario: the first iteration after \<^verbatim>\<open>--voltage 0 --mat1_cp 0\<close>\<close>










section \<open>Scenario: the first iterations of the default configurations\<close>


















lemma ws_interior_update_ieee:
  assumes N: "ws_N s = ws_nx s * ws_ny s" and d: "ws_divisors_nonzero s"
    and i: "0 < i" "i < ws_nx s - 1" and j: "0 < j" "j < ws_ny s - 1"
  shows "value_of (fst (solveTimeStep_ieee s t Qvol) ! idx s i j)
           = Some (clamp_T (T0 (ws_config s)) (ws_claimed_cell s Qvol i j))"
proof -
  have ii: "i < ws_nx s" and jj: "j < ws_ny s" using i j by simp_all
  show ?thesis
    unfolding solveTimeStep_ieee_exact(1) [OF d N ii jj] ws_interior_update [OF N i j] ..
qed

section \<open>C1: the interior update\<close>

text \<open>
  Claim C1, as the code has it. Where no divisor of the step is zero,
  \<^verbatim>\<open>WeldingSimulation::solveTimeStep\<close> assigns to every interior cell \<open>(i, j)\<close> the value the
  claim states, \<open>ws_claimed_cell\<close>: the previous temperature plus \<open>dt_eff\<close> times (\<open>alpha\<close>
  times the five-point Laplacian of the previous field plus \<open>Qvol / (rho cp)\<close>), with
  \<open>k, rho, cp\<close> of the owning material at the cell's previous temperature and \<open>dt_eff\<close>
  computed for this cell; the statement that follows the assignment clamps it, so that the
  field holds \<open>clamp_T\<close> of that value (first part), and the arithmetic of special values
  returns the same finite number (second part). In \<^verbatim>\<open>TIGSimulator::time_step_explicit\<close> the
  cell receives the same expression with the nominal \<open>dt\<close> in place of \<open>dt_eff\<close>, and there
  is no clamp (third part). With the default materials and spacing the two materials have
  different effective steps (fourth part).
\<close>

theorem interior_cell_update:
  "(ws_N s = ws_nx s * ws_ny s \<and> ws_divisors_nonzero s \<and>
      0 < i \<and> i < ws_nx s - 1 \<and> 0 < j \<and> j < ws_ny s - 1 \<longrightarrow>
      ws_T (solveTimeStep s t Qvol) ! idx s i j
        = clamp_T (T0 (ws_config s)) (ws_claimed_cell s Qvol i j))
   \<and> (ws_N s = ws_nx s * ws_ny s \<and> ws_divisors_nonzero s \<and>
      0 < i \<and> i < ws_nx s - 1 \<and> 0 < j \<and> j < ws_ny s - 1 \<longrightarrow>
      value_of (fst (solveTimeStep_ieee s t Qvol) ! idx s i j)
        = Some (clamp_T (T0 (ws_config s)) (ws_claimed_cell s Qvol i j)))
   \<and> (tig_N g = tig_w g * tig_h g \<and> tig_divisors_nonzero g \<and>
      0 < i' \<and> i' < tig_w g - 1 \<and> 0 < j' \<and> j' < tig_h g - 1 \<longrightarrow>
      (\<exists>g'. time_step_explicit (compute_material_properties g) = Inr g' \<and>
             tig_T g' ! (j' * tig_w g + i') = tig_nominal_cell g i' j'))
   \<and> dt_eff (dt default_config)
        (mat_1_k default_config / (mat_1_rho default_config * mat_1_cp default_config))
        (1/1000) (1/1000)
      < dt_eff (dt default_config)
        (mat_2_k default_config / (mat_2_rho default_config * mat_2_cp default_config))
        (1/1000) (1/1000)"
  using ws_interior_update [of s i j t Qvol] ws_interior_update_ieee [of s i j t Qvol]
    tig_interior_update [of g i' j']
  unfolding default_steps_differ
  by simp

theorem interior_cell_update_witness:
  "(ws_N hot_arc_sim = ws_nx hot_arc_sim * ws_ny hot_arc_sim \<and> ws_divisors_nonzero hot_arc_sim \<and>
      (0::nat) < 20 \<and> 20 < ws_nx hot_arc_sim - 1 \<and> (0::nat) < 50 \<and> 50 < ws_ny hot_arc_sim - 1)
   \<and> ws_T (solveTimeStep hot_arc_sim (1/50) (step_Qvol (run_init hot_arc_sim))) ! idx hot_arc_sim 20 50
        = clamp_T (T0 (ws_config hot_arc_sim))
            (ws_claimed_cell hot_arc_sim (step_Qvol (run_init hot_arc_sim)) 20 50)
   \<and> value_of (fst (solveTimeStep_ieee hot_arc_sim (1/50) (step_Qvol (run_init hot_arc_sim)))
                ! idx hot_arc_sim 20 50)
        = Some (clamp_T (T0 (ws_config hot_arc_sim))
            (ws_claimed_cell hot_arc_sim (step_Qvol (run_init hot_arc_sim)) 20 50))
   \<and> (tig_N tig_default_heated = tig_w tig_default_heated * tig_h tig_default_heated \<and>
      tig_divisors_nonzero tig_default_heated \<and>
      (0::nat) < 20 \<and> 20 < tig_w tig_default_heated - 1 \<and> (0::nat) < 50 \<and>
      50 < tig_h tig_default_heated - 1)
   \<and> (\<exists>g'. time_step_explicit (compute_material_properties tig_default_heated) = Inr g' \<and>
             tig_T g' ! (50 * tig_w tig_default_heated + 20)
               = tig_nominal_cell tig_default_heated 20 50)"
proof -
  have a: "ws_N hot_arc_sim = ws_nx hot_arc_sim * ws_ny hot_arc_sim \<and>
      ws_divisors_nonzero hot_arc_sim \<and> (0::nat) < 20 \<and>
      20 < ws_nx hot_arc_sim - 1 \<and> (0::nat) < 50 \<and> 50 < ws_ny hot_arc_sim - 1"
    using hot_arc_divisors(1) by (simp add: hot_arc_sim_fields)
  have b: "tig_N tig_default_heated = tig_w tig_default_heated * tig_h tig_default_heated \<and>
      tig_divisors_nonzero tig_default_heated \<and>
      (0::nat) < 20 \<and> 20 < tig_w tig_default_heated - 1 \<and> (0::nat) < 50 \<and>
      50 < tig_h tig_default_heated - 1"
    using tig_default_divisors(3) by (simp add: tig_default_heated_fields)
  show ?thesis
    using interior_cell_update [where s = hot_arc_sim and i = 20 and j = 50 and t = "1/50"
        and Qvol = "step_Qvol (run_init hot_arc_sim)" and g = tig_default_heated
        and i' = 20 and j' = 50] a b
    by blast
qed

text \<open>
  Claim C1 as stated fails for \<^verbatim>\<open>TIGSimulator\<close>. With the compiled-in default configuration,
  where no divisor is zero, its first step leaves in cell \<open>(20, 50)\<close> a value other than the
  claimed one: it integrates with \<open>dt = 0.02\<close> where the claim has \<open>dt_eff = 157/9000\<close>.
\<close>

theorem interior_cell_update_counterexample:
  "TIGSimulator_ctor tig_default_config = Inr tig_default_sim
   \<and> tig_divisors_nonzero tig_default_sim
   \<and> tig_source_divisors_nonzero tig_default_sim
   \<and> tig_step tig_default_sim (1 * tig_dt tig_default_config)
       = Inr (projr (tig_step tig_default_sim (1 * tig_dt tig_default_config)))
   \<and> tig_T (projr (tig_step tig_default_sim (1 * tig_dt tig_default_config))) ! (50 * 151 + 20)
       \<noteq> tig_claimed_cell tig_default_heated 20 50"
  using tig_default_ctor tig_default_step(1) tig_default_deviates tig_default_divisors(1,2)
  by simp

section \<open>C2: the running peak\<close>




section \<open>C5: the clamp\<close>




section \<open>C7: no source, no heating\<close>




end
